(* ===== verification/Prelude.thy ===== *)
theory Prelude
  imports Main "HOL-Library.Multiset"
begin

text \<open>
  Shared vocabulary of the development: the types that name identifiers, clock
  values and fallible results; the JavaScript string built-ins the sources call
  (\<open>trim\<close>, \<open>startsWith\<close>, \<open>substring\<close>, \<open>includes\<close>); keyed
  collections (a MongoDB collection in natural order, looked up by a key field)
  with their abstraction to a finite map; and the generic lemmas on them that the
  component theories share through the collection \<open>store_simps\<close>
  (\<open>error_messages\<close> collects, per operation, that its errors are non-empty).
\<close>

named_theorems store_simps "equations that evaluate store queries and updates"
named_theorems error_messages "every error an operation throws carries a non-empty message"

type_synonym oid = nat
  \<comment> \<open>a MongoDB ObjectId, numbered in the order the server allocates them\<close>
type_synonym time = nat
  \<comment> \<open>a JavaScript \<open>Date\<close> in milliseconds since the epoch\<close>
type_synonym 'a result = "string + 'a"
  \<comment> \<open>\<open>Inl m\<close> is \<open>throw new Error(m)\<close>; \<open>Inr v\<close> returns \<open>v\<close>\<close>

subsection \<open>JavaScript string built-ins\<close>

text \<open>
  Strings are \<open>char list\<close>s; a character is one code unit of the ASCII range.
  \<open>trim\<close> strips the ASCII white space and line terminators of ECMAScript
  (tab, line feed, vertical tab, form feed, carriage return, space).
\<close>

definition js_space :: "char \<Rightarrow> bool" where
  "js_space c \<longleftrightarrow> of_char c \<in> {9, 10, 11, 12, 13, 32 :: nat}"

definition js_trim :: "string \<Rightarrow> string" where
  "js_trim s = rev (dropWhile js_space (rev (dropWhile js_space s)))"

definition js_starts_with :: "string \<Rightarrow> string \<Rightarrow> bool" where
  "js_starts_with s p \<longleftrightarrow> take (length p) s = p"

definition js_substring :: "string \<Rightarrow> nat \<Rightarrow> string" where
  "js_substring s i = drop i s"

fun js_includes :: "string \<Rightarrow> string \<Rightarrow> bool" where
  "js_includes [] n = (n = [])"
| "js_includes (c # cs) n = (js_starts_with (c # cs) n \<or> js_includes cs n)"

fun js_join :: "string \<Rightarrow> string list \<Rightarrow> string" where
  "js_join sep [] = []"
| "js_join sep [x] = x"
| "js_join sep (x # y # xs) = x @ sep @ js_join sep (y # xs)"

subsection \<open>Keyed collections\<close>

text \<open>
  A collection is a list of documents in natural (insertion) order; a query by key
  returns the first document whose key matches, as \<open>findOne\<close> and \<open>findById\<close> do.
  Its abstraction is the finite map from keys to the first document with that key.
\<close>

definition key_map :: "('a \<Rightarrow> 'k) \<Rightarrow> 'a list \<Rightarrow> 'k \<rightharpoonup> 'a" where
  "key_map key xs = map_of (map (\<lambda>x. (key x, x)) xs)"

definition replace_key :: "('a \<Rightarrow> 'k) \<Rightarrow> 'a \<Rightarrow> 'a list \<Rightarrow> 'a list" where
  "replace_key key y xs = map (\<lambda>x. if key x = key y then y else x) xs"

definition delete_key :: "('a \<Rightarrow> 'k) \<Rightarrow> 'k \<Rightarrow> 'a list \<Rightarrow> 'a list" where
  "delete_key key k xs = filter (\<lambda>x. key x \<noteq> k) xs"

subsection \<open>Lemmas on strings and collections\<close>

lemma js_starts_with_append [simp]: "js_starts_with (p @ s) p"
  by (simp add: js_starts_with_def)

lemma js_substring_append [simp]: "js_substring (p @ s) (length p) = s"
  by (simp add: js_substring_def)

lemma js_starts_with_includes: "js_starts_with h n \<Longrightarrow> js_includes h n"
  by (cases h) (auto simp: js_starts_with_def)

lemma js_includes_append [simp]: "js_includes (a @ n @ b) n"
  by (induction a) (simp_all add: js_starts_with_includes)

lemma js_starts_with_iff: "js_starts_with h n \<longleftrightarrow> (\<exists>b. h = n @ b)"
  unfolding js_starts_with_def by (metis append_eq_conv_conj)

lemma js_includes_iff: "js_includes h n \<longleftrightarrow> (\<exists>a b. h = a @ n @ b)"
proof (induction h)
  case Nil
  then show ?case by auto
next
  case (Cons c cs)
  have "(\<exists>a b. c # cs = a @ n @ b) \<longleftrightarrow>
      (\<exists>b. c # cs = n @ b) \<or> (\<exists>a b. cs = a @ n @ b)"
    by (auto simp: Cons_eq_append_conv)
  then show ?case using Cons.IH by (simp add: js_starts_with_iff)
qed

lemma dropWhile_rev_dropWhile:
  "\<not> (u \<noteq> [] \<and> P (hd u)) \<Longrightarrow>
   dropWhile P (rev (dropWhile P (rev u))) = rev (dropWhile P (rev u))"
proof (cases "dropWhile P (rev u)")
  case Nil
  then show ?thesis unfolding Nil by simp
next
  case (Cons x v)
  assume h: "\<not> (u \<noteq> [] \<and> P (hd u))"
  have "rev u = takeWhile P (rev u) @ x # v" using Cons by (metis takeWhile_dropWhile_id)
  then have "last (rev u) = last (x # v)" by (metis last_appendR list.distinct(1))
  moreover have "u \<noteq> []" using Cons by auto
  ultimately have "hd (rev (x # v)) = hd u" by (simp add: hd_rev last_rev)
  with h \<open>u \<noteq> []\<close> have "\<not> P (hd (rev (x # v)))" by simp
  then show ?thesis using Cons by (simp add: dropWhile_eq_self_iff)
qed

lemma js_trim_idem [simp]: "js_trim (js_trim s) = js_trim s"
proof -
  let ?u = "dropWhile js_space s"
  have "\<not> (?u \<noteq> [] \<and> js_space (hd ?u))" by (metis hd_dropWhile)
  then have "dropWhile js_space (rev (dropWhile js_space (rev ?u))) =
      rev (dropWhile js_space (rev ?u))"
    by (rule dropWhile_rev_dropWhile)
  then show ?thesis by (simp add: js_trim_def dropWhile_idem)
qed

lemma find_append [store_simps]:
  "find P (xs @ ys) = (case find P xs of None \<Rightarrow> find P ys | Some x \<Rightarrow> Some x)"
  by (induction xs) auto

lemma key_map_Cons [store_simps]: "key_map key (x # xs) = (key_map key xs)(key x \<mapsto> x)"
  by (simp add: key_map_def)

lemma key_map_Nil [store_simps]: "key_map key [] = Map.empty"
  by (simp add: key_map_def)

lemma find_key_map [store_simps]: "find (\<lambda>x. key x = k) xs = key_map key xs k"
  by (induction xs) (auto simp: key_map_def)

lemma key_map_Some_in [store_simps]:
  "key_map key xs k = Some x \<Longrightarrow> x \<in> set xs \<and> key x = k"
  by (induction xs) (auto simp: key_map_def split: if_splits)

lemma key_map_None [store_simps]: "key_map key xs k = None \<longleftrightarrow> k \<notin> key ` set xs"
  by (induction xs) (auto simp: key_map_def)

lemma key_map_append [store_simps]:
  "key_map key (xs @ [y]) = (if key y \<in> key ` set xs then key_map key xs
     else (key_map key xs)(key y \<mapsto> y))"
  by (induction xs) (auto simp: key_map_def fun_eq_iff)

lemma key_map_distinct_in [store_simps]:
  "distinct (map key xs) \<Longrightarrow> x \<in> set xs \<Longrightarrow> key_map key xs (key x) = Some x"
proof (induction xs)
  case Nil
  then show ?case by simp
next
  case (Cons a xs)
  then show ?case by (cases "x = a") (auto simp: key_map_Cons intro: rev_image_eqI)
qed

lemma key_map_replace [store_simps]:
  "distinct (map key xs) \<Longrightarrow> key y \<in> key ` set xs \<Longrightarrow>
   key_map key (replace_key key y xs) = (key_map key xs)(key y \<mapsto> y)"
proof (induction xs)
  case Nil
  then show ?case by simp
next
  case (Cons a xs)
  show ?case
  proof (cases "key a = key y")
    case True
    with Cons.prems have ky: "key y \<notin> key ` set xs" by auto
    have "replace_key key y xs = xs"
      unfolding replace_key_def
    proof (rule map_idI)
      fix x
      assume "x \<in> set xs"
      with ky have "key x \<noteq> key y" by (metis image_eqI)
      then show "(if key x = key y then y else x) = x" by simp
    qed
    with True show ?thesis by (simp add: replace_key_def key_map_Cons fun_eq_iff)
  next
    case False
    with Cons have "key_map key (replace_key key y xs) = (key_map key xs)(key y \<mapsto> y)"
      by (simp add: fun_eq_iff)
    with False show ?thesis by (auto simp: replace_key_def key_map_Cons fun_upd_twist)
  qed
qed

lemma key_map_delete [store_simps]:
  "key_map key (delete_key key k xs) = (key_map key xs)(k := None)"
  by (induction xs) (auto simp: key_map_Nil key_map_Cons delete_key_def fun_eq_iff)

lemma replace_key_keys [simp]: "map key (replace_key key y xs) = map key xs"
  by (induction xs) (auto simp: replace_key_def)

lemma set_replace_key [store_simps]:
  "x \<in> set (replace_key key y xs) \<Longrightarrow> x = y \<or> x \<in> set xs"
  by (auto simp: replace_key_def)

lemma distinct_delete_key [store_simps]:
  "distinct (map key xs) \<Longrightarrow> distinct (map key (delete_key key k xs))"
  by (simp add: delete_key_def distinct_map_filter)

lemma set_delete_key [simp]:
  "set (delete_key key k xs) = {x \<in> set xs. key x \<noteq> k}"
  by (auto simp: delete_key_def)

end
