(* ===== verification/Store.thy ===== *)
theory Store
  imports Prelude
begin

text \<open>
  The persistence layer: the two Mongoose models and the document store they live
  in. \<open>src/modules/project/model/index.js\<close> declares the Project schema (its
  paths, the \<open>trim\<close> setters, the \<open>required\<close> and \<open>enum\<close> validators, the
  \<open>planning\<close> default and the timestamps). The User model
  (\<open>modules/auth/model\<close>) and the library behaviour of Mongoose, bcrypt and
  ObjectIds are not among the sources; they are modelled from the spec and marked
  so in the manifest. The database is a record of two collections, each a list in
  natural order, and the next ObjectId to allocate.
\<close>

subsection \<open>Enumerations\<close>

datatype role = Admin | Member

fun role_string :: "role \<Rightarrow> string" where
  "role_string Admin = ''admin''"
| "role_string Member = ''member''"

definition parse_role :: "string \<Rightarrow> role option" where
  "parse_role s = map_of [(''admin'', Admin), (''member'', Member)] s"

datatype pstatus = Planning | InProgress | Completed | OnHold

fun status_string :: "pstatus \<Rightarrow> string" where
  "status_string Planning = ''planning''"
| "status_string InProgress = ''in-progress''"
| "status_string Completed = ''completed''"
| "status_string OnHold = ''on-hold''"

definition parse_status :: "string \<Rightarrow> pstatus option" where
  "parse_status s = map_of [(''planning'', Planning), (''in-progress'', InProgress),
     (''completed'', Completed), (''on-hold'', OnHold)] s"

subsection \<open>Configuration and the password hash\<close>

text \<open>
  The server's secrets and the primitives it delegates to libraries: the JWT
  secret, bcrypt's salted key-derivation function and the HMAC that signs tokens.
  The two functions are parameters: no property below depends on what they compute
  beyond what the spec promises of them.
\<close>

record config =
  jwt_secret :: string
  kdf :: "nat \<Rightarrow> string \<Rightarrow> string"
  hmac :: "string \<Rightarrow> string \<Rightarrow> string"

definition env_jwt_secret :: "string option \<Rightarrow> string" where
  "env_jwt_secret env =
     (case env of None \<Rightarrow> ''default-secret-change-me''
      | Some s \<Rightarrow> if s = [] then ''default-secret-change-me'' else s)"

datatype pwhash = BCrypt nat string

definition bcrypt_hash :: "config \<Rightarrow> nat \<Rightarrow> string \<Rightarrow> pwhash" where
  "bcrypt_hash cfg salt pw = BCrypt salt (kdf cfg salt (take 72 pw))"

definition bcrypt_compare :: "config \<Rightarrow> string \<Rightarrow> pwhash \<Rightarrow> bool" where
  "bcrypt_compare cfg pw h = (case h of BCrypt salt d \<Rightarrow> kdf cfg salt (take 72 pw) = d)"

subsection \<open>Documents\<close>

record user =
  user_id :: oid
  email :: string
  password :: pwhash
  role :: role
  u_created :: time
  u_updated :: time

record user_view =
  uv_id :: oid
  uv_email :: string
  uv_role :: role
  uv_created :: time
  uv_updated :: time

definition user_view_of :: "user \<Rightarrow> user_view" where
  "user_view_of u = \<lparr>uv_id = user_id u, uv_email = email u, uv_role = role u,
     uv_created = u_created u, uv_updated = u_updated u\<rparr>"

record project =
  proj_id :: oid
  name :: string
  description :: "string option"
  status :: pstatus
  owner :: oid
  start_date :: "time option"
  end_date :: "time option"
  p_created :: time
  p_updated :: time

record owner_ref =
  ref_id :: oid
  ref_email :: string
  ref_role :: role

record project_view =
  pv_project :: project
  pv_owner :: "owner_ref option"

record db =
  users :: "user list"
  projects :: "project list"
  next_oid :: oid

definition empty_db :: db where
  "empty_db = \<lparr>users = [], projects = [], next_oid = 1\<rparr>"

subsection \<open>ObjectId casting\<close>

text \<open>
  A path parameter or token claim reaches \<open>findById\<close> as a string; Mongoose casts
  it to an ObjectId, which is 24 hexadecimal digits, and throws a \<open>CastError\<close>
  otherwise. \<open>oid_string\<close> is \<open>ObjectId.toString()\<close>: 24 lower-case digits.
\<close>

definition hex_digit :: "char \<Rightarrow> nat option" where
  "hex_digit c = (let n = of_char c :: nat in
     if 48 \<le> n \<and> n \<le> 57 then Some (n - 48)
     else if 97 \<le> n \<and> n \<le> 102 then Some (n - 87)
     else if 65 \<le> n \<and> n \<le> 70 then Some (n - 55) else None)"

fun hex_value :: "nat \<Rightarrow> string \<Rightarrow> nat option" where
  "hex_value acc [] = Some acc"
| "hex_value acc (c # cs) =
     (case hex_digit c of None \<Rightarrow> None | Some d \<Rightarrow> hex_value (16 * acc + d) cs)"

definition cast_oid :: "string \<Rightarrow> oid option" where
  "cast_oid s = (if length s = 24 then hex_value 0 s else None)"

definition hex_char :: "nat \<Rightarrow> char" where
  "hex_char d = char_of (if d < 10 then 48 + d else 87 + d)"

fun hex_digits :: "nat \<Rightarrow> nat \<Rightarrow> string" where
  "hex_digits 0 i = []"
| "hex_digits (Suc n) i = hex_digits n (i div 16) @ [hex_char (i mod 16)]"

definition oid_string :: "oid \<Rightarrow> string" where
  "oid_string i = hex_digits 24 i"

definition cast_message :: "string \<Rightarrow> string \<Rightarrow> string" where
  "cast_message model s = ''Cast to ObjectId failed for value \"'' @ s @
     ''\" (type string) at path \"_id\" for model \"'' @ model @ ''\"''"

subsection \<open>Validation\<close>

text \<open>
  A Mongoose \<open>ValidationError\<close> lists each failing path with its message, in
  schema order: \<open>Project validation failed: name: Project name is required\<close>.
\<close>

definition validation_message :: "string \<Rightarrow> (string \<times> string) list \<Rightarrow> string" where
  "validation_message model errs = model @ '' validation failed: '' @
     js_join '', '' (map (\<lambda>(p, m). p @ '': '' @ m) errs)"

definition required_message :: "string \<Rightarrow> string" where
  "required_message p = ''Path `'' @ p @ ''` is required.''"

definition enum_message :: "string \<Rightarrow> string \<Rightarrow> string" where
  "enum_message v p = ''`'' @ v @ ''` is not a valid enum value for path `'' @ p @ ''`.''"

subsection \<open>The Project model\<close>

text \<open>
  A request body as the Project model sees it: the schema's paths and the three
  paths Mongoose adds to it, \<open>_id\<close> and, for \<open>timestamps: true\<close> (model line
  30), \<open>createdAt\<close> and \<open>updatedAt\<close>; each is absent or given. Other keys of
  the body are dropped by Mongoose's strict mode. Ids and dates arrive already
  cast (a value that does not cast is not modelled). A \<open>pdoc\<close> is a Project
  document before validation: the setters have run (\<open>trim\<close> on the two string
  paths), the default status is filled in, and the status is still the string the
  client sent.
\<close>

record project_input =
  in_name :: "string option"
  in_description :: "string option"
  in_status :: "string option"
  in_owner :: "oid option"
  in_start :: "time option"
  in_end :: "time option"
  in_id :: "oid option"
  in_created :: "time option"
  in_updated :: "time option"

record pdoc =
  d_name :: "string option"
  d_description :: "string option"
  d_status :: string
  d_owner :: "oid option"
  d_start :: "time option"
  d_end :: "time option"
  d_id :: "oid option"
  d_created :: "time option"
  d_updated :: "time option"

definition new_pdoc :: "project_input \<Rightarrow> pdoc" where
  "new_pdoc inp = \<lparr>d_name = map_option js_trim (in_name inp),
     d_description = map_option js_trim (in_description inp),
     d_status = (case in_status inp of None \<Rightarrow> ''planning'' | Some s \<Rightarrow> s),
     d_owner = in_owner inp, d_start = in_start inp, d_end = in_end inp,
     d_id = in_id inp, d_created = in_created inp, d_updated = in_updated inp\<rparr>"

definition pdoc_of_project :: "project \<Rightarrow> pdoc" where
  "pdoc_of_project p = \<lparr>d_name = Some (name p), d_description = description p,
     d_status = status_string (status p), d_owner = Some (owner p),
     d_start = start_date p, d_end = end_date p, d_id = Some (proj_id p),
     d_created = Some (p_created p), d_updated = Some (p_updated p)\<rparr>"

definition assign_opt :: "'a option \<Rightarrow> 'a option \<Rightarrow> 'a option" where
  "assign_opt new old = (case new of None \<Rightarrow> old | Some v \<Rightarrow> Some v)"

text \<open>\<open>Object.assign(project, data)\<close> on a loaded document. The timestamps plugin
  makes \<open>createdAt\<close> immutable, so assigning it to a stored document is
  ignored; \<open>updatedAt\<close> is assigned like any path. An \<open>_id\<close> in an update body
  is not modelled: the loaded document keeps its id.\<close>

definition assign_pdoc :: "pdoc \<Rightarrow> project_input \<Rightarrow> pdoc" where
  "assign_pdoc d inp = \<lparr>d_name = assign_opt (map_option js_trim (in_name inp)) (d_name d),
     d_description = assign_opt (map_option js_trim (in_description inp)) (d_description d),
     d_status = (case in_status inp of None \<Rightarrow> d_status d | Some s \<Rightarrow> s),
     d_owner = assign_opt (in_owner inp) (d_owner d),
     d_start = assign_opt (in_start inp) (d_start d),
     d_end = assign_opt (in_end inp) (d_end d), d_id = d_id d, d_created = d_created d,
     d_updated = assign_opt (in_updated inp) (d_updated d)\<rparr>"

definition project_errors :: "pdoc \<Rightarrow> (string \<times> string) list" where
  "project_errors d =
     (if d_name d = None \<or> d_name d = Some [] then [(''name'', ''Project name is required'')]
      else []) @
     (if parse_status (d_status d) = None then [(''status'', enum_message (d_status d) ''status'')]
      else []) @
     (if d_owner d = None then [(''owner'', required_message ''owner'')] else [])"

definition validate_pdoc :: "pdoc \<Rightarrow> (string \<times> pstatus \<times> oid) result" where
  "validate_pdoc d =
     (let errs = project_errors d in
      case (d_name d, parse_status (d_status d), d_owner d) of
        (Some n, Some st, Some ow) \<Rightarrow>
          if errs = [] then Inr (n, st, ow) else Inl (validation_message ''Project'' errs)
      | _ \<Rightarrow> Inl (validation_message ''Project'' errs))"

definition find_project :: "db \<Rightarrow> oid \<Rightarrow> project option" where
  "find_project s i = find (\<lambda>p. proj_id p = i) (projects s)"

text \<open>
  The server's answer to an insert whose \<open>_id\<close> is taken (MongoDB's unique
  \<open>_id_\<close> index), for the default database \<open>client-tracker\<close> of
  \<open>connect-mongo.js\<close>.
\<close>

definition dup_key_message :: "oid \<Rightarrow> string" where
  "dup_key_message i = ''E11000 duplicate key error collection: client-tracker.projects index: _id_ dup key: { _id: ObjectId('' @ [CHR 0x27] @ oid_string i @ [CHR 0x27] @ '') }''"

text \<open>
  \<open>new Project(data).save()\<close>: validate; take the body's \<open>_id\<close> or allocate a
  fresh ObjectId; the timestamps hook keeps a \<open>createdAt\<close> the body gives (else
  the current time) and sets \<open>updatedAt\<close> to it; the insert fails when the id is
  taken, and otherwise appends the document. Allocation is a counter kept above
  every stored id, which stands for ObjectId generation never meeting a stored id.
\<close>

definition save_new_project :: "time \<Rightarrow> pdoc \<Rightarrow> db \<Rightarrow> (project \<times> db) result" where
  "save_new_project now d s =
     (case validate_pdoc d of
        Inl e \<Rightarrow> Inl e
      | Inr (n, st, ow) \<Rightarrow>
          let i = (case d_id d of None \<Rightarrow> next_oid s | Some j \<Rightarrow> j);
              c = (case d_created d of None \<Rightarrow> now | Some t \<Rightarrow> t);
              p = \<lparr>proj_id = i, name = n, description = d_description d,
                   status = st, owner = ow, start_date = d_start d, end_date = d_end d,
                   p_created = c, p_updated = c\<rparr>
          in if find_project s i \<noteq> None then Inl (dup_key_message i)
             else Inr (p, s\<lparr>projects := projects s @ [p], next_oid := max (next_oid s) (Suc i)\<rparr>))"

text \<open>
  \<open>project.save()\<close> on a loaded document: validate, and write the document back
  under its id. A path is modified when its value changed (\<open>updatedAt\<close> too,
  when the body sets it); then the timestamps hook sets \<open>updatedAt\<close> to the
  current time.
\<close>

definition save_project :: "time \<Rightarrow> project \<Rightarrow> pdoc \<Rightarrow> db \<Rightarrow> (project \<times> db) result" where
  "save_project now p d s =
     (case validate_pdoc d of
        Inl e \<Rightarrow> Inl e
      | Inr (n, st, ow) \<Rightarrow>
          let p' = p\<lparr>name := n, description := d_description d, status := st, owner := ow,
                     start_date := d_start d, end_date := d_end d,
                     p_updated := (case d_updated d of None \<Rightarrow> p_updated p | Some t \<Rightarrow> t)\<rparr>;
              p'' = (if p' = p then p else p'\<lparr>p_updated := now\<rparr>)
          in Inr (p'', s\<lparr>projects := replace_key proj_id p'' (projects s)\<rparr>))"

definition project_find_by_id :: "db \<Rightarrow> string \<Rightarrow> project option result" where
  "project_find_by_id s str =
     (case cast_oid str of
        None \<Rightarrow> Inl (cast_message ''Project'' str)
      | Some i \<Rightarrow> Inr (find_project s i))"

definition delete_project_doc :: "oid \<Rightarrow> db \<Rightarrow> db" where
  "delete_project_doc i s = s\<lparr>projects := delete_key proj_id i (projects s)\<rparr>"

subsection \<open>The User model\<close>

definition find_user :: "db \<Rightarrow> oid \<Rightarrow> user option" where
  "find_user s i = find (\<lambda>u. user_id u = i) (users s)"

text \<open>
  \<open>User.findOne({ email })\<close>: Mongoose drops a filter key whose value is
  \<open>undefined\<close>, so an absent email matches the first user of the collection.
\<close>

definition find_user_by_email :: "db \<Rightarrow> string option \<Rightarrow> user option" where
  "find_user_by_email s e =
     (case e of
        None \<Rightarrow> (case users s of [] \<Rightarrow> None | u # _ \<Rightarrow> Some u)
      | Some x \<Rightarrow> find (\<lambda>u. email u = x) (users s))"

definition user_find_by_id :: "db \<Rightarrow> string \<Rightarrow> user option result" where
  "user_find_by_id s str =
     (case cast_oid str of
        None \<Rightarrow> Inl (cast_message ''User'' str)
      | Some i \<Rightarrow> Inr (find_user s i))"

definition user_errors :: "string option \<Rightarrow> string option \<Rightarrow> string \<Rightarrow> (string \<times> string) list" where
  "user_errors e pw r =
     (if e = None \<or> e = Some [] then [(''email'', required_message ''email'')] else []) @
     (if pw = None \<or> pw = Some [] then [(''password'', required_message ''password'')] else []) @
     (if parse_role r = None then [(''role'', enum_message r ''role'')] else [])"

text \<open>
  \<open>new User({email, password, role}).save()\<close>: validate, then the pre-save hook
  replaces the password by its bcrypt hash (the salt is drawn fresh; here it is the
  new document's ObjectId), then the document is appended.
\<close>

definition save_new_user ::
  "config \<Rightarrow> time \<Rightarrow> string option \<Rightarrow> string option \<Rightarrow> string \<Rightarrow> db \<Rightarrow> (user \<times> db) result" where
  "save_new_user cfg now e pw r s =
     (let errs = user_errors e pw r in
      case (e, pw, parse_role r) of
        (Some em, Some p, Some rl) \<Rightarrow>
          if errs = [] then
            let u = \<lparr>user_id = next_oid s, email = em,
                     password = bcrypt_hash cfg (next_oid s) p, role = rl,
                     u_created = now, u_updated = now\<rparr>
            in Inr (u, s\<lparr>users := users s @ [u], next_oid := Suc (next_oid s)\<rparr>)
          else Inl (validation_message ''User'' errs)
      | _ \<Rightarrow> Inl (validation_message ''User'' errs))"

subsection \<open>Population\<close>

text \<open>\<open>populate('owner', 'email role')\<close>: the owner's id, email and role, or
  \<open>null\<close> when no user has the owner's id.\<close>

definition owner_ref_of :: "user \<Rightarrow> owner_ref" where
  "owner_ref_of u = \<lparr>ref_id = user_id u, ref_email = email u, ref_role = role u\<rparr>"

definition populate :: "db \<Rightarrow> project \<Rightarrow> project_view" where
  "populate s p = \<lparr>pv_project = p, pv_owner = map_option owner_ref_of (find_user s (owner p))\<rparr>"


subsection \<open>Well-formed databases\<close>

text \<open>
  What every write keeps true: ObjectIds are unique in each collection and below
  the allocation counter, and every stored project passed validation (a trimmed,
  non-empty name and a trimmed description).
\<close>

definition trimmed_opt :: "string option \<Rightarrow> bool" where
  "trimmed_opt v = (case v of None \<Rightarrow> True | Some x \<Rightarrow> js_trim x = x)"

definition project_ok :: "project \<Rightarrow> bool" where
  "project_ok p \<longleftrightarrow> name p \<noteq> [] \<and> js_trim (name p) = name p \<and> trimmed_opt (description p)"

definition pdoc_ok :: "pdoc \<Rightarrow> bool" where
  "pdoc_ok d \<longleftrightarrow> trimmed_opt (d_name d) \<and> trimmed_opt (d_description d)"

definition db_wf :: "db \<Rightarrow> bool" where
  "db_wf s \<longleftrightarrow>
     distinct (map proj_id (projects s)) \<and>
     list_all (\<lambda>p. proj_id p < next_oid s \<and> project_ok p) (projects s) \<and>
     distinct (map user_id (users s)) \<and>
     list_all (\<lambda>u. user_id u < next_oid s) (users s)"

definition proj_map :: "db \<Rightarrow> oid \<rightharpoonup> project" where
  "proj_map s = key_map proj_id (projects s)"

subsection \<open>An example database\<close>

text \<open>A small database used by the witnesses: two members, Alice (id 1) and Bob
  (id 2), a project (id 3) that Alice owns and one (id 4) that Bob owns.\<close>

definition example_user :: "oid \<Rightarrow> string \<Rightarrow> user" where
  "example_user i e = \<lparr>user_id = i, email = e, password = BCrypt i ''h'', role = Member,
     u_created = 10, u_updated = 10\<rparr>"

definition example_project :: project where
  "example_project = \<lparr>proj_id = 3, name = ''X'', description = None, status = Planning,
     owner = 1, start_date = None, end_date = None, p_created = 20, p_updated = 20\<rparr>"

definition bob_project :: project where
  "bob_project = \<lparr>proj_id = 4, name = ''B'', description = None, status = OnHold,
     owner = 2, start_date = None, end_date = None, p_created = 25, p_updated = 25\<rparr>"

definition example_db :: db where
  "example_db = \<lparr>users = [example_user 1 ''alice@example.com'', example_user 2 ''bob@example.com''],
     projects = [example_project, bob_project], next_oid = 5\<rparr>"

definition no_input :: project_input where
  "no_input = \<lparr>in_name = None, in_description = None, in_status = None, in_owner = None,
     in_start = None, in_end = None, in_id = None, in_created = None, in_updated = None\<rparr>"

subsection \<open>Lemmas on the models\<close>

lemma parse_status_string [simp]: "parse_status (status_string st) = Some st"
  by (cases st) (simp_all add: parse_status_def)

lemma parse_role_string [simp]: "parse_role (role_string r) = Some r"
  by (cases r) (simp_all add: parse_role_def)

lemma bcrypt_compare_hash [simp]: "bcrypt_compare cfg pw (bcrypt_hash cfg salt pw)"
  by (simp add: bcrypt_compare_def bcrypt_hash_def)

lemma find_project_proj_map [store_simps]: "find_project s i = proj_map s i"
  by (simp add: find_project_def proj_map_def find_key_map)

lemma empty_db_wf: "db_wf empty_db"
  by (simp add: db_wf_def empty_db_def)

lemma validate_pdoc_Inr:
  "validate_pdoc d = Inr (n, st, ow) \<Longrightarrow>
   d_name d = Some n \<and> n \<noteq> [] \<and> parse_status (d_status d) = Some st \<and> d_owner d = Some ow"
  by (auto simp: validate_pdoc_def project_errors_def Let_def
      split: option.splits if_splits)

lemma validate_pdoc_ok:
  "validate_pdoc d = Inl e \<longleftrightarrow>
   (e = validation_message ''Project'' (project_errors d) \<and> project_errors d \<noteq> [])"
  by (auto simp: validate_pdoc_def project_errors_def Let_def split: option.splits)

lemma new_pdoc_ok [simp]: "pdoc_ok (new_pdoc inp)"
  by (simp add: pdoc_ok_def new_pdoc_def trimmed_opt_def split: option.splits)

lemma assign_pdoc_ok [simp]: "pdoc_ok d \<Longrightarrow> pdoc_ok (assign_pdoc d inp)"
  by (simp add: pdoc_ok_def assign_pdoc_def assign_opt_def trimmed_opt_def
      split: option.splits)

lemma pdoc_of_project_ok [simp]: "project_ok p \<Longrightarrow> pdoc_ok (pdoc_of_project p)"
  by (simp add: pdoc_ok_def project_ok_def pdoc_of_project_def trimmed_opt_def)

lemma validated_project_ok:
  assumes "pdoc_ok d" and "validate_pdoc d = Inr (n, st, ow)"
  shows "n \<noteq> [] \<and> js_trim n = n \<and> trimmed_opt (d_description d)"
  using assms validate_pdoc_Inr [OF assms(2)] by (simp add: pdoc_ok_def trimmed_opt_def)

lemma save_new_project_Inr:
  assumes "save_new_project now d s = Inr (p, s')"
  shows "\<exists>n st ow. validate_pdoc d = Inr (n, st, ow) \<and> find_project s (proj_id p) = None \<and>
    p = \<lparr>proj_id = (case d_id d of None \<Rightarrow> next_oid s | Some j \<Rightarrow> j), name = n,
         description = d_description d, status = st, owner = ow, start_date = d_start d,
         end_date = d_end d, p_created = (case d_created d of None \<Rightarrow> now | Some t \<Rightarrow> t),
         p_updated = (case d_created d of None \<Rightarrow> now | Some t \<Rightarrow> t)\<rparr> \<and>
    s' = s\<lparr>projects := projects s @ [p], next_oid := max (next_oid s) (Suc (proj_id p))\<rparr>"
  using assms by (auto simp: save_new_project_def Let_def split: sum.splits if_splits)

lemma save_new_project_dup:
  "validate_pdoc d = Inr x \<Longrightarrow> d_id d = Some i \<Longrightarrow> find_project s i \<noteq> None \<Longrightarrow>
   save_new_project now d s = Inl (dup_key_message i)"
  by (cases x) (simp add: save_new_project_def Let_def)

lemma save_new_project_fresh: "save_new_project now d s = Inr (p, s') \<Longrightarrow> proj_id p \<notin> proj_id ` set (projects s)"
  by (drule save_new_project_Inr) (auto simp: find_project_def find_None_iff)

lemma save_new_project_Inl:
  "save_new_project now d s = Inl e \<longleftrightarrow> validate_pdoc d = Inl e \<or>
   (\<exists>x i. validate_pdoc d = Inr x \<and> i = (case d_id d of None \<Rightarrow> next_oid s | Some j \<Rightarrow> j) \<and>
      find_project s i \<noteq> None \<and> e = dup_key_message i)"
  by (auto simp: save_new_project_def Let_def split: sum.splits)

lemma save_project_Inr:
  assumes "save_project now p d s = Inr (p', s')"
  shows "\<exists>n st ow. validate_pdoc d = Inr (n, st, ow) \<and>
    proj_id p' = proj_id p \<and> name p' = n \<and> description p' = d_description d \<and>
    status p' = st \<and> owner p' = ow \<and> start_date p' = d_start d \<and>
    end_date p' = d_end d \<and> p_created p' = p_created p \<and>
    s' = s\<lparr>projects := replace_key proj_id p' (projects s)\<rparr>"
  using assms by (cases p) (auto simp: save_project_def Let_def split: sum.splits if_splits)

lemma save_project_Inl:
  "save_project now p d s = Inl e \<longleftrightarrow> validate_pdoc d = Inl e"
  by (auto simp: save_project_def Let_def split: sum.splits)

lemma save_new_project_wf:
  assumes wf: "db_wf s" and ok: "pdoc_ok d" and sv: "save_new_project now d s = Inr (p, s')"
  shows "db_wf s'"
proof -
  obtain n st ow where v: "validate_pdoc d = Inr (n, st, ow)"
    and p: "name p = n" "description p = d_description d"
    and s': "s' = s\<lparr>projects := projects s @ [p], next_oid := max (next_oid s) (Suc (proj_id p))\<rparr>"
    using save_new_project_Inr [OF sv] by auto
  have "project_ok p" using validated_project_ok [OF ok v] p by (simp add: project_ok_def)
  moreover have "proj_id p \<notin> set (map proj_id (projects s))"
    using save_new_project_fresh [OF sv] by simp
  ultimately show ?thesis using wf s'
    by (auto simp: db_wf_def list_all_iff less_max_iff_disj)
qed

lemma save_project_wf:
  assumes wf: "db_wf s" and ok: "pdoc_ok d" and p: "p \<in> set (projects s)"
    and sv: "save_project now p d s = Inr (p', s')"
  shows "db_wf s'"
proof -
  obtain n st ow where v: "validate_pdoc d = Inr (n, st, ow)"
    and p': "proj_id p' = proj_id p" "name p' = n" "description p' = d_description d"
    and s': "s' = s\<lparr>projects := replace_key proj_id p' (projects s)\<rparr>"
    using save_project_Inr [OF sv] by blast
  have "project_ok p'" using validated_project_ok [OF ok v] p' by (simp add: project_ok_def)
  moreover have "proj_id p' < next_oid s" using wf p p' by (auto simp: db_wf_def list_all_iff)
  ultimately show ?thesis using wf s'
    by (auto simp: db_wf_def list_all_iff dest: set_replace_key)
qed

lemma delete_project_doc_wf: "db_wf s \<Longrightarrow> db_wf (delete_project_doc i s)"
  by (auto simp: db_wf_def list_all_iff delete_project_doc_def distinct_delete_key)

lemma save_new_user_Inr:
  assumes "save_new_user cfg now e pw r s = Inr (u, s')"
  shows "\<exists>em p rl. e = Some em \<and> pw = Some p \<and> parse_role r = Some rl \<and>
    user_errors e pw r = [] \<and>
    u = \<lparr>user_id = next_oid s, email = em, password = bcrypt_hash cfg (next_oid s) p,
         role = rl, u_created = now, u_updated = now\<rparr> \<and>
    s' = s\<lparr>users := users s @ [u], next_oid := Suc (next_oid s)\<rparr>"
  using assms by (auto simp: save_new_user_def Let_def split: option.splits if_splits)

lemma save_new_user_wf:
  assumes wf: "db_wf s" and sv: "save_new_user cfg now e pw r s = Inr (u, s')"
  shows "db_wf s'"
proof -
  have u: "user_id u = next_oid s"
    and s': "s' = s\<lparr>users := users s @ [u], next_oid := Suc (next_oid s)\<rparr>"
    using save_new_user_Inr [OF sv] by auto
  have "next_oid s \<notin> set (map user_id (users s))"
    using wf by (auto simp: db_wf_def list_all_iff)
  then show ?thesis using wf u s' by (auto simp: db_wf_def list_all_iff)
qed

lemma proj_map_save_new:
  assumes wf: "db_wf s" and sv: "save_new_project now d s = Inr (p, s')"
  shows "proj_map s' = (proj_map s)(proj_id p \<mapsto> p) \<and> proj_map s (proj_id p) = None"
proof -
  have s': "projects s' = projects s @ [p]"
    using save_new_project_Inr [OF sv] by auto
  show ?thesis using save_new_project_fresh [OF sv] s'
    by (simp add: proj_map_def key_map_append key_map_None)
qed

lemma proj_map_save:
  assumes wf: "db_wf s" and p: "p \<in> set (projects s)"
    and sv: "save_project now p d s = Inr (p', s')"
  shows "proj_map s' = (proj_map s)(proj_id p \<mapsto> p')"
proof -
  have id: "proj_id p' = proj_id p"
    and s': "s' = s\<lparr>projects := replace_key proj_id p' (projects s)\<rparr>"
    using save_project_Inr [OF sv] by auto
  have "distinct (map proj_id (projects s))" using wf by (simp add: db_wf_def)
  moreover have "proj_id p' \<in> proj_id ` set (projects s)" using p id by auto
  ultimately show ?thesis using s' id by (simp add: proj_map_def key_map_replace)
qed

lemma proj_map_delete: "proj_map (delete_project_doc i s) = (proj_map s)(i := None)"
  by (simp add: proj_map_def delete_project_doc_def key_map_delete)

lemma project_wf_in:
  "db_wf s \<Longrightarrow> p \<in> set (projects s) \<Longrightarrow> project_ok p"
  by (auto simp: db_wf_def list_all_iff)


lemma hex_digit_char [simp]: "d < 16 \<Longrightarrow> hex_digit (hex_char d) = Some d"
  by (simp add: hex_digit_def hex_char_def)

lemma hex_value_append:
  "hex_value acc (xs @ ys) = (case hex_value acc xs of None \<Rightarrow> None | Some a \<Rightarrow> hex_value a ys)"
  by (induction acc xs rule: hex_value.induct) (auto split: option.splits)

lemma length_hex_digits [simp]: "length (hex_digits n i) = n"
  by (induction n arbitrary: i) simp_all

lemma hex_value_digits: "hex_value acc (hex_digits n i) = Some (acc * 16 ^ n + i mod 16 ^ n)"
proof (induction n arbitrary: i)
  case 0
  then show ?case by simp
next
  case (Suc n)
  have "i mod 16 ^ Suc n = 16 * (i div 16 mod 16 ^ n) + i mod 16"
    by (simp add: mod_mult2_eq)
  then show ?case
    by (simp add: hex_value_append Suc.IH algebra_simps)
qed

lemma cast_oid_string [simp]: "i < 16 ^ 24 \<Longrightarrow> cast_oid (oid_string i) = Some i"
  by (simp add: cast_oid_def oid_string_def hex_value_digits)


lemma example_db_wf: "db_wf example_db"
  by (simp add: db_wf_def example_db_def example_user_def example_project_def bob_project_def
      project_ok_def trimmed_opt_def js_trim_def js_space_def)

lemma example_proj_map: "proj_map example_db 3 = Some example_project"
  by (simp add: proj_map_def example_db_def key_map_Cons example_project_def bob_project_def)

lemma example_proj_map_bob: "proj_map example_db 4 = Some bob_project"
  by (simp add: proj_map_def example_db_def key_map_Cons example_project_def bob_project_def)

lemma example_cast: "cast_oid (oid_string 3) = Some 3"
  by simp

end
