(* ===== verification/Jwt.thy ===== *)
theory Jwt
  imports Store
begin

text \<open>
  The part of \<open>jsonwebtoken\<close> the auth service relies on, modelled from the spec:
  \<open>sign\<close> encodes a payload with the issue time \<open>iat\<close> and the expiry
  \<open>exp = iat + expiresIn\<close> (seconds) and appends a keyed MAC of the encoding;
  \<open>verify\<close> fails unless the MAC matches under the server's secret, the
  payload decodes, and the current second is before \<open>exp\<close>. The encoding is a
  concrete one (fields escaped and separated by \<open>:\<close>, the MAC after the first
  \<open>.\<close>); the MAC itself is the \<open>hmac\<close> parameter of the configuration.
\<close>

record jwt_claims =
  c_userId :: string
  c_email :: string
  c_role :: string
  c_iat :: nat
  c_exp :: nat

definition digit_char :: "nat \<Rightarrow> char" where
  "digit_char d = char_of (48 + d)"

fun show_nat :: "nat \<Rightarrow> string" where
  "show_nat n = (if n < 10 then [digit_char n] else show_nat (n div 10) @ [digit_char (n mod 10)])"

declare show_nat.simps [simp del]

definition is_digit :: "char \<Rightarrow> bool" where
  "is_digit c \<longleftrightarrow> 48 \<le> (of_char c :: nat) \<and> (of_char c :: nat) \<le> 57"

definition read_nat :: "string \<Rightarrow> nat option" where
  "read_nat s = (if s \<noteq> [] \<and> list_all is_digit s
     then Some (foldl (\<lambda>a c. 10 * a + (of_char c - 48)) 0 s) else None)"

definition esc_char :: "char \<Rightarrow> string" where
  "esc_char c = (if c = CHR 0x5C then [CHR 0x5C, CHR 0x5C]
     else if c = CHR '':'' then [CHR 0x5C, CHR ''c'']
     else if c = CHR ''.'' then [CHR 0x5C, CHR ''d''] else [c])"

definition esc :: "string \<Rightarrow> string" where
  "esc s = concat (map esc_char s)"

fun unesc :: "string \<Rightarrow> string \<Rightarrow> (string \<times> string) option" where
  "unesc acc [] = Some (rev acc, [])"
| "unesc acc (c # cs) =
     (if c = CHR '':'' then Some (rev acc, cs)
      else if c = CHR 0x5C then
        (case cs of
           [] \<Rightarrow> None
         | d # ds \<Rightarrow>
             if d = CHR 0x5C then unesc (CHR 0x5C # acc) ds
             else if d = CHR ''c'' then unesc (CHR '':'' # acc) ds
             else if d = CHR ''d'' then unesc (CHR ''.'' # acc) ds
             else None)
      else unesc (c # acc) cs)"

definition encode_payload :: "jwt_claims \<Rightarrow> string" where
  "encode_payload c = esc (c_userId c) @ CHR '':'' # esc (c_email c) @ CHR '':'' #
     esc (c_role c) @ CHR '':'' # esc (show_nat (c_iat c)) @ CHR '':'' # esc (show_nat (c_exp c))"

definition decode_payload :: "string \<Rightarrow> jwt_claims option" where
  "decode_payload p =
     (case unesc [] p of None \<Rightarrow> None | Some (u, r1) \<Rightarrow>
      case unesc [] r1 of None \<Rightarrow> None | Some (e, r2) \<Rightarrow>
      case unesc [] r2 of None \<Rightarrow> None | Some (ro, r3) \<Rightarrow>
      case unesc [] r3 of None \<Rightarrow> None | Some (i, r4) \<Rightarrow>
      case unesc [] r4 of None \<Rightarrow> None | Some (x, r5) \<Rightarrow>
      if r5 \<noteq> [] then None else
      case (read_nat i, read_nat x) of
        (Some iat, Some ex) \<Rightarrow>
          Some \<lparr>c_userId = u, c_email = e, c_role = ro, c_iat = iat, c_exp = ex\<rparr>
      | _ \<Rightarrow> None)"

definition jwt_sign :: "config \<Rightarrow> string \<Rightarrow> string \<Rightarrow> string \<Rightarrow> nat \<Rightarrow> time \<Rightarrow> string" where
  "jwt_sign cfg userId em rl expiresIn now =
     (let iat = now div 1000;
          p = encode_payload \<lparr>c_userId = userId, c_email = em, c_role = rl,
                c_iat = iat, c_exp = iat + expiresIn\<rparr>
      in p @ CHR ''.'' # hmac cfg (jwt_secret cfg) p)"

definition jwt_verify :: "config \<Rightarrow> string \<Rightarrow> time \<Rightarrow> jwt_claims option" where
  "jwt_verify cfg tok now =
     (let p = takeWhile (\<lambda>c. c \<noteq> CHR ''.'') tok
      in case dropWhile (\<lambda>c. c \<noteq> CHR ''.'') tok of
           [] \<Rightarrow> None
         | _ # sig \<Rightarrow>
             if sig \<noteq> hmac cfg (jwt_secret cfg) p then None
             else case decode_payload p of
                    None \<Rightarrow> None
                  | Some c \<Rightarrow> if now div 1000 < c_exp c then Some c else None)"

subsection \<open>The codec round trip\<close>

lemma digit_char_is_digit [simp]: "d < 10 \<Longrightarrow> is_digit (digit_char d)"
  by (simp add: digit_char_def is_digit_def)

lemma of_char_digit_char [simp]: "d < 10 \<Longrightarrow> of_char (digit_char d) = 48 + d"
  by (simp add: digit_char_def)

lemma show_nat_digits: "show_nat n \<noteq> [] \<and> list_all is_digit (show_nat n)"
proof (induction n rule: show_nat.induct)
  case (1 n)
  then show ?case by (cases "n < 10") (simp_all add: show_nat.simps [of n])
qed

lemma foldl_show_nat: "foldl (\<lambda>a c. 10 * a + (of_char c - 48)) 0 (show_nat n) = n"
proof (induction n rule: show_nat.induct)
  case (1 n)
  show ?case
  proof (cases "n < 10")
    case True
    then show ?thesis by (simp add: show_nat.simps [of n])
  next
    case False
    with "1.IH" show ?thesis by (simp add: show_nat.simps [of n])
  qed
qed

lemma read_show_nat [simp]: "read_nat (show_nat n) = Some n"
  using show_nat_digits [of n] by (simp add: read_nat_def foldl_show_nat)

lemma unesc_esc_sep:
  "unesc acc (esc s @ CHR '':'' # rest) = Some (rev acc @ s, rest)"
  by (induction s arbitrary: acc) (auto simp: esc_def esc_char_def)

lemma unesc_esc_end: "unesc acc (esc s) = Some (rev acc @ s, [])"
  by (induction s arbitrary: acc) (auto simp: esc_def esc_char_def)

lemma decode_encode [simp]: "decode_payload (encode_payload c) = Some c"
  by (simp add: decode_payload_def encode_payload_def unesc_esc_sep unesc_esc_end)

lemma dot_notin_esc: "CHR ''.'' \<notin> set (esc s)"
  by (induction s) (auto simp: esc_def esc_char_def)

lemma dot_notin_encode: "CHR ''.'' \<notin> set (encode_payload c)"
  by (simp add: encode_payload_def dot_notin_esc)

lemma split_signed:
  assumes "CHR ''.'' \<notin> set p"
  shows "takeWhile (\<lambda>c. c \<noteq> CHR ''.'') (p @ CHR ''.'' # sig) = p"
    and "dropWhile (\<lambda>c. c \<noteq> CHR ''.'') (p @ CHR ''.'' # sig) = CHR ''.'' # sig"
  using assms by (induction p) auto

lemma jwt_verify_sign:
  "jwt_verify cfg (jwt_sign cfg u e r ex t0) now =
     (if now div 1000 < t0 div 1000 + ex
      then Some \<lparr>c_userId = u, c_email = e, c_role = r, c_iat = t0 div 1000,
                 c_exp = t0 div 1000 + ex\<rparr>
      else None)"
  by (simp add: jwt_verify_def jwt_sign_def Let_def split_signed dot_notin_encode)

lemma jwt_verify_Some:
  assumes "jwt_verify cfg tok now = Some c"
  shows "\<exists>p sig. tok = p @ CHR ''.'' # sig \<and> sig = hmac cfg (jwt_secret cfg) p \<and>
    decode_payload p = Some c \<and> now div 1000 < c_exp c"
proof -
  let ?P = "\<lambda>c. c \<noteq> CHR ''.''"
  let ?p = "takeWhile ?P tok"
  obtain x sig where d: "dropWhile ?P tok = x # sig"
    using assms by (auto simp: jwt_verify_def Let_def split: list.splits)
  have "\<not> ?P (hd (dropWhile ?P tok))" using d by (intro hd_dropWhile [of ?P tok]) simp
  then have x: "x = CHR ''.''" using d by simp
  have "tok = ?p @ dropWhile ?P tok" by simp
  then have tok: "tok = ?p @ CHR ''.'' # sig" using d x by simp
  from assms d have "sig = hmac cfg (jwt_secret cfg) ?p" and "decode_payload ?p = Some c"
    and "now div 1000 < c_exp c"
    by (auto simp: jwt_verify_def Let_def split: if_splits option.splits)
  with tok show ?thesis by blast
qed

end
