(* ===== verification/AuthService.thy ===== *)
theory AuthService
  imports Jwt
begin

text \<open>
  \<open>src/modules/auth/services/index.js\<close>: registration, login, token issue and
  check, and the user lookup the auth middleware uses. Registration and login
  read the users collection through \<open>User.findOne({ email })\<close>; registration
  writes through \<open>new User(...).save()\<close>, whose pre-save hook hashes the
  password. Tokens are made and checked by the JWT model of \<open>Jwt\<close> with
  \<open>JWT_EXPIRES_IN = '7d'\<close>.
\<close>

record register_input =
  r_email :: "string option"
  r_password :: "string option"
  r_role :: "string option"

definition jwt_expires_in :: nat where
  "jwt_expires_in = 7 * 24 * 60 * 60"

definition registerUser :: "config \<Rightarrow> time \<Rightarrow> register_input \<Rightarrow> db \<Rightarrow> user_view result \<times> db" where
  "registerUser cfg now userData s =
     (case find_user_by_email s (r_email userData) of
        Some _ \<Rightarrow> (Inl ''User with this email already exists'', s)
      | None \<Rightarrow>
          let rl = (case r_role userData of None \<Rightarrow> ''member''
                    | Some r \<Rightarrow> if r = [] then ''member'' else r)
          in case save_new_user cfg now (r_email userData) (r_password userData) rl s of
               Inl e \<Rightarrow> (Inl e, s)
             | Inr (u, s') \<Rightarrow> (Inr (user_view_of u), s'))"

record token_payload =
  tp_userId :: string
  tp_email :: string
  tp_role :: string

definition generateToken :: "config \<Rightarrow> token_payload \<Rightarrow> time \<Rightarrow> string" where
  "generateToken cfg payload now =
     jwt_sign cfg (tp_userId payload) (tp_email payload) (tp_role payload) jwt_expires_in now"

record login_result =
  lr_user :: user_view
  lr_token :: string

definition loginUser :: "config \<Rightarrow> time \<Rightarrow> string \<Rightarrow> string \<Rightarrow> db \<Rightarrow> login_result result" where
  "loginUser cfg now em pw s =
     (case find_user_by_email s (Some em) of
        None \<Rightarrow> Inl ''Invalid credentials''
      | Some u \<Rightarrow>
          if \<not> bcrypt_compare cfg pw (password u) then Inl ''Invalid credentials''
          else Inr \<lparr>lr_user = user_view_of u,
                    lr_token = generateToken cfg
                      \<lparr>tp_userId = oid_string (user_id u), tp_email = email u,
                       tp_role = role_string (role u)\<rparr> now\<rparr>)"

definition verifyToken :: "config \<Rightarrow> string \<Rightarrow> time \<Rightarrow> jwt_claims result" where
  "verifyToken cfg token now =
     (case jwt_verify cfg token now of
        None \<Rightarrow> Inl ''Invalid or expired token''
      | Some c \<Rightarrow> Inr c)"

definition getUserById :: "db \<Rightarrow> string \<Rightarrow> user_view result" where
  "getUserById s userId =
     (case user_find_by_id s userId of
        Inl e \<Rightarrow> Inl e
      | Inr None \<Rightarrow> Inl ''User not found''
      | Inr (Some u) \<Rightarrow> Inr (user_view_of u))"

text \<open>A configuration for the witnesses: any key-derivation function and MAC will
  do for the properties, so the simplest ones are taken.\<close>

definition example_cfg :: config where
  "example_cfg = \<lparr>jwt_secret = ''k'', kdf = (\<lambda>salt pw. pw), hmac = (\<lambda>k p. k @ p)\<rparr>"

subsection \<open>Lemmas\<close>

lemma registerUser_db:
  assumes "registerUser cfg now d s = (r, s')"
  shows "s' = s \<or> (\<exists>u rl. save_new_user cfg now (r_email d) (r_password d) rl s = Inr (u, s'))"
  using assms by (auto simp: registerUser_def Let_def split: option.splits sum.splits)

lemma registerUser_wf: "db_wf s \<Longrightarrow> registerUser cfg now d s = (r, s') \<Longrightarrow> db_wf s'"
  by (drule registerUser_db) (auto intro: save_new_user_wf)

lemma registerUser_projects: "registerUser cfg now d s = (r, s') \<Longrightarrow> projects s' = projects s"
  by (drule registerUser_db) (auto dest!: save_new_user_Inr)

lemma verifyToken_generateToken:
  "verifyToken cfg (generateToken cfg pl t0) now =
     (if now div 1000 < t0 div 1000 + 604800
      then Inr \<lparr>c_userId = tp_userId pl, c_email = tp_email pl, c_role = tp_role pl,
                c_iat = t0 div 1000, c_exp = t0 div 1000 + 604800\<rparr>
      else Inl ''Invalid or expired token'')"
  by (simp add: verifyToken_def generateToken_def jwt_verify_sign jwt_expires_in_def)


lemma find_user_by_email_Some:
  "find_user_by_email s (Some e) = Some u \<Longrightarrow> u \<in> set (users s) \<and> email u = e"
  by (auto simp: find_user_by_email_def find_Some_iff)

lemma find_user_by_email_None:
  "find_user_by_email s (Some e) = None \<longleftrightarrow> (\<forall>u \<in> set (users s). email u \<noteq> e)"
  by (auto simp: find_user_by_email_def find_None_iff)

lemma example_login:
  "loginUser example_cfg 1000 ''alice@example.com'' ''h'' example_db =
     Inr (projr (loginUser example_cfg 1000 ''alice@example.com'' ''h'' example_db))"
  by (simp add: loginUser_def find_user_by_email_def example_db_def example_user_def
      example_cfg_def bcrypt_compare_def)

subsection \<open>Properties\<close>

text \<open>
  Claim C8 (roundtrip, \<open>loginUser\<close>, \<open>verifyToken\<close>). The token of a successful
  login is accepted by \<open>verifyToken\<close> for seven days and decodes to the user's id
  (as \<open>toString()\<close> prints it), email and role, with the issue and expiry seconds.
\<close>

theorem loginUser_token_roundtrip:
  assumes login: "loginUser cfg now em pw s = Inr r"
    and fresh: "now' div 1000 < now div 1000 + 604800"
  shows "uv_email (lr_user r) = em \<and>
    verifyToken cfg (lr_token r) now' =
      Inr \<lparr>c_userId = oid_string (uv_id (lr_user r)), c_email = uv_email (lr_user r),
           c_role = role_string (uv_role (lr_user r)), c_iat = now div 1000,
           c_exp = now div 1000 + 604800\<rparr>"
proof -
  obtain u where u: "find_user_by_email s (Some em) = Some u"
    and r: "r = \<lparr>lr_user = user_view_of u,
                lr_token = generateToken cfg \<lparr>tp_userId = oid_string (user_id u),
                  tp_email = email u, tp_role = role_string (role u)\<rparr> now\<rparr>"
    using login by (auto simp: loginUser_def split: option.splits if_splits)
  have "email u = em" using find_user_by_email_Some [OF u] by simp
  with r fresh show ?thesis by (simp add: verifyToken_generateToken user_view_of_def)
qed

theorem loginUser_token_roundtrip_witness:
  "uv_email (lr_user (projr (loginUser example_cfg 1000 ''alice@example.com'' ''h'' example_db)))
     = ''alice@example.com''"
  using loginUser_token_roundtrip [OF example_login, of 2000] by simp

text \<open>
  Claim C9 (error, \<open>loginUser\<close>). Login fails exactly when no user has the email
  or the password does not match the stored hash, and in both cases with the same
  message, \<open>Invalid credentials\<close>.
\<close>

theorem loginUser_failure_uniform:
  "(loginUser cfg now em pw s = Inl ''Invalid credentials'' \<longleftrightarrow>
     (case find_user_by_email s (Some em) of
        None \<Rightarrow> True
      | Some u \<Rightarrow> \<not> bcrypt_compare cfg pw (password u))) \<and>
   (\<forall>e. loginUser cfg now em pw s = Inl e \<longrightarrow> e = ''Invalid credentials'')"
  by (auto simp: loginUser_def split: option.splits if_splits)

theorem loginUser_failure_uniform_witness:
  "loginUser example_cfg 1000 ''alice@example.com'' ''wrong'' example_db = Inl ''Invalid credentials'' \<and>
   loginUser example_cfg 1000 ''carol@example.com'' ''h'' example_db = Inl ''Invalid credentials''"
proof -
  have a: "loginUser example_cfg 1000 ''alice@example.com'' ''wrong'' example_db = Inl ''Invalid credentials''"
    by (simp add: loginUser_def find_user_by_email_def example_db_def example_user_def
        example_cfg_def bcrypt_compare_def)
  have b: "loginUser example_cfg 1000 ''carol@example.com'' ''h'' example_db = Inl ''Invalid credentials''"
    by (simp add: loginUser_def find_user_by_email_def example_db_def example_user_def)
  show ?thesis
    using loginUser_failure_uniform [of example_cfg 1000 "''alice@example.com''" "''wrong''" example_db]
      a b by simp
qed

text \<open>
  Claim C10 (error, \<open>generateToken\<close>, \<open>verifyToken\<close>). Once seven days have passed
  since issue (in whole seconds, as \<open>jsonwebtoken\<close> counts), a token that
  \<open>generateToken\<close> signed is rejected with \<open>Invalid or expired token\<close>.
\<close>

theorem verifyToken_expired:
  assumes "t0 div 1000 + 604800 \<le> now div 1000"
  shows "verifyToken cfg (generateToken cfg pl t0) now = Inl ''Invalid or expired token''"
  using assms by (simp add: verifyToken_generateToken)

theorem verifyToken_expired_witness:
  "(0::nat) div 1000 + 604800 \<le> 604800000 div 1000 \<and>
   verifyToken example_cfg (generateToken example_cfg
     \<lparr>tp_userId = ''u'', tp_email = ''e'', tp_role = ''member''\<rparr> 0) 604800000 =
   Inl ''Invalid or expired token''"
  using verifyToken_expired [of 0 604800000 example_cfg] by simp

text \<open>
  Claim C11 (safety, \<open>verifyToken\<close>). \<open>verifyToken\<close> fails closed: any token it
  accepts carries, after its payload, the MAC of that payload under the server's
  secret, and is not expired; the claims returned are the payload's.
\<close>

theorem verifyToken_authentic:
  assumes "verifyToken cfg tok now = Inr c"
  shows "\<exists>p. tok = p @ CHR ''.'' # hmac cfg (jwt_secret cfg) p \<and>
    decode_payload p = Some c \<and> now div 1000 < c_exp c"
proof -
  have "jwt_verify cfg tok now = Some c"
    using assms by (simp add: verifyToken_def split: option.splits)
  then show ?thesis using jwt_verify_Some by blast
qed

theorem verifyToken_authentic_witness:
  "\<exists>p. generateToken example_cfg \<lparr>tp_userId = ''u'', tp_email = ''e'', tp_role = ''member''\<rparr> 0 =
     p @ CHR ''.'' # hmac example_cfg (jwt_secret example_cfg) p"
proof -
  have "verifyToken example_cfg (generateToken example_cfg
      \<lparr>tp_userId = ''u'', tp_email = ''e'', tp_role = ''member''\<rparr> 0) 0 =
    Inr \<lparr>c_userId = ''u'', c_email = ''e'', c_role = ''member'', c_iat = 0, c_exp = 604800\<rparr>"
    by (simp add: verifyToken_generateToken)
  from verifyToken_authentic [OF this] show ?thesis by blast
qed

text \<open>
  Claim C12 (error, \<open>registerUser\<close>). Registering an email that a stored user
  already has fails with \<open>User with this email already exists\<close> and writes
  nothing.
\<close>

theorem registerUser_duplicate:
  assumes "r_email d = Some e" and "u \<in> set (users s)" and "email u = e"
  shows "registerUser cfg now d s = (Inl ''User with this email already exists'', s)"
proof -
  have "find_user_by_email s (Some e) \<noteq> None"
    using assms(2,3) find_user_by_email_None by blast
  then show ?thesis using assms(1) by (auto simp: registerUser_def)
qed

theorem registerUser_duplicate_witness:
  "registerUser example_cfg 30 \<lparr>r_email = Some ''alice@example.com'', r_password = Some ''pw'',
     r_role = None\<rparr> example_db = (Inl ''User with this email already exists'', example_db)"
proof -
  have "example_user 1 ''alice@example.com'' \<in> set (users example_db)"
    by (simp add: example_db_def)
  from registerUser_duplicate [OF _ this] show ?thesis by (simp add: example_user_def)
qed

text \<open>
  Claim C13 (functional, \<open>registerUser\<close>). Registering a fresh email with a
  password and no role appends one user: a member with that email, the next
  ObjectId, and a stored hash that \<open>bcrypt.compare\<close> accepts for the password;
  the response is that user without the password.
\<close>

theorem registerUser_fresh:
  assumes "\<forall>u \<in> set (users s). email u \<noteq> e" and "e \<noteq> []" and "pw \<noteq> []"
  shows "\<exists>u. registerUser cfg now \<lparr>r_email = Some e, r_password = Some pw, r_role = None\<rparr> s =
      (Inr (user_view_of u), s\<lparr>users := users s @ [u], next_oid := Suc (next_oid s)\<rparr>) \<and>
    email u = e \<and> role u = Member \<and> user_id u = next_oid s \<and>
    bcrypt_compare cfg pw (password u)"
proof -
  let ?u = "\<lparr>user_id = next_oid s, email = e, password = bcrypt_hash cfg (next_oid s) pw,
    role = Member, u_created = now, u_updated = now\<rparr>"
  have "find_user_by_email s (Some e) = None" using assms(1) find_user_by_email_None by blast
  with assms(2,3) have "registerUser cfg now \<lparr>r_email = Some e, r_password = Some pw,
      r_role = None\<rparr> s = (Inr (user_view_of ?u), s\<lparr>users := users s @ [?u],
      next_oid := Suc (next_oid s)\<rparr>)"
    by (simp add: registerUser_def save_new_user_def user_errors_def parse_role_def Let_def)
  then show ?thesis by (intro exI [of _ ?u]) simp
qed

theorem registerUser_fresh_witness:
  "\<exists>u. registerUser example_cfg 30 \<lparr>r_email = Some ''carol@example.com'', r_password = Some ''pw'',
      r_role = None\<rparr> example_db =
     (Inr (user_view_of u), example_db\<lparr>users := users example_db @ [u], next_oid := 6\<rparr>) \<and>
   role u = Member"
proof -
  have "\<forall>u \<in> set (users example_db). email u \<noteq> ''carol@example.com''"
    by (simp add: example_db_def example_user_def)
  from registerUser_fresh [OF this, of "''pw''" example_cfg 30] show ?thesis
    by (auto simp: example_db_def)
qed

text \<open>
  Claim C14 (functional, \<open>registerUser\<close>). The role a client sends is stored as
  given: registering with \<open>role: 'admin'\<close> creates an admin. Nothing restricts
  who may do so (the self-escalation of the spec's design notes).
\<close>

theorem registerUser_admin_role:
  assumes "\<forall>u \<in> set (users s). email u \<noteq> e" and "e \<noteq> []" and "pw \<noteq> []"
  shows "\<exists>u. registerUser cfg now \<lparr>r_email = Some e, r_password = Some pw,
      r_role = Some ''admin''\<rparr> s = (Inr (user_view_of u), s\<lparr>users := users s @ [u],
      next_oid := Suc (next_oid s)\<rparr>) \<and> role u = Admin"
proof -
  let ?u = "\<lparr>user_id = next_oid s, email = e, password = bcrypt_hash cfg (next_oid s) pw,
    role = Admin, u_created = now, u_updated = now\<rparr>"
  have "find_user_by_email s (Some e) = None" using assms(1) find_user_by_email_None by blast
  with assms(2,3) have "registerUser cfg now \<lparr>r_email = Some e, r_password = Some pw,
      r_role = Some ''admin''\<rparr> s = (Inr (user_view_of ?u), s\<lparr>users := users s @ [?u],
      next_oid := Suc (next_oid s)\<rparr>)"
    by (simp add: registerUser_def save_new_user_def user_errors_def parse_role_def Let_def)
  then show ?thesis by (intro exI [of _ ?u]) simp
qed

theorem registerUser_admin_role_witness:
  "\<exists>u. fst (registerUser example_cfg 30 \<lparr>r_email = Some ''mallory@example.com'',
      r_password = Some ''pw'', r_role = Some ''admin''\<rparr> example_db) = Inr (user_view_of u) \<and>
    role u = Admin"
proof -
  have "\<forall>u \<in> set (users example_db). email u \<noteq> ''mallory@example.com''"
    by (simp add: example_db_def example_user_def)
  from registerUser_admin_role [OF this, of "''pw''" example_cfg 30] show ?thesis
    by auto
qed

text \<open>
  Claim C15 (error, \<open>registerUser\<close>). A registration without an email is
  answered with \<open>User with this email already exists\<close> as soon as any user is
  stored: \<open>User.findOne({ email: undefined })\<close> matches the first user.
\<close>

theorem registerUser_no_email:
  assumes "r_email d = None" and "users s \<noteq> []"
  shows "registerUser cfg now d s = (Inl ''User with this email already exists'', s)"
  using assms by (auto simp: registerUser_def find_user_by_email_def neq_Nil_conv)

theorem registerUser_no_email_witness:
  "registerUser example_cfg 30 \<lparr>r_email = None, r_password = Some ''pw'', r_role = None\<rparr> example_db =
     (Inl ''User with this email already exists'', example_db)"
  using registerUser_no_email [of "\<lparr>r_email = None, r_password = Some ''pw'', r_role = None\<rparr>"
      example_db example_cfg 30]
  by (simp add: example_db_def)

end
