(* ===== verification/ProjectService.thy ===== *)
theory ProjectService
  imports Store
begin

text \<open>
  \<open>src/modules/project/services/index.js\<close>: the five operations on projects.
  Each takes the database and returns its result (a thrown \<open>Error\<close> is \<open>Inl\<close>
  of its message) with the database after the call; the reads return the result
  only. Ids arrive as the strings of the request path and are cast by
  \<open>findById\<close>; the requester's id and role flag come from the route.
\<close>

definition createProject :: "time \<Rightarrow> project_input \<Rightarrow> db \<Rightarrow> project_view result \<times> db" where
  "createProject now data s =
     (case save_new_project now (new_pdoc data) s of
        Inl e \<Rightarrow> (Inl e, s)
      | Inr (p, s') \<Rightarrow> (Inr (populate s' p), s'))"

text \<open>\<open>.sort({ createdAt: -1 })\<close>: newest first. MongoDB leaves the order of equal
  timestamps open; the model keeps their natural order (a stable sort).\<close>

definition sort_created_desc :: "project list \<Rightarrow> project list" where
  "sort_created_desc ps = sort_key (\<lambda>p. - int (p_created p)) ps"

definition getAllProjects :: "db \<Rightarrow> oid \<Rightarrow> bool \<Rightarrow> project_view list" where
  "getAllProjects s userId isAdmin =
     (let query = (if isAdmin then (\<lambda>p. True) else (\<lambda>p. owner p = userId))
      in map (populate s) (sort_created_desc (filter query (projects s))))"

definition getProjectById :: "db \<Rightarrow> string \<Rightarrow> project_view result" where
  "getProjectById s pid =
     (case project_find_by_id s pid of
        Inl e \<Rightarrow> Inl e
      | Inr None \<Rightarrow> Inl ''Project not found''
      | Inr (Some p) \<Rightarrow> Inr (populate s p))"

definition update_denied :: string where
  "update_denied = ''You do not have permission to update this project''"

definition delete_denied :: string where
  "delete_denied = ''You do not have permission to delete this project''"

definition updateProject ::
  "time \<Rightarrow> string \<Rightarrow> project_input \<Rightarrow> oid \<Rightarrow> bool \<Rightarrow> db \<Rightarrow> project_view result \<times> db" where
  "updateProject now pid data userId isAdmin s =
     (case project_find_by_id s pid of
        Inl e \<Rightarrow> (Inl e, s)
      | Inr None \<Rightarrow> (Inl ''Project not found'', s)
      | Inr (Some p) \<Rightarrow>
          if \<not> isAdmin \<and> owner p \<noteq> userId then (Inl update_denied, s)
          else (case save_project now p (assign_pdoc (pdoc_of_project p) data) s of
                  Inl e \<Rightarrow> (Inl e, s)
                | Inr (p', s') \<Rightarrow> (Inr (populate s' p'), s')))"

definition deleteProject :: "string \<Rightarrow> oid \<Rightarrow> bool \<Rightarrow> db \<Rightarrow> string result \<times> db" where
  "deleteProject pid userId isAdmin s =
     (case project_find_by_id s pid of
        Inl e \<Rightarrow> (Inl e, s)
      | Inr None \<Rightarrow> (Inl ''Project not found'', s)
      | Inr (Some p) \<Rightarrow>
          if \<not> isAdmin \<and> owner p \<noteq> userId then (Inl delete_denied, s)
          else (Inr ''Project deleted successfully'', delete_project_doc (proj_id p) s))"

text \<open>
  The contract of the service on the abstract store (a finite map from ids to
  projects): which requester may change which project, and what the change is.
\<close>

definition may_modify :: "oid \<Rightarrow> bool \<Rightarrow> project \<Rightarrow> bool" where
  "may_modify userId isAdmin p \<longleftrightarrow> isAdmin \<or> owner p = userId"

definition created_desc :: "project list \<Rightarrow> bool" where
  "created_desc ps = sorted_wrt (\<lambda>a b. p_created b \<le> p_created a) ps"

subsection \<open>Lemmas on the operations\<close>

lemma project_find_by_id_cases:
  "project_find_by_id s pid = Inl e \<longleftrightarrow> cast_oid pid = None \<and> e = cast_message ''Project'' pid"
  "project_find_by_id s pid = Inr r \<longleftrightarrow> (\<exists>i. cast_oid pid = Some i \<and> r = proj_map s i)"
  by (auto simp: project_find_by_id_def find_project_proj_map split: option.splits)

lemma sort_created_desc_sorted: "created_desc (sort_created_desc ps)"
proof -
  have "sorted (map (\<lambda>p. - int (p_created p)) (sort_created_desc ps))"
    by (simp add: sort_created_desc_def)
  then have "sorted_wrt (\<lambda>x y. - int (p_created x) \<le> - int (p_created y))
      (sort_created_desc ps)"
    by (simp add: sorted_map)
  then show ?thesis unfolding created_desc_def by (rule sorted_wrt_mono_rel [rotated]) simp
qed

lemma mset_sort_created_desc [simp]: "mset (sort_created_desc ps) = mset ps"
  by (simp add: sort_created_desc_def)

lemma pv_project_comp_populate [simp]: "pv_project \<circ> populate s = id"
  by (simp add: fun_eq_iff populate_def)


lemma status_string_eq [simp]: "status_string a = status_string b \<longleftrightarrow> a = b"
  by (cases a; cases b) simp_all

lemma updateProject_found:
  assumes "cast_oid pid = Some i" and "proj_map s i = Some p"
  shows "updateProject now pid data userId isAdmin s =
    (if \<not> may_modify userId isAdmin p then (Inl update_denied, s)
     else (case save_project now p (assign_pdoc (pdoc_of_project p) data) s of
             Inl e \<Rightarrow> (Inl e, s)
           | Inr (p', s') \<Rightarrow> (Inr (populate s' p'), s')))"
  unfolding updateProject_def project_find_by_id_def find_project_proj_map may_modify_def
  using assms by simp

lemma deleteProject_found:
  assumes "cast_oid pid = Some i" and "proj_map s i = Some p"
  shows "deleteProject pid userId isAdmin s =
    (if \<not> may_modify userId isAdmin p then (Inl delete_denied, s)
     else (Inr ''Project deleted successfully'', delete_project_doc i s))"
proof -
  have "proj_id p = i" using assms(2) unfolding proj_map_def by (blast dest: key_map_Some_in)
  then show ?thesis
    unfolding deleteProject_def project_find_by_id_def find_project_proj_map may_modify_def
    using assms by simp
qed

lemma updateProject_missing:
  "cast_oid pid = Some i \<Longrightarrow> proj_map s i = None \<Longrightarrow>
   updateProject now pid data userId isAdmin s = (Inl ''Project not found'', s)"
  unfolding updateProject_def project_find_by_id_def find_project_proj_map by simp

lemma deleteProject_missing:
  "cast_oid pid = Some i \<Longrightarrow> proj_map s i = None \<Longrightarrow>
   deleteProject pid userId isAdmin s = (Inl ''Project not found'', s)"
  unfolding deleteProject_def project_find_by_id_def find_project_proj_map by simp

lemma proj_map_in:
  "proj_map s i = Some p \<Longrightarrow> p \<in> set (projects s) \<and> proj_id p = i"
  unfolding proj_map_def by (rule key_map_Some_in)

lemma updateProject_db:
  assumes "updateProject now pid data userId isAdmin s = (r, s')"
  shows "s' = s \<or> (\<exists>i p p'. cast_oid pid = Some i \<and> proj_map s i = Some p \<and>
    may_modify userId isAdmin p \<and>
    save_project now p (assign_pdoc (pdoc_of_project p) data) s = Inr (p', s'))"
  using assms
  unfolding updateProject_def project_find_by_id_def find_project_proj_map may_modify_def
  by (auto split: option.splits sum.splits if_splits)

lemma deleteProject_db:
  assumes "deleteProject pid userId isAdmin s = (r, s')"
  shows "s' = s \<or> (\<exists>i p. cast_oid pid = Some i \<and> proj_map s i = Some p \<and>
    may_modify userId isAdmin p \<and> s' = delete_project_doc i s)"
  using assms
  unfolding deleteProject_def project_find_by_id_def find_project_proj_map may_modify_def
  by (auto dest: proj_map_in split: option.splits sum.splits if_splits)

lemma createProject_db:
  assumes "createProject now data s = (r, s')"
  shows "s' = s \<or> (\<exists>p. save_new_project now (new_pdoc data) s = Inr (p, s'))"
  using assms by (auto simp: createProject_def split: sum.splits)

lemma createProject_wf: "db_wf s \<Longrightarrow> createProject now data s = (r, s') \<Longrightarrow> db_wf s'"
  using createProject_db save_new_project_wf new_pdoc_ok by blast

lemma updateProject_wf:
  assumes wf: "db_wf s" and u: "updateProject now pid data uid adm s = (r, s')"
  shows "db_wf s'"
  using updateProject_db [OF u]
proof
  assume "s' = s"
  with wf show ?thesis by simp
next
  assume "\<exists>i p p'. cast_oid pid = Some i \<and> proj_map s i = Some p \<and> may_modify uid adm p \<and>
    save_project now p (assign_pdoc (pdoc_of_project p) data) s = Inr (p', s')"
  then obtain i p p' where pm: "proj_map s i = Some p"
    and sv: "save_project now p (assign_pdoc (pdoc_of_project p) data) s = Inr (p', s')"
    by blast
  from pm have p: "p \<in> set (projects s)" by (simp add: proj_map_in)
  with wf have ok: "pdoc_ok (assign_pdoc (pdoc_of_project p) data)" by (simp add: project_wf_in)
  from wf ok p sv show ?thesis by (rule save_project_wf)
qed

lemma deleteProject_wf:
  assumes wf: "db_wf s" and d: "deleteProject pid uid adm s = (r, s')"
  shows "db_wf s'"
  using deleteProject_db [OF d] wf delete_project_doc_wf by blast


lemma validation_message_not_denied [simp]:
  "validation_message ''Project'' errs \<noteq> update_denied"
  "validation_message ''Project'' errs \<noteq> delete_denied"
  by (simp_all add: validation_message_def update_denied_def delete_denied_def)

lemma save_project_error: "save_project now p d s = Inl e \<Longrightarrow> e \<noteq> update_denied"
  using save_project_Inl validate_pdoc_ok by (metis validation_message_not_denied(1))


lemma deleteProject_modifies:
  assumes del: "deleteProject pid userId isAdmin s = (r, s')"
    and q: "proj_map s k = Some q" and ch: "proj_map s' k \<noteq> Some q"
  shows "may_modify userId isAdmin q"
  using deleteProject_db [OF del]
proof
  assume "s' = s"
  with q ch show ?thesis by simp
next
  assume "\<exists>i p. cast_oid pid = Some i \<and> proj_map s i = Some p \<and> may_modify userId isAdmin p \<and>
    s' = delete_project_doc i s"
  then obtain i p where pm: "proj_map s i = Some p" and mm: "may_modify userId isAdmin p"
    and s': "s' = delete_project_doc i s"
    by blast
  have "k = i" using q ch s' by (cases "k = i") (auto simp: proj_map_delete)
  with pm q mm show ?thesis by simp
qed

lemma createProject_keeps:
  assumes wf: "db_wf s" and cr: "createProject now data s = (r, s')" and q: "proj_map s k = Some q"
  shows "proj_map s' k = Some q"
  using createProject_db [OF cr]
proof
  assume "s' = s"
  with q show ?thesis by simp
next
  assume "\<exists>p. save_new_project now (new_pdoc data) s = Inr (p, s')"
  then obtain p where sv: "save_new_project now (new_pdoc data) s = Inr (p, s')" by blast
  from proj_map_save_new [OF wf sv] q show ?thesis by (cases "k = proj_id p") auto
qed

subsection \<open>Properties\<close>

text \<open>
  Claim C1 (safety, \<open>updateProject\<close>). On an existing project, a requester who is
  neither an admin nor the owner is refused with the permission error and the
  database is left as it was; an admin or the owner is never refused with it.
\<close>

theorem updateProject_permission:
  assumes "cast_oid pid = Some i" and "proj_map s i = Some p"
  shows "(\<not> isAdmin \<and> owner p \<noteq> userId \<longrightarrow>
      updateProject now pid data userId isAdmin s =
        (Inl ''You do not have permission to update this project'', s)) \<and>
    (isAdmin \<or> owner p = userId \<longrightarrow>
      fst (updateProject now pid data userId isAdmin s) \<noteq>
        Inl ''You do not have permission to update this project'')"
proof -
  have "update_denied = ''You do not have permission to update this project''"
    by (simp add: update_denied_def)
  then show ?thesis
    using updateProject_found [OF assms, of now data userId isAdmin]
    by (auto simp: may_modify_def dest: save_project_error split: sum.splits)
qed

theorem updateProject_permission_witness:
  "cast_oid (oid_string 3) = Some 3 \<and> proj_map example_db 3 = Some example_project \<and>
   updateProject 30 (oid_string 3) no_input 2 False example_db =
     (Inl ''You do not have permission to update this project'', example_db)"
  using updateProject_permission [OF example_cast example_proj_map, of False 2 30 no_input]
  by (simp add: example_cast example_proj_map example_project_def)

text \<open>
  Claim C2 (safety, \<open>deleteProject\<close>). On an existing project, an admin or the
  owner deletes it (and only it); anyone else gets the permission error and the
  database is unchanged.
\<close>

theorem deleteProject_permission:
  assumes "cast_oid pid = Some i" and "proj_map s i = Some p"
  shows "deleteProject pid userId isAdmin s =
    (if isAdmin \<or> owner p = userId
     then (Inr ''Project deleted successfully'', delete_project_doc i s)
     else (Inl ''You do not have permission to delete this project'', s)) \<and>
    proj_map (delete_project_doc i s) = (proj_map s)(i := None)"
  using deleteProject_found [OF assms, of userId isAdmin]
  by (simp add: may_modify_def delete_denied_def proj_map_delete)

theorem deleteProject_permission_witness:
  "cast_oid (oid_string 3) = Some 3 \<and> proj_map example_db 3 = Some example_project \<and>
   deleteProject (oid_string 3) 1 False example_db =
     (Inr ''Project deleted successfully'', delete_project_doc 3 example_db)"
  using deleteProject_permission [OF example_cast example_proj_map, of 1 False]
  by (simp add: example_cast example_proj_map example_project_def)



text \<open>
  Claim C4 (safety, \<open>deleteProject\<close>). Whatever a non-admin asks to delete, every
  project that the requester does not own is still there, unchanged.
\<close>

theorem deleteProject_frame:
  assumes del: "deleteProject pid userId False s = (r, s')"
    and q: "proj_map s k = Some q" and nq: "owner q \<noteq> userId"
  shows "proj_map s' k = Some q"
  using deleteProject_modifies [OF del q] nq by (auto simp: may_modify_def)

theorem deleteProject_frame_witness:
  "proj_map (snd (deleteProject (oid_string 3) 2 False example_db)) 3 = Some example_project"
  using deleteProject_frame [OF prod.collapse [symmetric] example_proj_map]
  by (simp add: example_project_def)

text \<open>
  Claim C5 (functional, \<open>getAllProjects\<close>). A non-admin's list holds exactly the
  projects whose owner is the requester, each once, newest first.
\<close>

theorem getAllProjects_member:
  "mset (map pv_project (getAllProjects s userId False)) =
     mset (filter (\<lambda>p. owner p = userId) (projects s)) \<and>
   created_desc (map pv_project (getAllProjects s userId False))"
  by (simp add: getAllProjects_def sort_created_desc_sorted)

text \<open>
  Claim C6 (functional, \<open>getAllProjects\<close>). An admin's list holds every project of
  the collection, each once, newest first, each with its owner populated.
\<close>

theorem getAllProjects_admin:
  "mset (map pv_project (getAllProjects s userId True)) = mset (projects s) \<and>
   created_desc (map pv_project (getAllProjects s userId True)) \<and>
   (\<forall>v \<in> set (getAllProjects s userId True).
      pv_owner v = map_option owner_ref_of (find_user s (owner (pv_project v))))"
  by (auto simp: getAllProjects_def sort_created_desc_sorted populate_def)

theorem getAllProjects_admin_witness:
  "map pv_project (getAllProjects example_db 1 True) = [bob_project, example_project]"
  using getAllProjects_admin [of example_db 1]
  by (simp add: getAllProjects_def sort_created_desc_def example_db_def example_project_def
      bob_project_def populate_def)

text \<open>
  Claim C7 (functional, \<open>createProject\<close>). A successful create stores one new
  project: its name is the trimmed name sent, its owner the owner sent, its status
  the one sent or \<open>planning\<close> by default; its id is the body's \<open>_id\<close> when
  the body has one and a fresh id otherwise, its \<open>createdAt\<close> is the body's
  \<open>createdAt\<close> when given and the current time otherwise, and \<open>updatedAt\<close>
  equals \<open>createdAt\<close>; the id was free, and no other project changes.
\<close>

theorem createProject_stores:
  assumes wf: "db_wf s" and cr: "createProject now data s = (Inr v, s')"
  shows "map_option js_trim (in_name data) = Some (name (pv_project v)) \<and>
    in_owner data = Some (owner (pv_project v)) \<and>
    parse_status (case in_status data of None \<Rightarrow> ''planning'' | Some x \<Rightarrow> x) =
      Some (status (pv_project v)) \<and>
    proj_id (pv_project v) = (case in_id data of None \<Rightarrow> next_oid s | Some i \<Rightarrow> i) \<and>
    p_created (pv_project v) = (case in_created data of None \<Rightarrow> now | Some t \<Rightarrow> t) \<and>
    p_updated (pv_project v) = p_created (pv_project v) \<and>
    proj_map s (proj_id (pv_project v)) = None \<and>
    proj_map s' = (proj_map s)(proj_id (pv_project v) \<mapsto> pv_project v)"
proof -
  obtain p where sv: "save_new_project now (new_pdoc data) s = Inr (p, s')"
    and v: "v = populate s' p"
    using cr by (auto simp: createProject_def split: sum.splits)
  obtain n st ow where val: "validate_pdoc (new_pdoc data) = Inr (n, st, ow)"
    and p: "p = \<lparr>proj_id = (case d_id (new_pdoc data) of None \<Rightarrow> next_oid s | Some j \<Rightarrow> j),
         name = n, description = d_description (new_pdoc data), status = st, owner = ow,
         start_date = d_start (new_pdoc data), end_date = d_end (new_pdoc data),
         p_created = (case d_created (new_pdoc data) of None \<Rightarrow> now | Some t \<Rightarrow> t),
         p_updated = (case d_created (new_pdoc data) of None \<Rightarrow> now | Some t \<Rightarrow> t)\<rparr>"
    using save_new_project_Inr [OF sv] by blast
  have fields: "d_name (new_pdoc data) = Some n" "parse_status (d_status (new_pdoc data)) = Some st"
    "d_owner (new_pdoc data) = Some ow"
    using validate_pdoc_Inr [OF val] by simp_all
  have "proj_map s' = (proj_map s)(proj_id p \<mapsto> p) \<and> proj_map s (proj_id p) = None"
    by (rule proj_map_save_new [OF wf sv])
  with fields p v show ?thesis by (simp add: new_pdoc_def populate_def)
qed

theorem createProject_stores_witness:
  "proj_map (snd (createProject 30 (no_input\<lparr>in_name := Some '' Y '', in_owner := Some 2,
     in_id := Some 9, in_created := Some 7\<rparr>) example_db)) 9 =
   Some \<lparr>proj_id = 9, name = ''Y'', description = None, status = Planning, owner = 2,
     start_date = None, end_date = None, p_created = 7, p_updated = 7\<rparr>"
proof -
  let ?inp = "no_input\<lparr>in_name := Some '' Y '', in_owner := Some 2, in_id := Some 9,
     in_created := Some 7\<rparr>"
  let ?p = "\<lparr>proj_id = 9, name = ''Y'', description = None, status = Planning, owner = 2,
     start_date = None, end_date = None, p_created = 7, p_updated = 7\<rparr>"
  let ?s1 = "example_db\<lparr>projects := projects example_db @ [?p], next_oid := 10\<rparr>"
  have h: "createProject 30 ?inp example_db = (Inr (populate ?s1 ?p), ?s1)"
    by (simp add: createProject_def save_new_project_def validate_pdoc_def project_errors_def
        new_pdoc_def no_input_def js_trim_def js_space_def parse_status_def example_db_def Let_def
        find_project_def example_project_def bob_project_def)
  have "proj_map ?s1 = (proj_map example_db)(9 \<mapsto> ?p)"
    using createProject_stores [OF example_db_wf h] by (simp add: populate_def)
  then show ?thesis using h by simp
qed

text \<open>
  Claim C17 (error, \<open>createProject\<close>). A body whose \<open>_id\<close> names a stored
  project never overwrites it: the create fails, with the validation error or
  MongoDB's duplicate-key error, and the database is unchanged.
\<close>

theorem createProject_duplicate_id:
  assumes i: "in_id data = Some i" and q: "proj_map s i = Some q"
  shows "\<exists>e. createProject now data s = (Inl e, s) \<and>
    (e = dup_key_message i \<or> validate_pdoc (new_pdoc data) = Inl e)"
proof (cases "validate_pdoc (new_pdoc data)")
  case (Inl e)
  then show ?thesis by (simp add: createProject_def save_new_project_def)
next
  case (Inr x)
  have "save_new_project now (new_pdoc data) s = Inl (dup_key_message i)"
    using save_new_project_dup [OF Inr] i q by (simp add: new_pdoc_def find_project_proj_map)
  then show ?thesis by (simp add: createProject_def)
qed

theorem createProject_duplicate_id_witness:
  "createProject 30 (no_input\<lparr>in_name := Some ''Y'', in_owner := Some 2, in_id := Some 3\<rparr>)
     example_db = (Inl (dup_key_message 3), example_db)"
proof -
  let ?inp = "no_input\<lparr>in_name := Some ''Y'', in_owner := Some 2, in_id := Some 3\<rparr>"
  have v: "validate_pdoc (new_pdoc ?inp) = Inr (''Y'', Planning, 2)"
    by (simp add: validate_pdoc_def project_errors_def new_pdoc_def no_input_def js_trim_def
        js_space_def parse_status_def)
  obtain e where "createProject 30 ?inp example_db = (Inl e, example_db)"
    and "e = dup_key_message 3 \<or> validate_pdoc (new_pdoc ?inp) = Inl e"
    using createProject_duplicate_id [of ?inp 3 example_db example_project 30]
    by (auto simp: no_input_def example_proj_map)
  with v show ?thesis by simp
qed



end
