(* ===== verification/Http.thy ===== *)
theory Http
  imports AuthService ProjectService
begin

text \<open>
  The Express objects the middlewares and handlers share. A request carries the
  \<open>Authorization\<close> header and the fields the middlewares attach
  (\<open>req.user\<close>, \<open>req.token\<close>, \<open>req.isAdmin\<close>). A middleware either calls
  \<open>next()\<close> with the (possibly extended) request or ends the request with an
  error status and message (\<open>res.status(n).json({success: false, message})\<close>).
  A response is the status and the JSON envelope \<open>{success, message, data}\<close>.
\<close>

record request =
  authorization :: "string option"
  req_user :: "user_view option"
  req_token :: "string option"
  req_isAdmin :: "bool option"

datatype 'r mw = Next 'r | Halt nat string

datatype payload =
    PUser user_view
  | PLogin login_result
  | PProject project_view
  | PProjects "project_view list"
  | PTime time

record response =
  res_status :: nat
  res_success :: bool
  res_message :: "string option"
  res_data :: "payload option"

definition error_response :: "nat \<Rightarrow> string \<Rightarrow> response" where
  "error_response n m = \<lparr>res_status = n, res_success = False, res_message = Some m, res_data = None\<rparr>"

definition bare_request :: "string option \<Rightarrow> request" where
  "bare_request h = \<lparr>authorization = h, req_user = None, req_token = None, req_isAdmin = None\<rparr>"

end
