(* ===== verification/AuthMiddleware.thy ===== *)
theory AuthMiddleware
  imports Http
begin

text \<open>
  \<open>src/middlewares/auth.js\<close>: every project route first runs \<open>auth\<close>. It
  requires an \<open>Authorization\<close> header starting with \<open>Bearer \<close>, verifies the
  rest as a token, loads the user named by the token's \<open>userId\<close>, and attaches
  user and token to the request. Any error thrown on the way is answered with 401
  and its message (\<open>error.message || 'Authentication failed'\<close>).
\<close>

definition auth_message :: "string \<Rightarrow> string" where
  "auth_message e = (if e = [] then ''Authentication failed'' else e)"

definition auth :: "config \<Rightarrow> time \<Rightarrow> db \<Rightarrow> request \<Rightarrow> request mw" where
  "auth cfg now s req =
     (case authorization req of
        None \<Rightarrow> Halt 401 ''No token provided''
      | Some authHeader \<Rightarrow>
          if authHeader = [] \<or> \<not> js_starts_with authHeader ''Bearer ''
          then Halt 401 ''No token provided''
          else
            let token = js_substring authHeader 7
            in case verifyToken cfg token now of
                 Inl e \<Rightarrow> Halt 401 (auth_message e)
               | Inr decoded \<Rightarrow>
                   (case getUserById s (c_userId decoded) of
                      Inl e \<Rightarrow> Halt 401 (auth_message e)
                    | Inr user \<Rightarrow> Next (req\<lparr>req_user := Some user, req_token := Some token\<rparr>)))"

subsection \<open>Lemmas\<close>

lemma auth_bearer:
  assumes "authorization req = Some h" and "js_starts_with h ''Bearer ''"
  shows "auth cfg now s req =
     (case verifyToken cfg (js_substring h 7) now of
        Inl e \<Rightarrow> Halt 401 (auth_message e)
      | Inr decoded \<Rightarrow>
          (case getUserById s (c_userId decoded) of
             Inl e \<Rightarrow> Halt 401 (auth_message e)
           | Inr user \<Rightarrow> Next (req\<lparr>req_user := Some user,
                              req_token := Some (js_substring h 7)\<rparr>)))"
proof -
  have "h \<noteq> []" using assms(2) by (auto simp: js_starts_with_def)
  with assms show ?thesis by (simp add: auth_def Let_def)
qed

lemma auth_message_nonempty [simp]: "e \<noteq> [] \<Longrightarrow> auth_message e = e"
  by (simp add: auth_message_def)

subsection \<open>Properties\<close>

text \<open>
  Claim C18 (error, \<open>auth\<close>). A request without an \<open>Authorization\<close> header, or
  whose header does not start with \<open>Bearer \<close>, is answered 401 with
  \<open>No token provided\<close>, whatever else it carries.
\<close>

theorem auth_requires_bearer:
  assumes "case authorization req of None \<Rightarrow> True | Some h \<Rightarrow> \<not> js_starts_with h ''Bearer ''"
  shows "auth cfg now s req = Halt 401 ''No token provided''"
  using assms by (auto simp: auth_def split: option.splits)

theorem auth_requires_bearer_witness:
  "auth example_cfg 0 example_db (bare_request (Some ''Basic abc'')) = Halt 401 ''No token provided''"
  using auth_requires_bearer [of "bare_request (Some ''Basic abc'')" example_cfg 0 example_db]
  by (simp add: bare_request_def js_starts_with_def)

text \<open>
  Claim C19 (safety, \<open>auth\<close>). A request passes \<open>auth\<close> only with a bearer
  token that \<open>verifyToken\<close> accepts and whose \<open>userId\<close> names a stored user;
  the request then carries that user (without password) and the token.
\<close>

theorem auth_pass_authentic:
  assumes "auth cfg now s req = Next r"
  shows "\<exists>tok c u. authorization req = Some (''Bearer '' @ tok) \<and>
    verifyToken cfg tok now = Inr c \<and>
    user_find_by_id s (c_userId c) = Inr (Some u) \<and>
    r = req\<lparr>req_user := Some (user_view_of u), req_token := Some tok\<rparr>"
proof -
  obtain h where h: "authorization req = Some h" and b: "js_starts_with h ''Bearer ''"
    using assms by (auto simp: auth_def split: option.splits if_splits)
  then obtain tok where tok: "h = ''Bearer '' @ tok"
    by (auto simp: js_starts_with_iff)
  have "js_substring h 7 = tok" using tok by (simp add: js_substring_def)
  with auth_bearer [OF h b] assms obtain c v where c: "verifyToken cfg tok now = Inr c"
    and v: "getUserById s (c_userId c) = Inr v"
    and r: "r = req\<lparr>req_user := Some v, req_token := Some tok\<rparr>"
    by (auto split: sum.splits)
  obtain u where "user_find_by_id s (c_userId c) = Inr (Some u)" and "v = user_view_of u"
    using v by (auto simp: getUserById_def split: sum.splits option.splits)
  with h tok c r show ?thesis by blast
qed

theorem auth_pass_authentic_witness:
  "\<exists>tok c u. authorization (bare_request (Some (''Bearer '' @ generateToken example_cfg
      \<lparr>tp_userId = oid_string 1, tp_email = ''alice@example.com'', tp_role = ''member''\<rparr> 0))) =
      Some (''Bearer '' @ tok) \<and>
    verifyToken example_cfg tok 0 = Inr c \<and> user_find_by_id example_db (c_userId c) = Inr (Some u)"
proof -
  let ?t = "generateToken example_cfg
      \<lparr>tp_userId = oid_string 1, tp_email = ''alice@example.com'', tp_role = ''member''\<rparr> 0"
  have h: "authorization (bare_request (Some (''Bearer '' @ ?t))) = Some (''Bearer '' @ ?t)"
    by (simp add: bare_request_def)
  have sub: "js_substring (''Bearer '' @ ?t) 7 = ?t" by (simp add: js_substring_def)
  have u: "getUserById example_db (oid_string 1) = Inr (user_view_of (example_user 1 ''alice@example.com''))"
    by (simp add: getUserById_def user_find_by_id_def find_user_def example_db_def example_user_def)
  have "auth example_cfg 0 example_db (bare_request (Some (''Bearer '' @ ?t))) =
      Next ((bare_request (Some (''Bearer '' @ ?t)))\<lparr>
        req_user := Some (user_view_of (example_user 1 ''alice@example.com'')), req_token := Some ?t\<rparr>)"
    using auth_bearer [OF h js_starts_with_append] sub u by (simp add: verifyToken_generateToken)
  from auth_pass_authentic [OF this] show ?thesis by blast
qed

end
