(* ===== verification/Roles.thy ===== *)
theory Roles
  imports Http
begin

text \<open>
  \<open>src/middlewares/roles.js\<close>: the admin-only guard, the member-or-admin guard
  that records \<open>req.isAdmin\<close>, and the per-resource ownership check. The routes
  of the repository do not mount them (they test the role and the owner inline);
  the properties below show that the two-phase guard decides exactly as the
  inline tests and the service's check do.
\<close>

definition isAdmin :: "request \<Rightarrow> request mw" where
  "isAdmin req =
     (case req_user req of
        None \<Rightarrow> Halt 401 ''Authentication required''
      | Some u \<Rightarrow> if uv_role u \<noteq> Admin then Halt 403 ''Admin access required'' else Next req)"

definition isMemberOrAdmin :: "request \<Rightarrow> request mw" where
  "isMemberOrAdmin req =
     (case req_user req of
        None \<Rightarrow> Halt 401 ''Authentication required''
      | Some u \<Rightarrow>
          if uv_role u = Admin then Next (req\<lparr>req_isAdmin := Some True\<rparr>)
          else Next (req\<lparr>req_isAdmin := Some False\<rparr>))"

text \<open>
  \<open>checkOwnership(resource)\<close>: the resource's owner is optional
  (\<open>resource.owner?.toString()\<close>); ids are compared through their strings, which
  are equal exactly when the ids are. Without \<open>req.user\<close> the read of
  \<open>req.user._id\<close> throws, and Express answers 500.
\<close>

definition checkOwnership :: "oid option \<Rightarrow> request \<Rightarrow> request mw" where
  "checkOwnership resourceOwner req =
     (if req_isAdmin req = Some True then Next req
      else case req_user req of
        None \<Rightarrow> Halt 500 ''Cannot read properties of undefined (reading '_id')''
      | Some u \<Rightarrow>
          if resourceOwner \<noteq> Some (uv_id u)
          then Halt 403 ''You do not have permission to access this resource''
          else Next req)"

text \<open>Express runs the middlewares of a route in order; the first that does not
  call \<open>next()\<close> ends the request.\<close>

definition mw_then :: "('a \<Rightarrow> 'b mw) \<Rightarrow> ('b \<Rightarrow> 'c mw) \<Rightarrow> 'a \<Rightarrow> 'c mw" where
  "mw_then f g x = (case f x of Next y \<Rightarrow> g y | Halt n m \<Rightarrow> Halt n m)"

definition example_view :: "oid \<Rightarrow> role \<Rightarrow> user_view" where
  "example_view i r = \<lparr>uv_id = i, uv_email = ''u@example.com'', uv_role = r, uv_created = 0,
     uv_updated = 0\<rparr>"

subsection \<open>Properties\<close>

text \<open>
  Claim C16 (equivalence, \<open>isMemberOrAdmin\<close>, \<open>checkOwnership\<close>). For an
  authenticated request and a resource with an owner, the two-phase guard
  (member-or-admin, then ownership) lets the request through exactly when the
  service's own test (\<open>isAdmin || owner == userId\<close>) allows it, and otherwise
  answers 403.
\<close>

theorem ownership_guard_equiv:
  assumes "req_user req = Some u"
  shows "mw_then isMemberOrAdmin (checkOwnership (Some (owner p))) req =
    (if may_modify (uv_id u) (uv_role u = Admin) p
     then Next (req\<lparr>req_isAdmin := Some (uv_role u = Admin)\<rparr>)
     else Halt 403 ''You do not have permission to access this resource'')"
  using assms
  by (auto simp: mw_then_def isMemberOrAdmin_def checkOwnership_def may_modify_def)

theorem ownership_guard_equiv_witness:
  "mw_then isMemberOrAdmin (checkOwnership (Some (owner example_project)))
     ((bare_request None)\<lparr>req_user := Some (example_view 2 Member)\<rparr>) =
   Halt 403 ''You do not have permission to access this resource''"
  using ownership_guard_equiv [of "(bare_request None)\<lparr>req_user := Some (example_view 2 Member)\<rparr>"
      "example_view 2 Member" example_project]
  by (simp add: bare_request_def example_view_def may_modify_def example_project_def)

text \<open>
  The admin-only guard passes a request on exactly when an authenticated admin
  made it, and passes it on unchanged.
\<close>

theorem isAdmin_guard:
  "(isAdmin req = Next req \<longleftrightarrow> (\<exists>u. req_user req = Some u \<and> uv_role u = Admin)) \<and>
   (\<forall>r. isAdmin req = Next r \<longrightarrow> r = req)"
  by (auto simp: isAdmin_def split: option.splits)

theorem isAdmin_guard_witness:
  "isAdmin ((bare_request None)\<lparr>req_user := Some (example_view 1 Admin)\<rparr>) =
     Next ((bare_request None)\<lparr>req_user := Some (example_view 1 Admin)\<rparr>)"
  using isAdmin_guard [of "(bare_request None)\<lparr>req_user := Some (example_view 1 Admin)\<rparr>"]
  by (simp add: example_view_def)

end
