(* ===== verification/Routes.thy ===== *)
theory Routes
  imports AuthMiddleware Roles
begin

text \<open>
  The HTTP layer: \<open>src/routes/auth/index.js\<close> (register, login),
  \<open>src/routes/project/index.js\<close> (the five project routes behind \<open>auth\<close>) and
  \<open>src/routes/index.js\<close> (mounting and the health check). Each handler returns
  its response and the database after the request. The project handlers get the
  user \<open>auth\<close> attached; the status of an error response is chosen from the
  text of the error message, as the code does.
\<close>

definition ok_response :: "nat \<Rightarrow> string option \<Rightarrow> payload option \<Rightarrow> response" where
  "ok_response n m d = \<lparr>res_status = n, res_success = True, res_message = m, res_data = d\<rparr>"

subsection \<open>Authentication routes\<close>

definition post_register :: "config \<Rightarrow> time \<Rightarrow> register_input \<Rightarrow> db \<Rightarrow> response \<times> db" where
  "post_register cfg now body s =
     (case registerUser cfg now body s of
        (Inl e, s') \<Rightarrow> (error_response 400 e, s')
      | (Inr u, s') \<Rightarrow> (ok_response 201 (Some ''User registered successfully'') (Some (PUser u)), s'))"

record login_body =
  l_email :: "string option"
  l_password :: "string option"

definition post_login :: "config \<Rightarrow> time \<Rightarrow> login_body \<Rightarrow> db \<Rightarrow> response" where
  "post_login cfg now body s =
     (case (l_email body, l_password body) of
        (Some em, Some pw) \<Rightarrow>
          if em = [] \<or> pw = [] then error_response 400 ''Email and password are required''
          else (case loginUser cfg now em pw s of
                  Inl e \<Rightarrow> error_response 401 e
                | Inr r \<Rightarrow> ok_response 200 (Some ''Login successful'') (Some (PLogin r)))
      | _ \<Rightarrow> error_response 400 ''Email and password are required'')"

subsection \<open>Project routes\<close>

definition post_projects :: "time \<Rightarrow> user_view \<Rightarrow> project_input \<Rightarrow> db \<Rightarrow> response \<times> db" where
  "post_projects now user body s =
     (let projectData = body\<lparr>in_owner := Some (uv_id user)\<rparr>
      in case createProject now projectData s of
           (Inl e, s') \<Rightarrow> (error_response 400 e, s')
         | (Inr p, s') \<Rightarrow> (ok_response 201 (Some ''Project created successfully'') (Some (PProject p)), s'))"

definition get_projects :: "user_view \<Rightarrow> db \<Rightarrow> response" where
  "get_projects user s =
     ok_response 200 None
       (Some (PProjects (getAllProjects s (uv_id user) (uv_role user = Admin))))"

text \<open>\<open>GET /projects/:id\<close>: a non-admin reads \<open>project.owner._id\<close>; when the
  owner did not populate (\<open>null\<close>) that read throws a \<open>TypeError\<close>, which the
  handler's \<open>catch\<close> answers with 500.\<close>

definition null_owner_message :: string where
  "null_owner_message = ''Cannot read properties of null (reading '_id')''"

definition get_project :: "user_view \<Rightarrow> string \<Rightarrow> db \<Rightarrow> response" where
  "get_project user pid s =
     (case getProjectById s pid of
        Inl e \<Rightarrow> error_response (if e = ''Project not found'' then 404 else 500) e
      | Inr project \<Rightarrow>
          let isAdmin = (uv_role user = Admin)
          in if isAdmin then ok_response 200 None (Some (PProject project))
             else (case pv_owner project of
                     None \<Rightarrow> error_response 500 null_owner_message
                   | Some ow \<Rightarrow>
                       if ref_id ow \<noteq> uv_id user
                       then error_response 403 ''You do not have permission to access this project''
                       else ok_response 200 None (Some (PProject project))))"

definition update_status :: "string \<Rightarrow> nat" where
  "update_status e = (if e = ''Project not found'' then 404
     else if js_includes e ''permission'' then 403 else 400)"

definition delete_status :: "string \<Rightarrow> nat" where
  "delete_status e = (if e = ''Project not found'' then 404
     else if js_includes e ''permission'' then 403 else 500)"

definition put_project ::
  "time \<Rightarrow> user_view \<Rightarrow> string \<Rightarrow> project_input \<Rightarrow> db \<Rightarrow> response \<times> db" where
  "put_project now user pid body s =
     (case updateProject now pid body (uv_id user) (uv_role user = Admin) s of
        (Inl e, s') \<Rightarrow> (error_response (update_status e) e, s')
      | (Inr p, s') \<Rightarrow> (ok_response 200 (Some ''Project updated successfully'') (Some (PProject p)), s'))"

definition delete_project :: "user_view \<Rightarrow> string \<Rightarrow> db \<Rightarrow> response \<times> db" where
  "delete_project user pid s =
     (case deleteProject pid (uv_id user) (uv_role user = Admin) s of
        (Inl e, s') \<Rightarrow> (error_response (delete_status e) e, s')
      | (Inr m, s') \<Rightarrow> (ok_response 200 (Some m) None, s'))"

subsection \<open>The application\<close>

datatype endpoint =
    Register register_input
  | Login login_body
  | Health
  | CreateProject project_input
  | ListProjects
  | GetProject string
  | UpdateProject string project_input
  | DeleteProject string

fun project_route :: "time \<Rightarrow> user_view \<Rightarrow> endpoint \<Rightarrow> db \<Rightarrow> response \<times> db" where
  "project_route now u (CreateProject b) s = post_projects now u b s"
| "project_route now u ListProjects s = (get_projects u s, s)"
| "project_route now u (GetProject pid) s = (get_project u pid s, s)"
| "project_route now u (UpdateProject pid b) s = put_project now u pid b s"
| "project_route now u (DeleteProject pid) s = delete_project u pid s"
| "project_route now u _ s = (error_response 404 ''Not found'', s)"

text \<open>
  One request: the endpoint with its body, and the \<open>Authorization\<close> header.
  The project router runs \<open>auth\<close> before every project route.
\<close>

definition handle :: "config \<Rightarrow> time \<Rightarrow> string option \<Rightarrow> endpoint \<Rightarrow> db \<Rightarrow> response \<times> db" where
  "handle cfg now hdr ep s =
     (case ep of
        Register b \<Rightarrow> post_register cfg now b s
      | Login b \<Rightarrow> (post_login cfg now b s, s)
      | Health \<Rightarrow> (ok_response 200 (Some ''API is running'') (Some (PTime now)), s)
      | _ \<Rightarrow>
          (case auth cfg now s (bare_request hdr) of
             Halt n m \<Rightarrow> (error_response n m, s)
           | Next r \<Rightarrow>
               (case req_user r of
                  None \<Rightarrow> (error_response 500 ''Cannot read properties of undefined (reading '_id')'', s)
                | Some u \<Rightarrow> project_route now u ep s)))"


text \<open>
  The response envelope every handler promises: a status from the spec's
  translation table, \<open>success\<close> exactly for the 2xx statuses, and an error that
  always carries a non-empty message and no data.
\<close>

definition response_wf :: "response \<Rightarrow> bool" where
  "response_wf r \<longleftrightarrow>
     res_status r \<in> {200, 201, 400, 401, 403, 404, 500} \<and>
     (res_success r \<longleftrightarrow> res_status r < 300) \<and>
     (\<not> res_success r \<longrightarrow> res_message r \<notin> {None, Some []} \<and> res_data r = None)"

subsection \<open>Lemmas\<close>

lemma getProjectById_found:
  "cast_oid pid = Some i \<Longrightarrow> proj_map s i = Some p \<Longrightarrow> getProjectById s pid = Inr (populate s p)"
  unfolding getProjectById_def project_find_by_id_def find_project_proj_map by simp

lemma getProjectById_missing:
  "cast_oid pid = Some i \<Longrightarrow> proj_map s i = None \<Longrightarrow>
   getProjectById s pid = Inl ''Project not found''"
  unfolding getProjectById_def project_find_by_id_def find_project_proj_map by simp

lemma find_user_Some: "find_user s i = Some w \<Longrightarrow> user_id w = i \<and> w \<in> set (users s)"
  by (auto simp: find_user_def find_Some_iff)

lemma status_message_not_found [simp]:
  "cast_message ''Project'' pid \<noteq> ''Project not found''"
  by (simp add: cast_message_def)

lemma auth_Halt_401: "auth cfg now s req = Halt n m \<Longrightarrow> n = 401"
  by (auto simp: auth_def Let_def split: option.splits if_splits sum.splits)

text \<open>Every message the services throw is non-empty: the literal ones, Mongoose's
  cast, validation and duplicate-key messages, and the middleware's
  \<open>auth_message\<close>.\<close>

lemma message_nonempty [simp]:
  "validation_message m errs \<noteq> []" "cast_message m v \<noteq> []" "auth_message e \<noteq> []"
  "update_denied \<noteq> []" "delete_denied \<noteq> []" "dup_key_message i \<noteq> []"
  by (simp_all add: validation_message_def cast_message_def auth_message_def
      update_denied_def delete_denied_def dup_key_message_def)

lemma save_new_user_error [error_messages]: "save_new_user cfg now e pw r s = Inl m \<Longrightarrow> m \<noteq> []"
  by (auto simp: save_new_user_def Let_def message_nonempty split: option.splits if_splits)

lemma save_pdoc_error [error_messages]:
  "save_new_project now d s = Inl m \<Longrightarrow> m \<noteq> []" "save_project now p d s = Inl m \<Longrightarrow> m \<noteq> []"
  by (auto simp: save_new_project_Inl save_project_Inl validate_pdoc_ok dest: sym)

lemma find_by_id_error [error_messages]:
  "project_find_by_id s v = Inl m \<Longrightarrow> m \<noteq> []" "user_find_by_id s v = Inl m \<Longrightarrow> m \<noteq> []"
  by (auto simp: project_find_by_id_def user_find_by_id_def message_nonempty split: option.splits)

lemma registerUser_error [error_messages]: "registerUser cfg now d s = (Inl m, s') \<Longrightarrow> m \<noteq> []"
  by (auto simp: registerUser_def Let_def dest: save_new_user_error split: option.splits sum.splits)

lemma loginUser_error [error_messages]: "loginUser cfg now em pw s = Inl m \<Longrightarrow> m \<noteq> []"
  by (auto simp: loginUser_def split: option.splits if_splits)

lemma createProject_error [error_messages]: "createProject now d s = (Inl m, s') \<Longrightarrow> m \<noteq> []"
  by (auto simp: createProject_def dest: save_pdoc_error split: sum.splits)

lemma getProjectById_error [error_messages]: "getProjectById s pid = Inl m \<Longrightarrow> m \<noteq> []"
  by (auto simp: getProjectById_def dest: find_by_id_error split: sum.splits option.splits)

lemma updateProject_error [error_messages]:
  "updateProject now pid d userId adm s = (Inl m, s') \<Longrightarrow> m \<noteq> []"
  by (auto simp: updateProject_def message_nonempty dest: find_by_id_error save_pdoc_error
      split: sum.splits option.splits if_splits)

lemma deleteProject_error [error_messages]:
  "deleteProject pid userId adm s = (Inl m, s') \<Longrightarrow> m \<noteq> []"
  by (auto simp: deleteProject_def message_nonempty dest: find_by_id_error
      split: sum.splits option.splits if_splits)

lemma auth_Halt_message [error_messages]: "auth cfg now s req = Halt n m \<Longrightarrow> m \<noteq> []"
  by (auto simp: auth_def Let_def message_nonempty split: option.splits if_splits sum.splits)

lemma response_wf_error [simp]:
  "n \<in> {400, 401, 403, 404, 500} \<Longrightarrow> m \<noteq> [] \<Longrightarrow> response_wf (error_response n m)"
  by (auto simp: response_wf_def error_response_def)

lemma auth_Halt_response_wf: "auth cfg now s req = Halt n m \<Longrightarrow> response_wf (error_response n m)"
  using auth_Halt_401 [of cfg now s req n m] auth_Halt_message [of cfg now s req n m] by simp

lemma response_wf_ok [simp]: "n \<in> {200, 201} \<Longrightarrow> response_wf (ok_response n m d)"
  by (auto simp: response_wf_def ok_response_def)

lemma update_status_codes [simp]: "update_status e \<in> {400, 403, 404}"
  by (simp add: update_status_def)

lemma delete_status_codes [simp]: "delete_status e \<in> {403, 404, 500}"
  by (simp add: delete_status_def)

lemma project_route_response_wf: "response_wf (fst (project_route now u ep s))"
proof (cases "(now, u, ep, s)" rule: project_route.cases)
  case (1 now u b s)
  then show ?thesis
    by (auto simp: post_projects_def Let_def dest: error_messages split: prod.splits sum.splits)
next
  case (3 now u pid s)
  then show ?thesis
    by (auto simp: get_project_def Let_def null_owner_message_def dest: error_messages
        split: sum.splits option.splits)
next
  case (4 now u pid b s)
  have "update_status e \<in> {400, 401, 403, 404, 500}" for e
    using update_status_codes [of e] by blast
  with 4 show ?thesis by (auto simp: put_project_def dest: error_messages split: prod.splits sum.splits)
next
  case (5 now u pid s)
  have "delete_status e \<in> {400, 401, 403, 404, 500}" for e
    using delete_status_codes [of e] by blast
  with 5 show ?thesis by (auto simp: delete_project_def dest: error_messages split: prod.splits sum.splits)
qed (simp_all add: get_projects_def)

subsection \<open>Properties\<close>

text \<open>
  \<open>GET /projects/:id\<close> for a well-formed id that names no project answers 404
  with \<open>Project not found\<close>.
\<close>

theorem get_project_not_found:
  assumes "cast_oid pid = Some i" and "proj_map s i = None"
  shows "get_project u pid s = error_response 404 ''Project not found''"
  using getProjectById_missing [OF assms] by (simp add: get_project_def)

theorem get_project_not_found_witness:
  "get_project (example_view 1 Member) (oid_string 9) example_db = error_response 404 ''Project not found''"
proof -
  have "proj_map example_db 9 = None"
    by (simp add: proj_map_def example_db_def key_map_Cons key_map_Nil example_project_def
        bob_project_def)
  from get_project_not_found [OF _ this] show ?thesis by simp
qed

text \<open>
  Claim C21 (safety, \<open>get_project\<close>). For a project whose owner is a stored user,
  \<open>GET /projects/:id\<close> answers 200 with the project to an admin or the owner and
  403 to anyone else.
\<close>

theorem get_project_access:
  assumes "cast_oid pid = Some i" and "proj_map s i = Some p" and "find_user s (owner p) = Some w"
  shows "get_project u pid s =
    (if uv_role u = Admin \<or> owner p = uv_id u
     then ok_response 200 None (Some (PProject (populate s p)))
     else error_response 403 ''You do not have permission to access this project'')"
proof -
  have "user_id w = owner p" using find_user_Some [OF assms(3)] by simp
  then show ?thesis using getProjectById_found [OF assms(1,2)] assms(3)
    by (simp add: get_project_def populate_def owner_ref_of_def)
qed

theorem get_project_access_witness:
  "get_project (example_view 2 Member) (oid_string 3) example_db =
     error_response 403 ''You do not have permission to access this project''"
proof -
  have "find_user example_db (owner example_project) = Some (example_user 1 ''alice@example.com'')"
    by (simp add: find_user_def example_db_def example_user_def example_project_def)
  from get_project_access [OF example_cast example_proj_map this, of "example_view 2 Member"]
  show ?thesis by (simp add: example_view_def example_project_def)
qed

text \<open>
  Claim C22 (error, \<open>get_project\<close>). When a project's owner is not a stored user
  (the owner field can be set to any id by an update), \<open>GET /projects/:id\<close> by
  any non-admin, its former owner included, fails with status 500: populating the
  owner gives \<open>null\<close> and the handler dereferences it.
\<close>

theorem get_project_dangling_owner:
  assumes "cast_oid pid = Some i" and "proj_map s i = Some p" and "find_user s (owner p) = None"
    and "uv_role u \<noteq> Admin"
  shows "get_project u pid s = error_response 500 ''Cannot read properties of null (reading '_id')''"
  using getProjectById_found [OF assms(1,2)] assms(3,4)
  by (simp add: get_project_def populate_def null_owner_message_def)

theorem get_project_dangling_owner_witness:
  "get_project (example_view 1 Member) (oid_string 3)
     (example_db\<lparr>projects := [example_project\<lparr>owner := 7\<rparr>]\<rparr>) =
   error_response 500 ''Cannot read properties of null (reading '_id')''"
proof -
  let ?s = "example_db\<lparr>projects := [example_project\<lparr>owner := 7\<rparr>]\<rparr>"
  have "proj_map ?s 3 = Some (example_project\<lparr>owner := 7\<rparr>)"
    by (simp add: proj_map_def key_map_Cons example_project_def)
  moreover have "find_user ?s (owner (example_project\<lparr>owner := 7\<rparr>)) = None"
    by (simp add: find_user_def example_db_def example_user_def)
  ultimately show ?thesis
    using get_project_dangling_owner [OF example_cast] by (simp add: example_view_def)
qed

text \<open>
  Claim C23 (error, \<open>put_project\<close>). \<open>PUT /projects/:id\<close> on an existing
  project by a non-admin who does not own it answers 403 with the service's
  permission message and writes nothing.
\<close>

theorem put_project_forbidden:
  assumes "cast_oid pid = Some i" and "proj_map s i = Some p"
    and "uv_role u \<noteq> Admin" and "owner p \<noteq> uv_id u"
  shows "put_project now u pid b s =
    (error_response 403 ''You do not have permission to update this project'', s)"
proof -
  have "update_status update_denied = 403"
    by (simp add: update_status_def update_denied_def js_starts_with_def)
  then show ?thesis using updateProject_found [OF assms(1,2)] assms(3,4)
    by (simp add: put_project_def may_modify_def update_denied_def)
qed

theorem put_project_forbidden_witness:
  "put_project 30 (example_view 2 Member) (oid_string 3) no_input example_db =
    (error_response 403 ''You do not have permission to update this project'', example_db)"
  using put_project_forbidden [OF example_cast example_proj_map, of "example_view 2 Member"]
  by (simp add: example_view_def example_project_def)

text \<open>
  Claim C24 (error, \<open>put_project\<close>). The owner of a project who sends the
  invalid status \<open>permission\<close> gets 403, not the 400 of a validation error: the
  enum error message echoes the value, and the route maps any message containing
  \<open>permission\<close> to 403.
\<close>

theorem put_project_enum_permission:
  assumes "cast_oid pid = Some i" and "proj_map s i = Some p" and "project_ok p"
    and "owner p = uv_id u"
  shows "fst (put_project now u pid (no_input\<lparr>in_status := Some ''permission''\<rparr>) s) =
    error_response 403
      ''Project validation failed: status: `permission` is not a valid enum value for path `status`.''"
proof -
  let ?d = "assign_pdoc (pdoc_of_project p) (no_input\<lparr>in_status := Some ''permission''\<rparr>)"
  have "name p \<noteq> []" using assms(3) by (simp add: project_ok_def)
  then have "project_errors ?d = [(''status'', enum_message ''permission'' ''status'')]"
    by (simp add: project_errors_def assign_pdoc_def pdoc_of_project_def no_input_def
        assign_opt_def parse_status_def)
  then have "save_project now p ?d s =
      Inl ''Project validation failed: status: `permission` is not a valid enum value for path `status`.''"
    by (simp add: save_project_def validate_pdoc_def Let_def validation_message_def
        enum_message_def split: option.splits)
  moreover have "update_status
      ''Project validation failed: status: `permission` is not a valid enum value for path `status`.''
      = 403"
    by (simp add: update_status_def js_starts_with_def)
  ultimately show ?thesis using updateProject_found [OF assms(1,2)] assms(4)
    by (simp add: put_project_def may_modify_def)
qed

theorem put_project_enum_permission_witness:
  "fst (put_project 30 (example_view 1 Member) (oid_string 3)
     (no_input\<lparr>in_status := Some ''permission''\<rparr>) example_db) =
   error_response 403
     ''Project validation failed: status: `permission` is not a valid enum value for path `status`.''"
proof -
  have "project_ok example_project"
    by (simp add: project_ok_def example_project_def trimmed_opt_def js_trim_def js_space_def)
  from put_project_enum_permission [OF example_cast example_proj_map this]
  show ?thesis by (simp add: example_view_def example_project_def)
qed

text \<open>
  Claim C25 (error, routes). A path id that is not an ObjectId (and does not itself
  contain \<open>permission\<close>) is answered differently by the three routes that take
  one: 500 for \<open>GET\<close> and \<open>DELETE\<close>, 400 for \<open>PUT\<close>, each with Mongoose's
  cast error; the database is unchanged.
\<close>

theorem malformed_id_statuses:
  assumes "cast_oid pid = None" and "\<not> js_includes (cast_message ''Project'' pid) ''permission''"
  shows "get_project u pid s = error_response 500 (cast_message ''Project'' pid) \<and>
    put_project now u pid b s = (error_response 400 (cast_message ''Project'' pid), s) \<and>
    delete_project u pid s = (error_response 500 (cast_message ''Project'' pid), s)"
  using assms
  by (simp add: get_project_def put_project_def delete_project_def getProjectById_def
      updateProject_def deleteProject_def project_find_by_id_def update_status_def
      delete_status_def)

theorem malformed_id_statuses_witness:
  "get_project (example_view 1 Member) ''abc'' example_db =
     error_response 500 ''Cast to ObjectId failed for value \"abc\" (type string) at path \"_id\" for model \"Project\"''"
proof -
  have c: "cast_oid ''abc'' = None" by (simp add: cast_oid_def)
  have "\<not> js_includes (cast_message ''Project'' ''abc'') ''permission''"
    by (simp add: cast_message_def js_starts_with_def)
  from malformed_id_statuses [OF c this] show ?thesis by (simp add: cast_message_def)
qed


text \<open>
  Claim C26 (safety, \<open>post_projects\<close>). \<open>POST /projects\<close> stores the requester
  as the owner of the new project, whatever \<open>owner\<close> the body carries, and
  answers 201 with that project.
\<close>

theorem post_projects_owner:
  assumes wf: "db_wf s" and post: "post_projects now u b s = (r, s')" and ok: "res_success r"
  shows "\<exists>p. r = ok_response 201 (Some ''Project created successfully'') (Some (PProject (populate s' p))) \<and>
    owner p = uv_id u \<and> proj_map s (proj_id p) = None \<and>
    proj_map s' = (proj_map s)(proj_id p \<mapsto> p)"
proof -
  let ?data = "b\<lparr>in_owner := Some (uv_id u)\<rparr>"
  obtain p where sv: "save_new_project now (new_pdoc ?data) s = Inr (p, s')"
    and r: "r = ok_response 201 (Some ''Project created successfully'') (Some (PProject (populate s' p)))"
    using post ok
    by (auto simp: post_projects_def createProject_def error_response_def
        split: sum.splits prod.splits)
  obtain n st ow where v: "validate_pdoc (new_pdoc ?data) = Inr (n, st, ow)"
    and p: "owner p = ow"
    using save_new_project_Inr [OF sv] by auto
  have "ow = uv_id u" using validate_pdoc_Inr [OF v] by (simp add: new_pdoc_def)
  moreover have "proj_map s' = (proj_map s)(proj_id p \<mapsto> p) \<and> proj_map s (proj_id p) = None"
    by (rule proj_map_save_new [OF wf sv])
  ultimately show ?thesis using r p by blast
qed

theorem post_projects_owner_witness:
  "\<exists>p. owner p = 2 \<and> proj_map (snd (post_projects 30 (example_view 2 Member)
      (no_input\<lparr>in_name := Some ''Z'', in_owner := Some 1\<rparr>) example_db)) =
      (proj_map example_db)(proj_id p \<mapsto> p)"
proof -
  let ?b = "no_input\<lparr>in_name := Some ''Z'', in_owner := Some 1\<rparr>"
  have "res_success (fst (post_projects 30 (example_view 2 Member) ?b example_db))"
    by (simp add: post_projects_def createProject_def save_new_project_def validate_pdoc_def
        project_errors_def new_pdoc_def no_input_def js_trim_def js_space_def parse_status_def
        example_view_def ok_response_def Let_def find_project_def example_db_def
        example_project_def bob_project_def)
  from post_projects_owner [OF example_db_wf prod.collapse [symmetric] this]
  show ?thesis by (auto simp: example_view_def)
qed

text \<open>
  Claim C27 (functional, \<open>put_project\<close>). The owner of a project can hand it to
  any id, stored user or not, with \<open>PUT /projects/:id\<close> and body
  \<open>{owner}\<close>: the update overwrites the owner field (the unrestricted merge of the
  spec's design notes).
\<close>

theorem put_project_owner_transfer:
  assumes wf: "db_wf s" and "cast_oid pid = Some i" and pm: "proj_map s i = Some p"
    and own: "owner p = uv_id u"
  shows "\<exists>p' s'. put_project now u pid (no_input\<lparr>in_owner := Some o'\<rparr>) s =
      (ok_response 200 (Some ''Project updated successfully'') (Some (PProject (populate s' p'))), s') \<and>
    proj_map s' i = Some p' \<and> owner p' = o' \<and> name p' = name p"
proof -
  let ?d = "assign_pdoc (pdoc_of_project p) (no_input\<lparr>in_owner := Some o'\<rparr>)"
  have pin: "p \<in> set (projects s)" and pid: "proj_id p = i" using pm by (simp_all add: proj_map_in)
  then have "project_ok p" using wf by (simp add: project_wf_in)
  then have "validate_pdoc ?d = Inr (name p, status p, o')"
    by (simp add: validate_pdoc_def project_errors_def assign_pdoc_def pdoc_of_project_def
        no_input_def assign_opt_def project_ok_def)
  then obtain p' s' where sv: "save_project now p ?d s = Inr (p', s')"
    by (auto simp: save_project_def Let_def)
  have fields: "proj_id p' = proj_id p" "owner p' = o'" "name p' = name p"
    using save_project_Inr [OF sv] \<open>validate_pdoc ?d = _\<close> by auto
  have "proj_map s' = (proj_map s)(proj_id p \<mapsto> p')" by (rule proj_map_save [OF wf pin sv])
  then have "proj_map s' i = Some p'" using pid by simp
  moreover have "put_project now u pid (no_input\<lparr>in_owner := Some o'\<rparr>) s =
      (ok_response 200 (Some ''Project updated successfully'') (Some (PProject (populate s' p'))), s')"
    using updateProject_found [OF assms(2) pm] own sv by (simp add: put_project_def may_modify_def)
  ultimately show ?thesis using fields by blast
qed

theorem put_project_owner_transfer_witness:
  "\<exists>p' s'. put_project 30 (example_view 1 Member) (oid_string 3) (no_input\<lparr>in_owner := Some 99\<rparr>)
      example_db =
      (ok_response 200 (Some ''Project updated successfully'') (Some (PProject (populate s' p'))), s') \<and>
    proj_map s' 3 = Some p' \<and> owner p' = 99"
  using put_project_owner_transfer [OF example_db_wf example_cast example_proj_map,
      of "example_view 1 Member" 30 99]
  by (auto simp: example_view_def example_project_def)

text \<open>
  Claim C28 (error, \<open>post_login\<close>). \<open>POST /auth/login\<close> without an email or a
  password, or with an empty one, answers 400 with \<open>Email and password are
  required\<close> before any lookup.
\<close>

theorem post_login_missing_fields:
  assumes "l_email b \<in> {None, Some []} \<or> l_password b \<in> {None, Some []}"
  shows "post_login cfg now b s = error_response 400 ''Email and password are required''"
  using assms by (auto simp: post_login_def split: option.splits)

theorem post_login_missing_fields_witness:
  "post_login example_cfg 0 \<lparr>l_email = Some ''alice@example.com'', l_password = None\<rparr> example_db =
     error_response 400 ''Email and password are required''"
  using post_login_missing_fields [of "\<lparr>l_email = Some ''alice@example.com'', l_password = None\<rparr>"]
  by simp

text \<open>
  Claim C38 (error, \<open>put_project\<close>). An authorised \<open>PUT /projects/:id\<close>
  whose name trims to the empty string is refused: the \<open>trim\<close> setter runs on
  the assigned name, the required validator fails, and the handler answers 400
  with Mongoose's validation message and writes nothing.
\<close>

theorem put_project_blank_name:
  assumes c: "cast_oid pid = Some i" and q: "proj_map s i = Some p"
    and m: "may_modify (uv_id u) (uv_role u = Admin) p"
    and nm: "in_name data = Some nm" and blank: "js_trim nm = []" and st: "in_status data = None"
  shows "put_project now u pid data s =
    (error_response 400 (validation_message ''Project'' [(''name'', ''Project name is required'')]), s)"
proof -
  let ?d = "assign_pdoc (pdoc_of_project p) data"
  have "project_errors ?d = [(''name'', ''Project name is required'')]"
    using nm blank st by (auto simp: project_errors_def assign_pdoc_def pdoc_of_project_def assign_opt_def
        split: option.splits)
  then have "save_project now p ?d s = Inl (validation_message ''Project'' [(''name'', ''Project name is required'')])"
    by (simp add: save_project_Inl validate_pdoc_ok)
  moreover have "update_status (validation_message ''Project'' [(''name'', ''Project name is required'')]) = 400"
    by (simp add: update_status_def validation_message_def js_starts_with_def)
  ultimately show ?thesis using m
    by (simp add: put_project_def updateProject_found [OF c q])
qed

theorem put_project_blank_name_witness:
  "put_project 40 (example_view 1 Member) (oid_string 3) (no_input\<lparr>in_name := Some ''  ''\<rparr>) example_db =
    (error_response 400 ''Project validation failed: name: Project name is required'', example_db)"
proof -
  have "js_trim ''  '' = []" by (simp add: js_trim_def js_space_def)
  from put_project_blank_name [OF example_cast example_proj_map _ _ this, of "example_view 1 Member"]
  show ?thesis by (simp add: may_modify_def example_view_def example_project_def no_input_def
      validation_message_def)
qed

text \<open>
  Claim C39 (type, \<open>handle\<close>). Whatever the request, the response is well formed:
  its status is one of the spec's table (200, 201, 400, 401, 403, 404, 500),
  \<open>success\<close> is true exactly for 200 and 201, and every error carries a
  non-empty message and no data.
\<close>

theorem handle_response_wf: "response_wf (fst (handle cfg now hdr ep s))"
proof (cases ep)
  case (Register b)
  then show ?thesis
    by (auto simp: handle_def post_register_def dest: registerUser_error split: prod.splits sum.splits)
next
  case (Login b)
  then show ?thesis
    by (auto simp: handle_def post_login_def dest: loginUser_error
        split: prod.splits option.splits sum.splits)
next
  case Health
  then show ?thesis by (simp add: handle_def)
qed (auto simp: handle_def project_route_response_wf auth_Halt_response_wf
    simp del: project_route.simps split: mw.splits option.splits)

end
