(* ===== verification/Concurrency.thy ===== *)
theory Concurrency
  imports AuthService
begin

text \<open>
  \<open>registerUser\<close> in \<open>src/modules/auth/services/index.js\<close> awaits twice on the
  database: \<open>User.findOne({ email })\<close> (line 12) and \<open>user.save()\<close> (line 24).
  Node.js runs other requests while a request waits, so two registrations can
  interleave between the check and the write. Each database call is atomic; a
  registration is two steps, \<open>register_check\<close> and \<open>register_save\<close>, and a
  schedule says which pending registration takes its next step. Run without
  interleaving, the two steps are \<open>registerUser\<close>; interleaved, two
  registrations of one fresh email both succeed.
\<close>

definition register_check :: "db \<Rightarrow> register_input \<Rightarrow> string option" where
  "register_check s userData =
     (case find_user_by_email s (r_email userData) of
        Some _ \<Rightarrow> Some ''User with this email already exists''
      | None \<Rightarrow> None)"

definition register_save :: "config \<Rightarrow> time \<Rightarrow> register_input \<Rightarrow> db \<Rightarrow> user_view result \<times> db" where
  "register_save cfg now userData s =
     (let rl = (case r_role userData of None \<Rightarrow> ''member''
               | Some r \<Rightarrow> if r = [] then ''member'' else r)
      in case save_new_user cfg now (r_email userData) (r_password userData) rl s of
           Inl e \<Rightarrow> (Inl e, s)
         | Inr (u, s') \<Rightarrow> (Inr (user_view_of u), s'))"

text \<open>A pending registration: its body, its clock value, and where it stands.\<close>

datatype reg_pc = AtCheck | AtSave | Finished "user_view result"

record reg_thread =
  th_input :: register_input
  th_time :: time
  th_pc :: reg_pc

definition reg_step :: "config \<Rightarrow> db \<times> reg_thread list \<Rightarrow> nat \<Rightarrow> db \<times> reg_thread list" where
  "reg_step cfg st i =
     (let (s, ts) = st in
      if length ts \<le> i then (s, ts)
      else let t = ts ! i in
        case th_pc t of
          AtCheck \<Rightarrow>
            (case register_check s (th_input t) of
               Some e \<Rightarrow> (s, ts[i := t\<lparr>th_pc := Finished (Inl e)\<rparr>])
             | None \<Rightarrow> (s, ts[i := t\<lparr>th_pc := AtSave\<rparr>]))
        | AtSave \<Rightarrow>
            (case register_save cfg (th_time t) (th_input t) s of
               (r, s') \<Rightarrow> (s', ts[i := t\<lparr>th_pc := Finished r\<rparr>]))
        | Finished _ \<Rightarrow> (s, ts))"

definition run_schedule :: "config \<Rightarrow> nat list \<Rightarrow> db \<times> reg_thread list \<Rightarrow> db \<times> reg_thread list" where
  "run_schedule cfg sched st = fold (\<lambda>i st. reg_step cfg st i) sched st"

definition emails_unique :: "db \<Rightarrow> bool" where
  "emails_unique s \<longleftrightarrow> distinct (map email (users s))"

subsection \<open>Lemmas\<close>

lemma registerUser_split:
  "registerUser cfg now d s =
     (case register_check s d of Some e \<Rightarrow> (Inl e, s) | None \<Rightarrow> register_save cfg now d s)"
  by (simp add: registerUser_def register_check_def register_save_def split: option.splits)

lemma register_save_email:
  assumes "register_save cfg now d s = (Inr v, s')"
  shows "\<exists>u. r_email d = Some (email u) \<and> v = user_view_of u \<and>
    s' = s\<lparr>users := users s @ [u], next_oid := Suc (next_oid s)\<rparr>"
proof -
  obtain rl u where sv: "save_new_user cfg now (r_email d) (r_password d) rl s = Inr (u, s')"
    and v: "v = user_view_of u"
    using assms by (auto simp: register_save_def Let_def split: sum.splits)
  have "r_email d = Some (email u)" and "s' = s\<lparr>users := users s @ [u], next_oid := Suc (next_oid s)\<rparr>"
    using save_new_user_Inr [OF sv] by auto
  with v show ?thesis by blast
qed

lemma register_save_Inl: "register_save cfg now d s = (Inl e, s') \<Longrightarrow> s' = s"
  by (auto simp: register_save_def Let_def split: sum.splits)

lemma registerUser_emails_unique:
  assumes u: "emails_unique s" and r: "registerUser cfg now d s = (x, s')"
  shows "emails_unique s'"
proof (cases "register_check s d")
  case (Some e)
  then show ?thesis using u r by (simp add: registerUser_split)
next
  case None
  then have sv: "register_save cfg now d s = (x, s')" using r by (simp add: registerUser_split)
  show ?thesis
  proof (cases x)
    case (Inl e)
    then show ?thesis using register_save_Inl sv u by blast
  next
    case (Inr v)
    then obtain w where e: "r_email d = Some (email w)"
      and s': "s' = s\<lparr>users := users s @ [w], next_oid := Suc (next_oid s)\<rparr>"
      using register_save_email sv by blast
    have "email w \<notin> email ` set (users s)"
      using None e by (auto simp: register_check_def find_user_by_email_def find_None_iff
          split: option.splits)
    then show ?thesis using u s' by (simp add: emails_unique_def)
  qed
qed

lemma reg_step_check:
  assumes "i < length ts" and "th_pc (ts ! i) = AtCheck"
  shows "reg_step cfg (s, ts) i =
    (case register_check s (th_input (ts ! i)) of
       Some e \<Rightarrow> (s, ts[i := (ts ! i)\<lparr>th_pc := Finished (Inl e)\<rparr>])
     | None \<Rightarrow> (s, ts[i := (ts ! i)\<lparr>th_pc := AtSave\<rparr>]))"
  using assms by (simp add: reg_step_def Let_def)

lemma reg_step_save:
  assumes "i < length ts" and "th_pc (ts ! i) = AtSave"
  shows "reg_step cfg (s, ts) i =
    (snd (register_save cfg (th_time (ts ! i)) (th_input (ts ! i)) s),
     ts[i := (ts ! i)\<lparr>th_pc := Finished (fst (register_save cfg (th_time (ts ! i)) (th_input (ts ! i)) s))\<rparr>])"
  using assms by (simp add: reg_step_def Let_def split: prod.splits)

lemma register_check_fresh:
  "register_check s \<lparr>r_email = Some e, r_password = pw, r_role = rl\<rparr> = None \<longleftrightarrow>
   (\<forall>u \<in> set (users s). email u \<noteq> e)"
proof -
  have "register_check s d = None \<longleftrightarrow> find_user_by_email s (r_email d) = None" for d
    by (simp add: register_check_def split: option.splits)
  then show ?thesis by (simp add: find_user_by_email_def find_None_iff Ball_def)
qed

lemma register_save_member:
  assumes "e \<noteq> []" and "p \<noteq> []"
  shows "register_save cfg now \<lparr>r_email = Some e, r_password = Some p, r_role = None\<rparr> s =
    (Inr (user_view_of \<lparr>user_id = next_oid s, email = e, password = bcrypt_hash cfg (next_oid s) p,
        role = Member, u_created = now, u_updated = now\<rparr>),
     s\<lparr>users := users s @ [\<lparr>user_id = next_oid s, email = e,
        password = bcrypt_hash cfg (next_oid s) p, role = Member, u_created = now,
        u_updated = now\<rparr>], next_oid := Suc (next_oid s)\<rparr>)"
  using assms
  by (simp add: register_save_def save_new_user_def user_errors_def parse_role_def Let_def)

subsection \<open>Properties\<close>

text \<open>
  Claim C35 (safety, \<open>registerUser\<close>). Email uniqueness is not enforced under
  concurrency: two registrations of one fresh email whose checks both run before
  either save both succeed, and the users collection then holds the email twice;
  run one after the other, the second is refused as a duplicate.
\<close>

theorem register_race:
  assumes fresh: "\<forall>u \<in> set (users s). email u \<noteq> e" and ne: "e \<noteq> []" "p0 \<noteq> []" "p1 \<noteq> []"
    and t0: "t0 = \<lparr>th_input = \<lparr>r_email = Some e, r_password = Some p0, r_role = None\<rparr>,
      th_time = n0, th_pc = AtCheck\<rparr>"
    and t1: "t1 = \<lparr>th_input = \<lparr>r_email = Some e, r_password = Some p1, r_role = None\<rparr>,
      th_time = n1, th_pc = AtCheck\<rparr>"
  shows "(\<exists>v0 v1. map th_pc (snd (run_schedule cfg [0, 1, 0, 1] (s, [t0, t1]))) =
       [Finished (Inr v0), Finished (Inr v1)]) \<and>
    \<not> emails_unique (fst (run_schedule cfg [0, 1, 0, 1] (s, [t0, t1]))) \<and>
    th_pc (snd (run_schedule cfg [0, 0, 1, 1] (s, [t0, t1])) ! 1) =
      Finished (Inl ''User with this email already exists'')"
proof -
  have c: "register_check s \<lparr>r_email = Some e, r_password = Some p, r_role = None\<rparr> = None" for p
    using fresh register_check_fresh by blast
  let ?u0 = "\<lparr>user_id = next_oid s, email = e, password = bcrypt_hash cfg (next_oid s) p0,
        role = Member, u_created = n0, u_updated = n0\<rparr>"
  let ?s1 = "s\<lparr>users := users s @ [?u0], next_oid := Suc (next_oid s)\<rparr>"
  have dup: "register_check ?s1 \<lparr>r_email = Some e, r_password = Some p1, r_role = None\<rparr> =
      Some ''User with this email already exists''"
    using register_check_fresh [of ?s1 e "Some p1" None]
    by (auto simp: register_check_def split: option.splits)
  have race: "map th_pc (snd (run_schedule cfg [0, 1, 0, 1] (s, [t0, t1]))) =
      [Finished (Inr (user_view_of ?u0)), Finished (Inr (user_view_of
        \<lparr>user_id = Suc (next_oid s), email = e, password = bcrypt_hash cfg (Suc (next_oid s)) p1,
         role = Member, u_created = n1, u_updated = n1\<rparr>))] \<and>
    map email (users (fst (run_schedule cfg [0, 1, 0, 1] (s, [t0, t1])))) =
      map email (users s) @ [e, e]"
    using c ne by (simp add: run_schedule_def t0 t1 reg_step_check reg_step_save register_save_member)
  have serial: "th_pc (snd (run_schedule cfg [0, 0, 1, 1] (s, [t0, t1])) ! 1) =
      Finished (Inl ''User with this email already exists'')"
    using c ne dup
    by (simp add: run_schedule_def t0 t1 reg_step_check reg_step_save register_save_member reg_step_def)
  from race serial show ?thesis by (auto simp: emails_unique_def)
qed

theorem register_race_witness:
  "\<not> emails_unique (fst (run_schedule example_cfg [0, 1, 0, 1] (example_db,
     [\<lparr>th_input = \<lparr>r_email = Some ''carol@example.com'', r_password = Some ''a'', r_role = None\<rparr>,
       th_time = 30, th_pc = AtCheck\<rparr>,
      \<lparr>th_input = \<lparr>r_email = Some ''carol@example.com'', r_password = Some ''b'', r_role = None\<rparr>,
       th_time = 31, th_pc = AtCheck\<rparr>])))"
proof -
  have "\<forall>u \<in> set (users example_db). email u \<noteq> ''carol@example.com''"
    by (simp add: example_db_def example_user_def)
  from register_race [OF this, of "''a''" "''b''", OF _ _ _ refl refl] show ?thesis by simp
qed

end
