(* ===== verification/Connection.thy ===== *)
theory Connection
  imports Prelude
begin

text \<open>
  \<open>src/databases/connect-mongo.js\<close>: the process's database connection. The URL
  is read once, after \<open>dotenv.config()\<close>, from \<open>MONGO_URL\<close> with a local default
  (JavaScript's \<open>||\<close>: an unset or empty variable gives the default).
  \<open>connectMongo\<close> connects or, on a driver error, logs it and ends the process
  with status 1; \<open>disconnectMongo\<close> disconnects and only logs a failure. The
  driver's answer is a parameter (\<open>Inl\<close> the error's message); \<open>console.log\<close>
  and \<open>console.error\<close> join their arguments with a space.
\<close>

definition mongo_url :: "string option \<Rightarrow> string" where
  "mongo_url env =
     (case env of None \<Rightarrow> ''mongodb://localhost:27017/client-tracker''
      | Some u \<Rightarrow> if u = [] then ''mongodb://localhost:27017/client-tracker'' else u)"

record process =
  p_conn :: "string option"
  p_exit :: "nat option"
  p_stdout :: "string list"
  p_stderr :: "string list"

definition connectMongo :: "(string \<Rightarrow> unit result) \<Rightarrow> string option \<Rightarrow> process \<Rightarrow> process" where
  "connectMongo connect env st =
     (let url = mongo_url env in
      case connect url of
        Inr _ \<Rightarrow> st\<lparr>p_conn := Some url,
                   p_stdout := p_stdout st @ [''Connected to MongoDB: '' @ url]\<rparr>
      | Inl msg \<Rightarrow> st\<lparr>p_stderr := p_stderr st @ [''MongoDB connection error: '' @ msg],
                     p_exit := Some 1\<rparr>)"

definition disconnectMongo :: "unit result \<Rightarrow> process \<Rightarrow> process" where
  "disconnectMongo res st =
     (case res of
        Inr _ \<Rightarrow> st\<lparr>p_conn := None, p_stdout := p_stdout st @ [''Disconnected from MongoDB'']\<rparr>
      | Inl msg \<Rightarrow> st\<lparr>p_stderr := p_stderr st @ [''MongoDB disconnection error: '' @ msg]\<rparr>)"

end
