(* ===== verification/UpdateRace.thy ===== *)
theory UpdateRace
  imports ProjectService
begin

text \<open>
  Concurrent updates of one project. \<open>updateProject\<close> in
  \<open>src/modules/project/services/index.js\<close> awaits \<open>Project.findById(id)\<close>
  (line 28), checks ownership on the loaded document, merges the request body
  into it (line 40) and awaits \<open>project.save()\<close> (line 41). Other requests run
  in between. Mongoose's \<open>save()\<close> of a loaded document does not write the
  document back: it sends \<open>updateOne({ _id }, { $set: delta })\<close> with only the
  paths that differ from what was loaded (and \<open>updatedAt\<close> when there is a
  change), and throws a \<open>DocumentNotFoundError\<close> when no document has the id any
  more. An update is two atomic steps, load and save, and a schedule interleaves
  pending updates as in \<open>Concurrency\<close>.
\<close>

definition apply_delta :: "project \<Rightarrow> project \<Rightarrow> project \<Rightarrow> project" where
  "apply_delta p p'' q =
     q\<lparr>name := (if name p'' \<noteq> name p then name p'' else name q),
       description := (if description p'' \<noteq> description p then description p'' else description q),
       status := (if status p'' \<noteq> status p then status p'' else status q),
       owner := (if owner p'' \<noteq> owner p then owner p'' else owner q),
       start_date := (if start_date p'' \<noteq> start_date p then start_date p'' else start_date q),
       end_date := (if end_date p'' \<noteq> end_date p then end_date p'' else end_date q),
       p_updated := (if p'' \<noteq> p then p_updated p'' else p_updated q)\<rparr>"

definition doc_not_found :: "oid \<Rightarrow> string" where
  "doc_not_found i = ''No document found for query \"{ _id: new ObjectId('' @ oid_string i @
     '') }\" on model \"Project\"''"

text \<open>\<open>project.save()\<close> of the loaded document \<open>p\<close> against the database as it is
  now: validate the merged document, compute the changed paths, and set them on
  the stored document.\<close>

definition save_delta :: "time \<Rightarrow> project \<Rightarrow> pdoc \<Rightarrow> db \<Rightarrow> (project \<times> db) result" where
  "save_delta now p d s =
     (case validate_pdoc d of
        Inl e \<Rightarrow> Inl e
      | Inr (n, st, ow) \<Rightarrow>
          let p' = p\<lparr>name := n, description := d_description d, status := st, owner := ow,
                     start_date := d_start d, end_date := d_end d,
                     p_updated := (case d_updated d of None \<Rightarrow> p_updated p | Some t \<Rightarrow> t)\<rparr>;
              p'' = (if p' = p then p else p'\<lparr>p_updated := now\<rparr>)
          in case find_project s (proj_id p) of
               None \<Rightarrow> Inl (doc_not_found (proj_id p))
             | Some q \<Rightarrow>
                 if p'' = p then Inr (p'', s)
                 else Inr (p'', s\<lparr>projects := replace_key proj_id (apply_delta p p'' q) (projects s)\<rparr>))"

text \<open>A pending \<open>updateProject(id, data, userId, isAdmin)\<close> call.\<close>

datatype upd_pc = UAtLoad | UAtSave project | UFinished "project_view result"

record upd_thread =
  u_pid :: string
  u_data :: project_input
  u_user :: oid
  u_admin :: bool
  u_time :: time
  u_pc :: upd_pc

definition upd_step :: "db \<times> upd_thread list \<Rightarrow> nat \<Rightarrow> db \<times> upd_thread list" where
  "upd_step st i =
     (let (s, ts) = st in
      if length ts \<le> i then (s, ts)
      else let t = ts ! i; fin = (\<lambda>r. (s, ts[i := t\<lparr>u_pc := UFinished r\<rparr>])) in
        case u_pc t of
          UAtLoad \<Rightarrow>
            (case project_find_by_id s (u_pid t) of
               Inl e \<Rightarrow> fin (Inl e)
             | Inr None \<Rightarrow> fin (Inl ''Project not found'')
             | Inr (Some p) \<Rightarrow>
                 if \<not> u_admin t \<and> owner p \<noteq> u_user t then fin (Inl update_denied)
                 else (s, ts[i := t\<lparr>u_pc := UAtSave p\<rparr>]))
        | UAtSave p \<Rightarrow>
            (case save_delta (u_time t) p (assign_pdoc (pdoc_of_project p) (u_data t)) s of
               Inl e \<Rightarrow> fin (Inl e)
             | Inr (p', s') \<Rightarrow> (s', ts[i := t\<lparr>u_pc := UFinished (Inr (populate s' p'))\<rparr>]))
        | UFinished _ \<Rightarrow> (s, ts))"

definition run_updates :: "nat list \<Rightarrow> db \<times> upd_thread list \<Rightarrow> db \<times> upd_thread list" where
  "run_updates sched st = fold (\<lambda>i st. upd_step st i) sched st"

text \<open>
  \<open>deleteProject\<close> (lines 46 to 61) also awaits twice: \<open>findById\<close> with the
  ownership check on the loaded document, then \<open>findByIdAndDelete(id)\<close>, which
  deletes whatever document has the id at that moment (and resolves to \<open>null\<close>,
  which the code ignores, when there is none).
\<close>

definition delete_load :: "string \<Rightarrow> oid \<Rightarrow> bool \<Rightarrow> db \<Rightarrow> project result" where
  "delete_load pid userId isAdmin s =
     (case project_find_by_id s pid of
        Inl e \<Rightarrow> Inl e
      | Inr None \<Rightarrow> Inl ''Project not found''
      | Inr (Some p) \<Rightarrow> if \<not> isAdmin \<and> owner p \<noteq> userId then Inl delete_denied else Inr p)"

definition delete_commit :: "string \<Rightarrow> db \<Rightarrow> string result \<times> db" where
  "delete_commit pid s =
     (case cast_oid pid of
        None \<Rightarrow> (Inl (cast_message ''Project'' pid), s)
      | Some i \<Rightarrow> (Inr ''Project deleted successfully'', delete_project_doc i s))"

subsection \<open>Lemmas\<close>

lemma replace_key_stored:
  "distinct (map key xs) \<Longrightarrow> y \<in> set xs \<Longrightarrow> replace_key key y xs = xs"
  by (auto simp: replace_key_def distinct_map intro!: map_idI dest: inj_onD)

lemma apply_delta_loaded:
  "proj_id p'' = proj_id p \<Longrightarrow> p_created p'' = p_created p \<Longrightarrow> apply_delta p p'' p = p''"
  by (cases p, cases p'') (auto simp: apply_delta_def)

lemma find_project_stored:
  "db_wf s \<Longrightarrow> p \<in> set (projects s) \<Longrightarrow> find_project s (proj_id p) = Some p"
  by (simp add: find_project_def find_key_map key_map_distinct_in db_wf_def)

text \<open>Against the database it was loaded from, the delta write is the whole
  document written back: \<open>save_delta\<close> refines \<open>save_project\<close>.\<close>

lemma save_delta_stored:
  assumes wf: "db_wf s" and p: "p \<in> set (projects s)"
  shows "save_delta now p d s = save_project now p d s"
proof -
  have f: "find_project s (proj_id p) = Some p" using find_project_stored [OF wf p] .
  have r: "replace_key proj_id p (projects s) = projects s"
    using wf p by (simp add: replace_key_stored db_wf_def)
  show ?thesis
    using f r by (auto simp: save_delta_def save_project_def Let_def apply_delta_loaded
        split: sum.splits)
qed

lemma proj_map_write:
  assumes "distinct (map proj_id (projects s))" and "proj_map s (proj_id y) \<noteq> None"
  shows "proj_map (s\<lparr>projects := replace_key proj_id y (projects s)\<rparr>) = (proj_map s)(proj_id y \<mapsto> y)"
  using assms key_map_replace [of proj_id "projects s" y] by (simp add: proj_map_def key_map_None)

lemma save_delta_write:
  assumes v: "validate_pdoc d = Inr (n, st, ow)" and f: "find_project s (proj_id p) = Some q"
    and ch: "p\<lparr>name := n, description := d_description d, status := st, owner := ow,
      start_date := d_start d, end_date := d_end d\<rparr> \<noteq> p"
  shows "save_delta now p d s =
    Inr (p\<lparr>name := n, description := d_description d, status := st, owner := ow,
           start_date := d_start d, end_date := d_end d, p_updated := now\<rparr>,
         s\<lparr>projects := replace_key proj_id (apply_delta p
           (p\<lparr>name := n, description := d_description d, status := st, owner := ow,
              start_date := d_start d, end_date := d_end d, p_updated := now\<rparr>) q) (projects s)\<rparr>)"
proof -
  have "p\<lparr>name := n, description := d_description d, status := st, owner := ow,
      start_date := d_start d, end_date := d_end d, p_updated := now\<rparr> \<noteq> p"
    using ch by (cases p) auto
  moreover have "p\<lparr>name := n, description := d_description d, status := st, owner := ow,
      start_date := d_start d, end_date := d_end d,
      p_updated := (case d_updated d of None \<Rightarrow> p_updated p | Some t \<Rightarrow> t)\<rparr> \<noteq> p"
    using ch by (cases p) auto
  ultimately show ?thesis using v f by (simp add: save_delta_def Let_def)
qed

lemma upd_step_load:
  assumes i: "i < length ts" and pc: "u_pc (ts ! i) = UAtLoad"
    and c: "cast_oid (u_pid (ts ! i)) = Some k" and q: "proj_map s k = Some q"
    and m: "may_modify (u_user (ts ! i)) (u_admin (ts ! i)) q"
  shows "upd_step (s, ts) i = (s, ts[i := (ts ! i)\<lparr>u_pc := UAtSave q\<rparr>])"
  using assms unfolding may_modify_def
  by (auto simp: upd_step_def Let_def project_find_by_id_def find_project_proj_map)

lemma upd_step_save:
  assumes i: "i < length ts" and pc: "u_pc (ts ! i) = UAtSave p"
    and sv: "save_delta (u_time (ts ! i)) p (assign_pdoc (pdoc_of_project p) (u_data (ts ! i))) s =
      Inr (p', s')"
  shows "upd_step (s, ts) i = (s', ts[i := (ts ! i)\<lparr>u_pc := UFinished (Inr (populate s' p'))\<rparr>])"
  using assms by (simp add: upd_step_def Let_def)



text \<open>Run without interleaving, the load and the save of one update are
  \<open>updateProject\<close>: the two-step model refines the service function.\<close>

lemma run_updates_serial:
  assumes wf: "db_wf s" and i: "i < length ts" and pc: "u_pc (ts ! i) = UAtLoad"
  shows "run_updates [i, i] (s, ts) =
    (snd (updateProject (u_time (ts ! i)) (u_pid (ts ! i)) (u_data (ts ! i)) (u_user (ts ! i))
       (u_admin (ts ! i)) s),
     ts[i := (ts ! i)\<lparr>u_pc := UFinished (fst (updateProject (u_time (ts ! i)) (u_pid (ts ! i))
       (u_data (ts ! i)) (u_user (ts ! i)) (u_admin (ts ! i)) s))\<rparr>])"
proof (cases "cast_oid (u_pid (ts ! i))")
  case None
  then show ?thesis using i pc
    by (simp add: run_updates_def upd_step_def updateProject_def project_find_by_id_def Let_def)
next
  case (Some k)
  show ?thesis
  proof (cases "proj_map s k")
    case None
    with Some i pc show ?thesis
      by (simp add: run_updates_def upd_step_def updateProject_missing project_find_by_id_def
          find_project_proj_map Let_def)
  next
    case (Some q)
    have qin: "q \<in> set (projects s)" using Some by (simp add: proj_map_in)
    show ?thesis
    proof (cases "may_modify (u_user (ts ! i)) (u_admin (ts ! i)) q")
      case True
      have l: "upd_step (s, ts) i = (s, ts[i := (ts ! i)\<lparr>u_pc := UAtSave q\<rparr>])"
        by (rule upd_step_load [OF i pc \<open>cast_oid _ = Some k\<close> Some True])
      show ?thesis
        using l i True updateProject_found [OF \<open>cast_oid _ = Some k\<close> Some]
        by (simp add: run_updates_def upd_step_def Let_def save_delta_stored [OF wf qin]
            split: sum.splits prod.splits)
    next
      case False
      then show ?thesis using i pc Some updateProject_found [OF \<open>cast_oid _ = Some k\<close> Some]
        unfolding may_modify_def
        by (simp add: run_updates_def upd_step_def Let_def project_find_by_id_def
            find_project_proj_map \<open>cast_oid _ = Some k\<close>)
    qed
  qed
qed


text \<open>Run back to back, the two steps of a delete are \<open>deleteProject\<close>.\<close>

lemma deleteProject_split:
  "deleteProject pid userId isAdmin s =
     (case delete_load pid userId isAdmin s of
        Inl e \<Rightarrow> (Inl e, s)
      | Inr p \<Rightarrow> delete_commit pid s)"
proof (cases "cast_oid pid")
  case None
  then show ?thesis
    by (simp add: deleteProject_def delete_load_def delete_commit_def project_find_by_id_def)
next
  case (Some i)
  then show ?thesis
    by (cases "proj_map s i")
       (auto simp: deleteProject_def delete_load_def delete_commit_def project_find_by_id_def
        find_project_proj_map dest: proj_map_in)
qed

text \<open>
  Claim C20 (safety, \<open>deleteProject\<close>). Under concurrency the ownership check of
  a delete is made on the document as it was loaded. If the
  requester, while owning a project, sends a delete and an update that hands the
  project to another user, and the update runs between the delete's check and
  its \<open>findByIdAndDelete\<close>, the delete removes a project that by then belongs to
  someone else, a non-admin requester included.
\<close>

lemma delete_after_transfer:
  assumes wf: "db_wf s" and q: "proj_map s k = Some q" and k: "k < 16 ^ 24"
    and x: "owner q = x" and v: "v \<noteq> x"
  shows "delete_load (oid_string k) x False s = Inr q \<and>
    (\<exists>p'. proj_map (snd (updateProject now (oid_string k) (no_input\<lparr>in_owner := Some v\<rparr>) x False s)) k
       = Some p' \<and> owner p' = v) \<and>
    delete_commit (oid_string k) (snd (updateProject now (oid_string k) (no_input\<lparr>in_owner := Some v\<rparr>) x False s)) =
      (Inr ''Project deleted successfully'',
       delete_project_doc k (snd (updateProject now (oid_string k) (no_input\<lparr>in_owner := Some v\<rparr>) x False s)))"
proof -
  have c: "cast_oid (oid_string k) = Some k" using k by simp
  have qin: "q \<in> set (projects s)" and qk: "proj_id q = k" using q by (simp_all add: proj_map_in)
  have ok: "project_ok q" using wf qin by (rule project_wf_in)
  let ?d = "assign_pdoc (pdoc_of_project q) (no_input\<lparr>in_owner := Some v\<rparr>)"
  have vd: "validate_pdoc ?d = Inr (name q, status q, v)"
    using ok by (simp add: validate_pdoc_def project_errors_def assign_pdoc_def pdoc_of_project_def
        no_input_def assign_opt_def project_ok_def)
  then obtain p' s' where sv: "save_project now q ?d s = Inr (p', s')"
    by (auto simp: save_project_def Let_def)
  have own: "owner p' = v" using save_project_Inr [OF sv] vd by auto
  have up: "updateProject now (oid_string k) (no_input\<lparr>in_owner := Some v\<rparr>) x False s =
      (Inr (populate s' p'), s')"
    using updateProject_found [OF c q] x sv by (simp add: may_modify_def)
  have "proj_map s' = (proj_map s)(k \<mapsto> p')" using proj_map_save [OF wf qin sv] qk by simp
  moreover have "delete_load (oid_string k) x False s = Inr q"
    using c q x by (simp add: delete_load_def project_find_by_id_def find_project_proj_map)
  ultimately show ?thesis using up own c by (simp add: delete_commit_def)
qed

subsection \<open>Properties\<close>

text \<open>
  Claim C40 (functional, \<open>updateProject\<close>). Two authorised updates of one project
  that load it before either saves do not overwrite each other: when one renames
  the project and the other changes its status, both changes persist, since each
  save sets only the paths it changed. The result is decided per field by the
  last save, not per document (the spec's "last write wins").
\<close>

theorem concurrent_updates_merge:
  assumes wf: "db_wf s" and q: "proj_map s k = Some q" and k: "k < 16 ^ 24"
    and mA: "may_modify uA aA q" and mB: "may_modify uB aB q"
    and nA: "js_trim nA \<noteq> []" "js_trim nA \<noteq> name q" and stB: "stB \<noteq> status q"
  shows "proj_map (fst (run_updates [0, 1, 0, 1] (s,
      [\<lparr>u_pid = oid_string k, u_data = no_input\<lparr>in_name := Some nA\<rparr>, u_user = uA, u_admin = aA,
        u_time = tA, u_pc = UAtLoad\<rparr>,
       \<lparr>u_pid = oid_string k, u_data = no_input\<lparr>in_status := Some (status_string stB)\<rparr>,
        u_user = uB, u_admin = aB, u_time = tB, u_pc = UAtLoad\<rparr>]))) k =
    Some (q\<lparr>name := js_trim nA, status := stB, p_updated := tB\<rparr>)"
proof -
  let ?A = "\<lparr>u_pid = oid_string k, u_data = no_input\<lparr>in_name := Some nA\<rparr>, u_user = uA, u_admin = aA,
        u_time = tA, u_pc = UAtLoad\<rparr>"
  let ?B = "\<lparr>u_pid = oid_string k, u_data = no_input\<lparr>in_status := Some (status_string stB)\<rparr>,
        u_user = uB, u_admin = aB, u_time = tB, u_pc = UAtLoad\<rparr>"
  have qin: "q \<in> set (projects s)" and qk: "proj_id q = k" using q by (simp_all add: proj_map_in)
  have ok: "project_ok q" using wf qin by (rule project_wf_in)
  have c: "cast_oid (oid_string k) = Some k" using k by simp
  have d: "distinct (map proj_id (projects s))" using wf by (simp add: db_wf_def)
  \<comment> \<open>both loads see \<open>q\<close>\<close>
  have s1: "upd_step (s, [?A, ?B]) 0 = (s, [?A\<lparr>u_pc := UAtSave q\<rparr>, ?B])"
    using upd_step_load [of 0 "[?A, ?B]" k s q] c q mA by simp
  have s2: "upd_step (s, [?A\<lparr>u_pc := UAtSave q\<rparr>, ?B]) 1 =
      (s, [?A\<lparr>u_pc := UAtSave q\<rparr>, ?B\<lparr>u_pc := UAtSave q\<rparr>])"
    using upd_step_load [of 1 "[?A\<lparr>u_pc := UAtSave q\<rparr>, ?B]" k s q] c q mB by simp
  \<comment> \<open>A's save sets the name\<close>
  let ?pA = "q\<lparr>name := js_trim nA, p_updated := tA\<rparr>"
  let ?s1 = "s\<lparr>projects := replace_key proj_id ?pA (projects s)\<rparr>"
  have vA: "validate_pdoc (assign_pdoc (pdoc_of_project q) (no_input\<lparr>in_name := Some nA\<rparr>)) =
      Inr (js_trim nA, status q, owner q)"
    using nA by (simp add: validate_pdoc_def project_errors_def assign_pdoc_def pdoc_of_project_def
        no_input_def assign_opt_def)
  have fA: "find_project s (proj_id q) = Some q" using q qk by (simp add: find_project_proj_map)
  have svA: "save_delta tA q (assign_pdoc (pdoc_of_project q) (no_input\<lparr>in_name := Some nA\<rparr>)) s =
      Inr (?pA, ?s1)"
  proof -
    have ne: "q\<lparr>name := js_trim nA, description := description q, status := status q, owner := owner q,
        start_date := start_date q, end_date := end_date q\<rparr> \<noteq> q"
      using nA by (cases q) auto
    have "save_delta tA q (assign_pdoc (pdoc_of_project q) (no_input\<lparr>in_name := Some nA\<rparr>)) s =
      Inr (q\<lparr>name := js_trim nA, description := description q, status := status q, owner := owner q,
        start_date := start_date q, end_date := end_date q, p_updated := tA\<rparr>,
        s\<lparr>projects := replace_key proj_id (apply_delta q
          (q\<lparr>name := js_trim nA, description := description q, status := status q, owner := owner q,
            start_date := start_date q, end_date := end_date q, p_updated := tA\<rparr>) q) (projects s)\<rparr>)"
      using save_delta_write [OF vA fA] ne
      by (simp add: assign_pdoc_def pdoc_of_project_def no_input_def assign_opt_def)
    then show ?thesis by (simp add: apply_delta_loaded)
  qed
  have pm1: "proj_map ?s1 = (proj_map s)(k \<mapsto> ?pA)"
    using proj_map_write [of s ?pA] d q qk by simp
  have s3: "upd_step (s, [?A\<lparr>u_pc := UAtSave q\<rparr>, ?B\<lparr>u_pc := UAtSave q\<rparr>]) 0 =
      (?s1, [?A\<lparr>u_pc := UFinished (Inr (populate ?s1 ?pA))\<rparr>, ?B\<lparr>u_pc := UAtSave q\<rparr>])"
    using upd_step_save [of 0 "[?A\<lparr>u_pc := UAtSave q\<rparr>, ?B\<lparr>u_pc := UAtSave q\<rparr>]" q s ?pA ?s1] svA
    by simp
  \<comment> \<open>B's save sets the status on the stored document, which has A's name\<close>
  let ?pB = "q\<lparr>status := stB, p_updated := tB\<rparr>"
  let ?fin = "q\<lparr>name := js_trim nA, status := stB, p_updated := tB\<rparr>"
  let ?s2 = "?s1\<lparr>projects := replace_key proj_id ?fin (projects ?s1)\<rparr>"
  have vB: "validate_pdoc (assign_pdoc (pdoc_of_project q)
      (no_input\<lparr>in_status := Some (status_string stB)\<rparr>)) = Inr (name q, stB, owner q)"
    using ok by (simp add: validate_pdoc_def project_errors_def assign_pdoc_def pdoc_of_project_def
        no_input_def assign_opt_def project_ok_def)
  have fB: "find_project ?s1 (proj_id q) = Some ?pA" using pm1 qk by (simp add: find_project_proj_map)
  have svB: "save_delta tB q (assign_pdoc (pdoc_of_project q)
      (no_input\<lparr>in_status := Some (status_string stB)\<rparr>)) ?s1 = Inr (?pB, ?s2)"
  proof -
    have ne: "q\<lparr>name := name q, description := description q, status := stB, owner := owner q,
        start_date := start_date q, end_date := end_date q\<rparr> \<noteq> q"
      using stB by (cases q) auto
    have "save_delta tB q (assign_pdoc (pdoc_of_project q)
        (no_input\<lparr>in_status := Some (status_string stB)\<rparr>)) ?s1 =
      Inr (q\<lparr>name := name q, description := description q, status := stB, owner := owner q,
        start_date := start_date q, end_date := end_date q, p_updated := tB\<rparr>,
        ?s1\<lparr>projects := replace_key proj_id (apply_delta q
          (q\<lparr>name := name q, description := description q, status := stB, owner := owner q,
            start_date := start_date q, end_date := end_date q, p_updated := tB\<rparr>) ?pA)
          (projects ?s1)\<rparr>)"
      using save_delta_write [OF vB fB] ne
      by (simp add: assign_pdoc_def pdoc_of_project_def no_input_def assign_opt_def)
    moreover have "apply_delta q (q\<lparr>name := name q, description := description q, status := stB,
        owner := owner q, start_date := start_date q, end_date := end_date q, p_updated := tB\<rparr>) ?pA
        = ?fin"
      using stB nA by (cases q) (simp add: apply_delta_def)
    ultimately show ?thesis by simp
  qed
  have pm2: "proj_map ?s2 = (proj_map ?s1)(k \<mapsto> ?fin)"
    using proj_map_write [of ?s1 ?fin] d pm1 qk by simp
  have s4: "upd_step (?s1, [?A\<lparr>u_pc := UFinished (Inr (populate ?s1 ?pA))\<rparr>, ?B\<lparr>u_pc := UAtSave q\<rparr>]) 1 =
      (?s2, [?A\<lparr>u_pc := UFinished (Inr (populate ?s1 ?pA))\<rparr>,
             ?B\<lparr>u_pc := UFinished (Inr (populate ?s2 ?pB))\<rparr>])"
    using upd_step_save [of 1 "[?A\<lparr>u_pc := UFinished (Inr (populate ?s1 ?pA))\<rparr>, ?B\<lparr>u_pc := UAtSave q\<rparr>]"
        q ?s1 ?pB ?s2] svB
    by simp
  show ?thesis using s1 s2 s3 s4 pm2 by (simp add: run_updates_def)
qed


theorem concurrent_updates_merge_witness:
  "proj_map (fst (run_updates [0, 1, 0, 1] (example_db,
      [\<lparr>u_pid = oid_string 3, u_data = no_input\<lparr>in_name := Some ''Y''\<rparr>, u_user = 1, u_admin = False,
        u_time = 40, u_pc = UAtLoad\<rparr>,
       \<lparr>u_pid = oid_string 3, u_data = no_input\<lparr>in_status := Some (status_string Completed)\<rparr>,
        u_user = 2, u_admin = True, u_time = 41, u_pc = UAtLoad\<rparr>]))) 3 =
    Some (example_project\<lparr>name := ''Y'', status := Completed, p_updated := 41\<rparr>)"
proof -
  have t: "js_trim ''Y'' = ''Y''" by (simp add: js_trim_def js_space_def)
  have "proj_map (fst (run_updates [0, 1, 0, 1] (example_db,
      [\<lparr>u_pid = oid_string 3, u_data = no_input\<lparr>in_name := Some ''Y''\<rparr>, u_user = 1, u_admin = False,
        u_time = 40, u_pc = UAtLoad\<rparr>,
       \<lparr>u_pid = oid_string 3, u_data = no_input\<lparr>in_status := Some (status_string Completed)\<rparr>,
        u_user = 2, u_admin = True, u_time = 41, u_pc = UAtLoad\<rparr>]))) 3 =
    Some (example_project\<lparr>name := js_trim ''Y'', status := Completed, p_updated := 41\<rparr>)"
  proof (rule concurrent_updates_merge [OF example_db_wf example_proj_map])
    show "(3::nat) < 16 ^ 24" by simp
    show "may_modify 1 False example_project" "may_modify 2 True example_project"
      by (simp_all add: may_modify_def example_project_def)
    show "js_trim ''Y'' \<noteq> []" "js_trim ''Y'' \<noteq> name example_project"
      using t by (simp_all add: example_project_def)
    show "Completed \<noteq> status example_project" by (simp add: example_project_def)
  qed
  then show ?thesis using t by simp
qed


theorem delete_after_transfer_witness:
  "delete_load (oid_string 3) 1 False example_db = Inr example_project \<and>
   (\<exists>p'. proj_map (snd (updateProject 40 (oid_string 3) (no_input\<lparr>in_owner := Some 2\<rparr>) 1 False
      example_db)) 3 = Some p' \<and> owner p' = 2) \<and>
   proj_map (snd (delete_commit (oid_string 3) (snd (updateProject 40 (oid_string 3)
      (no_input\<lparr>in_owner := Some 2\<rparr>) 1 False example_db)))) 3 = None"
proof -
  have "owner example_project = 1" by (simp add: example_project_def)
  from delete_after_transfer [OF example_db_wf example_proj_map _ this, of 2 40] show ?thesis
    by (simp add: proj_map_delete)
qed

end
