(* ===== verification/Spec2Isabelle.thy ===== *)
theory Spec2Isabelle
  imports Routes Concurrency Connection UpdateRace
begin

text \<open>
  \<^bold>\<open>A verification model of Client-Project-Tracker.\<close>

  The repository is an Express/Mongoose REST API. Users register and log in
  (\<open>src/modules/auth/services/index.js\<close>, routes in \<open>src/routes/auth/index.js\<close>)
  and receive a JWT; with it they create, list, read, update and delete projects
  (\<open>src/modules/project/services/index.js\<close>, routes in
  \<open>src/routes/project/index.js\<close>), every project route first passing the
  \<open>auth\<close> middleware of \<open>src/middlewares/auth.js\<close>. The role guards of
  \<open>src/middlewares/roles.js\<close> exist but the routes test role and owner inline.
  \<open>src/routes/index.js\<close> mounts both routers and the health check. All state
  lives in MongoDB.

  \<^bold>\<open>Theories,\<close> in import order.
  \<^item> \<open>Prelude\<close>: identifiers, clock values and results (\<open>string + 'a\<close>, the
    left side the message of a thrown \<open>Error\<close>, since the routes choose a status
    from it); the JavaScript string built-ins the code calls (\<open>trim\<close>,
    \<open>startsWith\<close>, \<open>substring\<close>, \<open>includes\<close>, \<open>join\<close>); keyed collections
    and their finite-map abstraction \<open>key_map\<close>.
  \<^item> \<open>Store\<close>: the Project schema of \<open>src/modules/project/model/index.js\<close>
    (trimming setters, \<open>required\<close>/\<open>enum\<close> validators with Mongoose's
    messages, default status) with the paths Mongoose adds to it: \<open>_id\<close>, and
    \<open>createdAt\<close>/\<open>updatedAt\<close> of \<open>timestamps: true\<close>. A request body may
    carry all three: \<open>new_pdoc\<close> keeps them, \<open>save_new_project\<close> stores the
    body's \<open>_id\<close> (failing with MongoDB's duplicate-key error when it is taken)
    or a fresh one and the body's \<open>createdAt\<close> or the current time, with
    \<open>updatedAt\<close> equal to it; \<open>assign_pdoc\<close> (\<open>Object.assign\<close>) ignores
    \<open>createdAt\<close>, which the timestamps plugin makes immutable, and
    \<open>save_project\<close> sets \<open>updatedAt\<close> to the current time when a path changed.
    From the spec, since they are not in the sources: the User model, bcrypt
    (with its 72-byte truncation), \<open>findOne\<close> and the ObjectId cast and
    printing. The database \<open>db\<close> is the two collections in natural order and an
    allocation counter; the invariant \<open>db_wf\<close> (unique ids below the counter,
    every stored project valid) is kept by every write.
  \<^item> \<open>ProjectService\<close>: the five service functions, each returning its result
    with the database after the call; C1 to C7, C17 and C34.
  \<^item> \<open>Jwt\<close>: \<open>jwt.sign\<close>/\<open>jwt.verify\<close> of the \<open>jsonwebtoken\<close> library
    (spec-modelled): a payload codec (escaped fields, decimal numbers) with
    \<open>decode_payload (encode_payload c) = Some c\<close>, a MAC under the secret, and
    expiry in whole seconds.
  \<^item> \<open>AuthService\<close>: \<open>registerUser\<close>, \<open>loginUser\<close>, \<open>generateToken\<close>,
    \<open>verifyToken\<close>, \<open>getUserById\<close>; C8 to C15.
  \<^item> \<open>Http\<close>: requests, middleware outcomes (\<open>Next\<close> or \<open>Halt\<close> with a
    status) and responses.
  \<^item> \<open>Roles\<close> (C16) and \<open>AuthMiddleware\<close> (C18, C19): the middlewares.
  \<^item> \<open>Routes\<close>: every handler with its status codes, and \<open>handle\<close>, one request
    of the whole application (endpoint, header, clock) as a function of the
    database; C21 to C28, C38, and the response envelope of every request (C39),
    which rests on the collection \<open>error_messages\<close> (Prelude): for each
    service operation and for \<open>auth\<close>, every error it throws has a non-empty
    message.
  \<^item> \<open>Concurrency\<close>: \<open>registerUser\<close> split at its two awaits into an atomic
    check (\<open>register_check\<close>) and an atomic save (\<open>register_save\<close>), which
    composed are \<open>registerUser\<close> (\<open>registerUser_split\<close>); pending
    registrations are threads and a schedule (\<open>run_schedule\<close>) interleaves their
    steps; C35.
  \<^item> \<open>UpdateRace\<close>: \<open>updateProject\<close> as a load step (\<open>findById\<close> and the
    ownership check) and a save step; Mongoose's \<open>save()\<close> checks that the
    document still exists (\<open>DocumentNotFoundError\<close> otherwise) and writes only
    the changed paths (\<open>save_delta\<close>, which is \<open>save_project\<close> against the
    database the document was loaded from); C40. \<open>deleteProject\<close> as a load
    step (\<open>findById\<close> and the ownership check) and a commit step
    (\<open>findByIdAndDelete\<close>), with the race between them (C20).
  \<^item> \<open>Connection\<close>: \<open>src/databases/connect-mongo.js\<close>, the connection URL with
    its default and the connect/disconnect outcomes on a process record (its
    driver is a parameter; no property states more than the definitions).
  \<^item> This theory: the application as a transition system (\<open>reachable\<close>, and
    \<open>run\<close> for a sequence of requests), with the properties that span
    components, C29 to C33, C36 and C37.

  \<^bold>\<open>What is shown.\<close> Ownership enforcement in the service (C1 to C4) and
  for the whole API (C30: no request changes or removes a project unless it
  authenticated as the owner or an admin); the contents and order of the project
  list (C5, C6); what creation stores (C7, C26), and that a create never
  overwrites a stored project (C17); what an update does to the timestamps (C34);
  the token life cycle (C8, C10, C11, C31); uniform login failure (C9);
  registration (C12, C13); the guards (C16, C18, C19); the status codes of the
  routes (C21 to C25, C28, C38); the invariant of all reachable databases (C29)
  and email uniqueness under one-at-a-time handling (C33); the spec's end-to-end
  scenario (C32); every response has a status of the spec's table and a
  consistent envelope whose errors always carry a non-empty message (C39).
  Several are findings: a client chooses the id and creation time of a new
  project (C7); role self-escalation at registration (C14); a missing email
  matching the first user (C15); 500 for a project whose owner was reassigned
  (C22); 403 for a validation error that echoes \<open>permission\<close> (C24);
  inconsistent statuses for malformed ids (C25); owner transfer through update
  (C27); two interleaved registrations storing one email twice (C35); a login
  accepts exactly the passwords that agree with the registered one on 72
  characters (C36); an update interleaved with a delete answers 400 where the
  spec says 404 (C37); two concurrent updates of different fields both persist,
  last write winning per field rather than per document (C40); and a delete
  checked while its requester owned the project removes it after a concurrent
  update handed it to someone else (C20): the access control of C30 holds when
  requests are handled one at a time, not under interleaving.

  \<^bold>\<open>Modelling choices.\<close> Time is an argument of each request (milliseconds);
  ObjectIds are natural numbers (\<open>cast_oid (oid_string i) = Some i\<close> holds below
  \<open>16^24\<close>, the hypothesis of the token properties), and the server's
  generation of a new one is a counter kept above every stored id, client-supplied
  ones included, which stands for ObjectId generation never meeting a stored id; a
  bcrypt salt is the new user's id; key derivation and MAC are parameters of a
  \<open>config\<close> record, so every property holds for any of them. Outside
  \<open>Concurrency\<close> and \<open>UpdateRace\<close> each request is one atomic function of the
  database. All definitions are total and executable (schedules are finite
  lists), so no fuel is needed. The duplicate-key message names the default
  database \<open>client-tracker\<close> of \<open>connect-mongo.js\<close>.

  \<^bold>\<open>Not modelled.\<close> The User model, \<open>jsonwebtoken\<close>, \<open>bcrypt\<close> and
  Mongoose are not under \<open>src/\<close>: they are modelled from the spec and the
  libraries' documented behaviour only as far as the code uses them, which is why
  the credential store, the document store and the JWT library are partly
  modelled. The Node.js event loop is not code of the repository; the concurrency
  theories range over every order it can produce. What the MongoDB driver does
  on the network (its answer to a connection attempt is a parameter of
  \<open>Connection\<close>), and logging beyond the lines printed. Interleaving is
  modelled for registration (\<open>Concurrency\<close>), update and delete
  (\<open>UpdateRace\<close>); create, list and read make a single write or none, and
  \<open>handle\<close> runs every request as one atomic step. The base64url/JSON layout
  of real JWTs and the cryptographic strength of the MAC. Casting of arbitrary
  JSON values in request bodies: bodies are records of optional strings, ids and
  times, so a value that fails to cast (an id, owner or date) is not modelled.
  An \<open>_id\<close> in an update body: \<open>Object.assign\<close> would set it on the loaded
  document, and what \<open>save()\<close> then writes depends on Mongoose internals; the
  model keeps the loaded id, so the frame and access-control properties (C3,
  C30) assume update bodies without \<open>_id\<close>.
\<close>


section \<open>The application as a transition system\<close>

text \<open>
  The server handles one request at a time; each request is a step of the
  database. The reachable databases are those of any sequence of requests, with
  any headers, bodies and clock values, from the empty database.
\<close>

inductive reachable :: "config \<Rightarrow> db \<Rightarrow> bool" for cfg where
  init: "reachable cfg empty_db"
| step: "reachable cfg s \<Longrightarrow> handle cfg now hdr ep s = (r, s') \<Longrightarrow> reachable cfg s'"

text \<open>A sequence of requests, each with its clock value and \<open>Authorization\<close>
  header, handled in order; the responses in order and the final database.\<close>

fun run :: "config \<Rightarrow> (time \<times> string option \<times> endpoint) list \<Rightarrow> db \<Rightarrow> response list \<times> db" where
  "run cfg [] s = ([], s)"
| "run cfg ((now, hdr, ep) # rqs) s =
     (let (r, s') = handle cfg now hdr ep s; (rs, s'') = run cfg rqs s' in (r # rs, s''))"

text \<open>The scenario of the spec: Alice registers, logs in, and creates a project.\<close>

definition alice_register :: register_input where
  "alice_register = \<lparr>r_email = Some ''alice@example.com'', r_password = Some ''pw123'', r_role = None\<rparr>"

definition alice_login :: login_body where
  "alice_login = \<lparr>l_email = Some ''alice@example.com'', l_password = Some ''pw123''\<rparr>"

subsection \<open>Lemmas\<close>

lemma handle_cases:
  assumes "handle cfg now hdr ep s = (r, s')"
  shows "s' = s \<or>
    (\<exists>b x. ep = Register b \<and> registerUser cfg now b s = (x, s')) \<or>
    (\<exists>req u. auth cfg now s (bare_request hdr) = Next req \<and> req_user req = Some u \<and>
       project_route now u ep s = (r, s'))"
  using assms
  by (cases ep) (auto simp: handle_def post_register_def split: mw.splits option.splits
      sum.splits prod.splits)

lemma project_route_cases:
  assumes "project_route now u ep s = (r, s')"
  shows "s' = s \<or>
    (\<exists>b x. createProject now (b\<lparr>in_owner := Some (uv_id u)\<rparr>) s = (x, s')) \<or>
    (\<exists>pid b x. updateProject now pid b (uv_id u) (uv_role u = Admin) s = (x, s')) \<or>
    (\<exists>pid x. deleteProject pid (uv_id u) (uv_role u = Admin) s = (x, s'))"
  using assms
  by (cases "(now, u, ep, s)" rule: project_route.cases)
     (auto simp: post_projects_def put_project_def delete_project_def Let_def
      split: sum.splits prod.splits)

lemma handle_wf:
  assumes wf: "db_wf s" and h: "handle cfg now hdr ep s = (r, s')"
  shows "db_wf s'"
  using handle_cases [OF h]
proof (elim disjE exE conjE)
  assume "s' = s"
  with wf show ?thesis by simp
next
  fix b x
  assume "registerUser cfg now b s = (x, s')"
  with wf show ?thesis by (rule registerUser_wf)
next
  fix req u
  assume "project_route now u ep s = (r, s')"
  then show ?thesis using project_route_cases wf createProject_wf updateProject_wf deleteProject_wf
    by metis
qed

lemma find_user_distinct:
  "db_wf s \<Longrightarrow> u \<in> set (users s) \<Longrightarrow> find_user s (user_id u) = Some u"
  by (simp add: find_user_def find_key_map key_map_distinct_in db_wf_def)

lemma auth_generateToken:
  assumes wf: "db_wf s" and u: "u \<in> set (users s)" and small: "user_id u < 16 ^ 24"
    and fresh: "now div 1000 < t0 div 1000 + 604800"
  shows "auth cfg now s (bare_request (Some (''Bearer '' @ generateToken cfg
      \<lparr>tp_userId = oid_string (user_id u), tp_email = e, tp_role = rl\<rparr> t0))) =
    Next ((bare_request (Some (''Bearer '' @ generateToken cfg
      \<lparr>tp_userId = oid_string (user_id u), tp_email = e, tp_role = rl\<rparr> t0)))\<lparr>
      req_user := Some (user_view_of u),
      req_token := Some (generateToken cfg
        \<lparr>tp_userId = oid_string (user_id u), tp_email = e, tp_role = rl\<rparr> t0)\<rparr>)"
proof -
  let ?t = "generateToken cfg \<lparr>tp_userId = oid_string (user_id u), tp_email = e, tp_role = rl\<rparr> t0"
  have h: "authorization (bare_request (Some (''Bearer '' @ ?t))) = Some (''Bearer '' @ ?t)"
    by (simp add: bare_request_def)
  have sub: "js_substring (''Bearer '' @ ?t) 7 = ?t"
    by (simp add: js_substring_def)
  have "getUserById s (oid_string (user_id u)) = Inr (user_view_of u)"
    using find_user_distinct [OF wf u] small by (simp add: getUserById_def user_find_by_id_def)
  then show ?thesis
    using auth_bearer [OF h js_starts_with_append] sub fresh
    by (simp add: verifyToken_generateToken)
qed

lemma reachable_run: "reachable cfg s \<Longrightarrow> reachable cfg (snd (run cfg rqs s))"
proof (induction rqs arbitrary: s)
  case Nil
  then show ?case by simp
next
  case (Cons rq rqs)
  obtain now hdr ep where rq: "rq = (now, hdr, ep)" by (cases rq) auto
  obtain r s' where h: "handle cfg now hdr ep s = (r, s')" by (cases "handle cfg now hdr ep s") auto
  have "reachable cfg s'" using reachable.step [OF Cons.prems h] .
  then have "reachable cfg (snd (run cfg rqs s'))" by (rule Cons.IH)
  then show ?case using rq h by (cases "run cfg rqs s'") simp
qed

lemma createProject_users: "createProject now d s = (r, s') \<Longrightarrow> users s' = users s"
  by (drule createProject_db) (auto dest!: save_new_project_Inr)

lemma updateProject_users: "updateProject now pid d uid adm s = (r, s') \<Longrightarrow> users s' = users s"
  by (drule updateProject_db) (auto dest!: save_project_Inr)

lemma deleteProject_users: "deleteProject pid uid adm s = (r, s') \<Longrightarrow> users s' = users s"
  by (drule deleteProject_db) (auto simp: delete_project_doc_def)

lemma project_route_users:
  assumes "project_route now u ep s = (r, s')"
  shows "users s' = users s"
  using project_route_cases [OF assms] createProject_users updateProject_users deleteProject_users
  by blast

lemma handle_emails_unique:
  assumes u: "emails_unique s" and h: "handle cfg now hdr ep s = (r, s')"
  shows "emails_unique s'"
  using handle_cases [OF h]
proof (elim disjE exE conjE)
  assume "s' = s"
  with u show ?thesis by simp
next
  fix b x
  assume "registerUser cfg now b s = (x, s')"
  with u show ?thesis by (rule registerUser_emails_unique)
next
  fix req v
  assume "project_route now v ep s = (r, s')"
  then have "users s' = users s" by (rule project_route_users)
  with u show ?thesis by (simp add: emails_unique_def)
qed

lemma registerUser_lookup:
  assumes "registerUser cfg t d s = (Inr v, s')"
  shows "\<exists>em pw u. r_email d = Some em \<and> r_password d = Some pw \<and>
    find_user_by_email s' (Some em) = Some u \<and> password u = bcrypt_hash cfg (next_oid s) pw"
proof -
  obtain rl u where nf: "find_user_by_email s (r_email d) = None"
    and sv: "save_new_user cfg t (r_email d) (r_password d) rl s = Inr (u, s')"
    using assms by (auto simp: registerUser_def Let_def split: option.splits sum.splits)
  obtain em pw where e: "r_email d = Some em" "r_password d = Some pw"
    and u: "email u = em" "password u = bcrypt_hash cfg (next_oid s) pw"
    and s': "users s' = users s @ [u]"
    using save_new_user_Inr [OF sv] by auto
  have "find (\<lambda>w. email w = em) (users s) = None" using nf e by (simp add: find_user_by_email_def)
  then have "find_user_by_email s' (Some em) = Some u"
    using u s' by (simp add: find_user_by_email_def find_append)
  with e u show ?thesis by blast
qed




lemma run_cons:
  "run cfg ((now, hdr, ep) # rqs) s =
    (fst (handle cfg now hdr ep s) # fst (run cfg rqs (snd (handle cfg now hdr ep s))),
     snd (run cfg rqs (snd (handle cfg now hdr ep s))))"
  by (simp split: prod.splits)

lemma run_wf: "db_wf s \<Longrightarrow> db_wf (snd (run cfg rqs s))"
proof (induction rqs arbitrary: s)
  case Nil
  then show ?case by simp
next
  case (Cons rq rqs)
  obtain now hdr ep where rq: "rq = (now, hdr, ep)" by (cases rq) auto
  have "db_wf (snd (handle cfg now hdr ep s))"
    using handle_wf [OF Cons.prems prod.collapse [symmetric]] .
  then show ?case using Cons.IH unfolding rq run_cons snd_conv by blast
qed

subsection \<open>Properties\<close>

text \<open>
  Claim C29 (invariant, \<open>handle\<close>). Every database reachable by any sequence of
  requests is well formed: ObjectIds are unique in each collection and below the
  allocation counter, and every stored project has a trimmed, non-empty name and a
  trimmed description.
\<close>

theorem reachable_db_wf:
  assumes "reachable cfg s"
  shows "db_wf s"
  using assms
proof (induction rule: reachable.induct)
  case init
  show ?case by (rule empty_db_wf)
next
  case (step s now hdr ep r s')
  then show ?case using handle_wf by blast
qed

theorem reachable_db_wf_witness:
  "db_wf (snd (handle example_cfg 0 None (Register \<lparr>r_email = Some ''a@b'', r_password = Some ''p'',
     r_role = None\<rparr>) empty_db))"
  using reachable_db_wf [OF reachable.step [OF reachable.init prod.collapse [symmetric]]] .



text \<open>
  Claim C31 (functional, \<open>loginUser\<close>, \<open>auth\<close>). The token a successful login
  returns opens the project routes for seven days: a request carrying it as
  \<open>Bearer\<close> token passes \<open>auth\<close>, which attaches the logged-in user (without
  password) and the token.
\<close>

theorem login_auth_integration:
  assumes wf: "db_wf s" and login: "loginUser cfg now em pw s = Inr r"
    and small: "uv_id (lr_user r) < 16 ^ 24"
    and fresh: "now' div 1000 < now div 1000 + 604800"
  shows "auth cfg now' s (bare_request (Some (''Bearer '' @ lr_token r))) =
    Next ((bare_request (Some (''Bearer '' @ lr_token r)))\<lparr>req_user := Some (lr_user r),
      req_token := Some (lr_token r)\<rparr>)"
proof -
  obtain u where u: "find_user_by_email s (Some em) = Some u"
    and r: "r = \<lparr>lr_user = user_view_of u,
                lr_token = generateToken cfg \<lparr>tp_userId = oid_string (user_id u),
                  tp_email = email u, tp_role = role_string (role u)\<rparr> now\<rparr>"
    using login by (auto simp: loginUser_def split: option.splits if_splits)
  have "u \<in> set (users s)" using find_user_by_email_Some [OF u] by simp
  from auth_generateToken [OF wf this, of now' now cfg "email u" "role_string (role u)"]
  show ?thesis using r small fresh by (simp add: user_view_of_def)
qed

theorem login_auth_integration_witness:
  "auth example_cfg 2000 example_db (bare_request (Some (''Bearer '' @
      lr_token (projr (loginUser example_cfg 1000 ''alice@example.com'' ''h'' example_db))))) =
    Next ((bare_request (Some (''Bearer '' @
      lr_token (projr (loginUser example_cfg 1000 ''alice@example.com'' ''h'' example_db)))))\<lparr>
      req_user := Some (lr_user (projr (loginUser example_cfg 1000 ''alice@example.com'' ''h''
        example_db))),
      req_token := Some (lr_token (projr (loginUser example_cfg 1000 ''alice@example.com'' ''h''
        example_db)))\<rparr>)"
proof -
  have "uv_id (lr_user (projr (loginUser example_cfg 1000 ''alice@example.com'' ''h'' example_db)))
      < 16 ^ 24"
    by (simp add: loginUser_def find_user_by_email_def example_db_def example_user_def
        example_cfg_def bcrypt_compare_def user_view_of_def)
  from login_auth_integration [OF example_db_wf example_login this, of 2000] show ?thesis by simp
qed

text \<open>
  Claim C32 (functional, \<open>handle\<close>). The spec's end-to-end scenario, for any
  key derivation, MAC and secret: on a fresh database, Alice registers (201, a
  member with id 1), logs in (200, a token for her id, email and role), and within
  seven days posts a project named \<open>" X "\<close> with that token as \<open>Bearer\<close>
  header (201, the project stored trimmed, with status \<open>planning\<close>, owned by
  her and populated with her email and role).
\<close>

theorem register_login_create:
  assumes fresh: "t3 div 1000 < t2 div 1000 + 604800"
  shows "run cfg [(t1, None, Register alice_register), (t2, None, Login alice_login),
      (t3, Some (''Bearer '' @ generateToken cfg \<lparr>tp_userId = oid_string 1,
         tp_email = ''alice@example.com'', tp_role = ''member''\<rparr> t2),
       CreateProject (no_input\<lparr>in_name := Some '' X ''\<rparr>))] empty_db =
    ([ok_response 201 (Some ''User registered successfully'') (Some (PUser
        \<lparr>uv_id = 1, uv_email = ''alice@example.com'', uv_role = Member, uv_created = t1, uv_updated = t1\<rparr>)),
      ok_response 200 (Some ''Login successful'') (Some (PLogin
        \<lparr>lr_user = \<lparr>uv_id = 1, uv_email = ''alice@example.com'', uv_role = Member, uv_created = t1,
           uv_updated = t1\<rparr>,
         lr_token = generateToken cfg \<lparr>tp_userId = oid_string 1,
           tp_email = ''alice@example.com'', tp_role = ''member''\<rparr> t2\<rparr>)),
      ok_response 201 (Some ''Project created successfully'') (Some (PProject
        \<lparr>pv_project = \<lparr>proj_id = 2, name = ''X'', description = None, status = Planning, owner = 1,
           start_date = None, end_date = None, p_created = t3, p_updated = t3\<rparr>,
         pv_owner = Some \<lparr>ref_id = 1, ref_email = ''alice@example.com'', ref_role = Member\<rparr>\<rparr>))],
     \<lparr>users = [\<lparr>user_id = 1, email = ''alice@example.com'', password = bcrypt_hash cfg 1 ''pw123'',
        role = Member, u_created = t1, u_updated = t1\<rparr>],
      projects = [\<lparr>proj_id = 2, name = ''X'', description = None, status = Planning, owner = 1,
           start_date = None, end_date = None, p_created = t3, p_updated = t3\<rparr>],
      next_oid = 3\<rparr>)"
proof -
  let ?u = "\<lparr>user_id = 1, email = ''alice@example.com'', password = bcrypt_hash cfg 1 ''pw123'',
        role = Member, u_created = t1, u_updated = t1\<rparr>"
  let ?s1 = "\<lparr>users = [?u], projects = [], next_oid = 2\<rparr>"
  have r1: "handle cfg t1 None (Register alice_register) empty_db =
     (ok_response 201 (Some ''User registered successfully'') (Some (PUser (user_view_of ?u))), ?s1)"
    by (simp add: handle_def post_register_def registerUser_def alice_register_def
        find_user_by_email_def empty_db_def save_new_user_def user_errors_def parse_role_def Let_def)
  have r2: "handle cfg t2 None (Login alice_login) ?s1 =
     (ok_response 200 (Some ''Login successful'') (Some (PLogin \<lparr>lr_user = user_view_of ?u,
       lr_token = generateToken cfg \<lparr>tp_userId = oid_string 1,
           tp_email = ''alice@example.com'', tp_role = ''member''\<rparr> t2\<rparr>)), ?s1)"
    by (simp add: handle_def post_login_def loginUser_def alice_login_def find_user_by_email_def
        bcrypt_compare_hash)
  have wf1: "db_wf ?s1" by (simp add: db_wf_def)
  have a: "auth cfg t3 ?s1 (bare_request (Some (''Bearer '' @ generateToken cfg \<lparr>tp_userId = oid_string 1,
         tp_email = ''alice@example.com'', tp_role = ''member''\<rparr> t2))) =
      Next ((bare_request (Some (''Bearer '' @ generateToken cfg \<lparr>tp_userId = oid_string 1,
         tp_email = ''alice@example.com'', tp_role = ''member''\<rparr> t2)))\<lparr>req_user := Some (user_view_of ?u),
         req_token := Some (generateToken cfg \<lparr>tp_userId = oid_string 1,
         tp_email = ''alice@example.com'', tp_role = ''member''\<rparr> t2)\<rparr>)"
    using auth_generateToken [OF wf1, of ?u t3 t2 cfg] fresh by simp
  have r3: "handle cfg t3 (Some (''Bearer '' @ generateToken cfg \<lparr>tp_userId = oid_string 1,
         tp_email = ''alice@example.com'', tp_role = ''member''\<rparr> t2))
       (CreateProject (no_input\<lparr>in_name := Some '' X ''\<rparr>)) ?s1 =
     (ok_response 201 (Some ''Project created successfully'') (Some (PProject
        \<lparr>pv_project = \<lparr>proj_id = 2, name = ''X'', description = None, status = Planning, owner = 1,
           start_date = None, end_date = None, p_created = t3, p_updated = t3\<rparr>,
         pv_owner = Some \<lparr>ref_id = 1, ref_email = ''alice@example.com'', ref_role = Member\<rparr>\<rparr>)),
      ?s1\<lparr>projects := [\<lparr>proj_id = 2, name = ''X'', description = None, status = Planning, owner = 1,
           start_date = None, end_date = None, p_created = t3, p_updated = t3\<rparr>], next_oid := 3\<rparr>)"
    using a
    by (simp add: handle_def post_projects_def createProject_def save_new_project_def
        validate_pdoc_def project_errors_def new_pdoc_def no_input_def js_trim_def js_space_def
        parse_status_def user_view_of_def populate_def find_user_def owner_ref_of_def Let_def
        find_project_def)
  show ?thesis using r1 r2 r3 by (simp add: user_view_of_def)
qed
theorem register_login_create_witness:
  "res_status (fst (run example_cfg [(0, None, Register alice_register), (0, None, Login alice_login),
      (0, Some (''Bearer '' @ generateToken example_cfg \<lparr>tp_userId = oid_string 1,
         tp_email = ''alice@example.com'', tp_role = ''member''\<rparr> 0),
       CreateProject (no_input\<lparr>in_name := Some '' X ''\<rparr>))] empty_db) ! 2) = 201"
  using register_login_create [of 0 0 example_cfg 0]
  by (simp add: ok_response_def)

text \<open>
  Claim C33 (invariant, \<open>handle\<close>, \<open>registerUser\<close>). When requests are handled
  one at a time, no two stored users share an email: registration checks the email
  before it saves, and no other request writes users. The theory
  \<open>Concurrency\<close> shows that the check does not suffice once two registrations
  interleave.
\<close>

theorem reachable_emails_unique:
  assumes "reachable cfg s"
  shows "emails_unique s"
  using assms
proof (induction rule: reachable.induct)
  case init
  show ?case by (simp add: emails_unique_def empty_db_def)
next
  case (step s now hdr ep r s')
  then show ?case using handle_emails_unique by blast
qed

theorem reachable_emails_unique_witness:
  "emails_unique (snd (handle example_cfg 0 None (Register \<lparr>r_email = Some ''a@b'', r_password = Some ''p'',
     r_role = None\<rparr>) empty_db))"
  using reachable_emails_unique [OF reachable.step [OF reachable.init prod.collapse [symmetric]]] .

text \<open>
  Claim C36 (functional, \<open>loginUser\<close>). After a registration with password
  \<open>pw\<close>, a login with \<open>pw'\<close> succeeds exactly when \<open>pw'\<close> agrees with
  \<open>pw\<close> on its first 72 characters: the password check is the only gate, and
  bcrypt reads no more than 72 bytes, while neither handler bounds the length of
  a password (assuming the key derivation separates the passwords it reads).
\<close>

theorem login_bcrypt_truncation:
  assumes reg: "registerUser cfg t0 \<lparr>r_email = Some em, r_password = Some pw, r_role = rl\<rparr> s = (Inr v, s')"
    and inj: "inj (kdf cfg (next_oid s))"
  shows "(\<exists>r. loginUser cfg now em pw' s' = Inr r) \<longleftrightarrow> take 72 pw' = take 72 pw"
proof -
  obtain u where f: "find_user_by_email s' (Some em) = Some u"
    and p: "password u = bcrypt_hash cfg (next_oid s) pw"
    using registerUser_lookup [OF reg] by auto
  have "bcrypt_compare cfg pw' (password u) \<longleftrightarrow> take 72 pw' = take 72 pw"
    using p inj by (simp add: bcrypt_compare_def bcrypt_hash_def inj_eq)
  then show ?thesis using f by (simp add: loginUser_def)
qed

theorem login_bcrypt_truncation_witness:
  "\<not> isl (loginUser example_cfg 5 ''a@b'' (replicate 72 CHR ''a'' @ ''2'')
     (snd (registerUser example_cfg 0 \<lparr>r_email = Some ''a@b'',
        r_password = Some (replicate 72 CHR ''a'' @ ''1''), r_role = None\<rparr> empty_db))) \<and>
   isl (loginUser example_cfg 5 ''a@b'' ''pw''
     (snd (registerUser example_cfg 0 \<lparr>r_email = Some ''a@b'',
        r_password = Some (replicate 72 CHR ''a'' @ ''1''), r_role = None\<rparr> empty_db)))"
proof -
  let ?d = "\<lparr>r_email = Some ''a@b'', r_password = Some (replicate 72 CHR ''a'' @ ''1''), r_role = None\<rparr>"
  let ?s' = "snd (registerUser example_cfg 0 ?d empty_db)"
  have "\<exists>v. registerUser example_cfg 0 ?d empty_db = (Inr v, ?s')"
    by (simp add: registerUser_def find_user_by_email_def empty_db_def save_new_user_def
        user_errors_def parse_role_def Let_def)
  then obtain v where reg: "registerUser example_cfg 0 ?d empty_db = (Inr v, ?s')" by blast
  have inj: "inj (kdf example_cfg (next_oid empty_db))" by (simp add: example_cfg_def)
  have a: "\<exists>r. loginUser example_cfg 5 ''a@b'' (replicate 72 CHR ''a'' @ ''2'') ?s' = Inr r"
    using login_bcrypt_truncation [OF reg inj, of 5 "replicate 72 CHR ''a'' @ ''2''"] by simp
  have "length ''pw'' \<noteq> length (replicate 72 CHR ''a'')" by simp
  then have "''pw'' \<noteq> replicate 72 CHR ''a''" by metis
  then have b: "\<not> (\<exists>r. loginUser example_cfg 5 ''a@b'' ''pw'' ?s' = Inr r)"
    using login_bcrypt_truncation [OF reg inj, of 5 "''pw''"] by simp
  from a b show ?thesis
    by (cases "loginUser example_cfg 5 ''a@b'' ''pw'' ?s'") auto
qed




end
